theory Spec2Isabelle
  imports Main "HOL-Library.Word" "HOL-Library.Signed_Division"
begin

unbundle bit_operations_syntax

section \<open>Machine types and error codes\<close>

type_synonym u8 = "8 word"
type_synonym u32 = "32 word"
type_synonym s32 = "32 word"
type_synonym u64 = "64 word"
type_synonym s64 = "64 word"
type_synonym bytes = "u8 list"

text \<open>
  The error codes of \<^verbatim>\<open>GF_Err\<close> that the two filters return or signal. \<^verbatim>\<open>GF_OK\<close> is
  the only code that tests false in \<^verbatim>\<open>if (e)\<close>.
\<close>

datatype GF_Err =
    GF_OK
  | GF_EOS
  | GF_NOT_SUPPORTED
  | GF_SERVICE_ERROR
  | GF_NON_COMPLIANT_BITSTREAM
  | GF_URL_ERROR
  | GF_OUT_OF_MEM
  | GF_REQUIRES_NEW_INSTANCE

section \<open>Pins, properties and packets\<close>

datatype prop_key =
    GF_PROP_PID_STREAM_TYPE
  | GF_PROP_PID_OTI
  | GF_PROP_PID_TIMESCALE
  | GF_PROP_PID_ID
  | GF_PROP_PID_CLOCK_ID
  | GF_PROP_PID_FPS
  | GF_PROP_PID_WIDTH
  | GF_PROP_PID_HEIGHT
  | GF_PROP_PID_SAR
  | GF_PROP_PID_DURATION
  | GF_PROP_PID_SAMPLE_RATE
  | GF_PROP_PID_NUM_CHANNELS
  | GF_PROP_PID_BITRATE
  | GF_PROP_PID_FILEPATH
  | GF_PROP_PID_AUDIO_SKIP

datatype GF_PropertyValue =
    PROP_UINT u32
  | PROP_FRAC s32 u32
  | PROP_STRING string

datatype GF_FilterSAPType = GF_FILTER_SAP_NONE | GF_FILTER_SAP_1

text \<open>
  A packet on an output pin. \<^verbatim>\<open>gf_filter_pck_new_alloc\<close> leaves the timestamps, the SAP
  type and the duration unset until the filter sets them.
\<close>

record out_pck =
  pck_data :: bytes
  pck_dts :: "u64 option"
  pck_cts :: "u64 option"
  pck_sap :: "GF_FilterSAPType option"
  pck_duration :: "u32 option"

text \<open>
  A packet on an input pin: its payload (\<^verbatim>\<open>NULL\<close> for a hardware frame), its cts, its
  interlacing flag, and the \<^verbatim>\<open>get_plane\<close> callback of its hardware frame when it has one.
  The callback is given the plane index and the current contents of the two output
  arguments, and returns the error code and the contents it leaves there.
\<close>

record in_pck =
  ipck_data :: "bytes option"
  ipck_cts :: u64
  ipck_interlaced :: u32
  ipck_hw :: "(nat \<Rightarrow> bytes \<times> s32 \<Rightarrow> GF_Err \<times> bytes \<times> s32) option"

text \<open>The frame handed to the codec engine (the fields of \<^verbatim>\<open>AVFrame\<close> the encoder writes).\<close>

record AVFrame =
  pict_type :: u32
  fr_width :: u32
  fr_height :: u32
  fr_format :: u32
  data0 :: bytes
  data1 :: bytes
  data2 :: bytes
  linesize0 :: s32
  linesize1 :: s32
  linesize2 :: s32
  interlaced_frame :: u32
  top_field_first :: u32
  pts :: s64
  pkt_pts :: s64
  pkt_dts :: s64
  nb_samples :: u32

text \<open>
  Calls that leave the filter: pin creation and removal, dropping the input packet, the
  setup-failure signal, log messages, and every call into the demux library and the
  codec engine.
\<close>

datatype call =
    PID_NEW nat
  | PID_REMOVE nat
  | PID_DROP_PACKET nat
  | SETUP_FAILURE GF_Err
  | LOG_ERROR string
  | LOG_WARNING string
  | PS_INIT "string option"
  | PS_CLOSE
  | PS_SEEK_VIDEO u32 u64
  | PS_SEEK_AUDIO u32 u64
  | PS_GET_VIDEO_FRAME u32
  | PS_GET_AUDIO_FRAME u32
  | ENCODE_VIDEO "AVFrame option"
  | ENCODE_AUDIO "AVFrame option"

text \<open>
  Modelled from the spec: the filter session (\<^verbatim>\<open>gpac/filters.h\<close> and its implementation)
  is not among the sources. Following sections 3 and 6 of the specification, a pin has a
  map from property keys to values, a FIFO queue of packets, an end-of-stream flag and a
  would-block flag; input pins and output pins are numbered separately. The would-block
  flag is an input of the model: the high-water mark behind it is not specified.
\<close>

record session =
  in_pcks :: "nat \<Rightarrow> in_pck list"
  in_eos :: "nat \<Rightarrow> bool"
  in_props :: "nat \<Rightarrow> prop_key \<Rightarrow> GF_PropertyValue option"
  in_caps_ok :: "nat \<Rightarrow> bool"
  in_framing :: "nat \<Rightarrow> bool"
  out_count :: nat
  out_props :: "nat \<Rightarrow> prop_key \<Rightarrow> GF_PropertyValue option"
  out_pcks :: "nat \<Rightarrow> out_pck list"
  out_eos :: "nat \<Rightarrow> bool"
  out_blocked :: "nat \<Rightarrow> bool"
  out_removed :: "nat \<Rightarrow> bool"
  calls :: "call list"

definition note_call :: "call \<Rightarrow> session \<Rightarrow> session" where
  "note_call c s = s\<lparr>calls := calls s @ [c]\<rparr>"

text \<open>Modelled from the spec: \<^verbatim>\<open>gf_filter_pid_get_packet\<close>, the head of the pin's queue.\<close>

definition gf_filter_pid_get_packet :: "nat option \<Rightarrow> session \<Rightarrow> in_pck option" where
  "gf_filter_pid_get_packet pid s =
     (case pid of
        None \<Rightarrow> None
      | Some p \<Rightarrow> (case in_pcks s p of [] \<Rightarrow> None | pck # _ \<Rightarrow> Some pck))"

text \<open>Modelled from the spec: \<^verbatim>\<open>gf_filter_pid_drop_packet\<close> releases the head of the queue.\<close>

definition gf_filter_pid_drop_packet :: "nat option \<Rightarrow> session \<Rightarrow> session" where
  "gf_filter_pid_drop_packet pid s =
     (case pid of
        None \<Rightarrow> s
      | Some p \<Rightarrow> note_call (PID_DROP_PACKET p) (s\<lparr>in_pcks := (in_pcks s)(p := tl (in_pcks s p))\<rparr>))"

text \<open>Modelled from the spec: \<^verbatim>\<open>gf_filter_pid_new\<close> creates the next output pin.\<close>

definition gf_filter_pid_new :: "session \<Rightarrow> nat \<times> session" where
  "gf_filter_pid_new s =
     (out_count s, note_call (PID_NEW (out_count s)) (s\<lparr>out_count := Suc (out_count s)\<rparr>))"

text \<open>Modelled from the spec: \<^verbatim>\<open>gf_filter_pid_remove\<close>.\<close>

definition gf_filter_pid_remove :: "nat \<Rightarrow> session \<Rightarrow> session" where
  "gf_filter_pid_remove pid s =
     note_call (PID_REMOVE pid) (s\<lparr>out_removed := (out_removed s)(pid := True)\<rparr>)"

text \<open>
  Modelled from the spec: \<^verbatim>\<open>gf_filter_pid_set_property\<close>; a pin has at most one value per
  key, and the null value removes the key.
\<close>

definition gf_filter_pid_set_property ::
  "nat \<Rightarrow> prop_key \<Rightarrow> GF_PropertyValue option \<Rightarrow> session \<Rightarrow> session" where
  "gf_filter_pid_set_property pid k v s =
     s\<lparr>out_props := (out_props s)(pid := (out_props s pid)(k := v))\<rparr>"

text \<open>Modelled from the spec: \<^verbatim>\<open>gf_filter_pck_send\<close> appends to the pin's queue.\<close>

definition gf_filter_pck_send :: "nat \<Rightarrow> out_pck \<Rightarrow> session \<Rightarrow> session" where
  "gf_filter_pck_send pid pck s = s\<lparr>out_pcks := (out_pcks s)(pid := out_pcks s pid @ [pck])\<rparr>"

text \<open>Modelled from the spec: \<^verbatim>\<open>gf_filter_pid_set_eos\<close>.\<close>

definition gf_filter_pid_set_eos :: "nat \<Rightarrow> session \<Rightarrow> session" where
  "gf_filter_pid_set_eos pid s = s\<lparr>out_eos := (out_eos s)(pid := True)\<rparr>"

text \<open>Modelled from the spec: \<^verbatim>\<open>gf_filter_pck_new_alloc\<close> followed by the \<^verbatim>\<open>memcpy\<close>.\<close>

definition gf_filter_pck_new_alloc :: "bytes \<Rightarrow> out_pck" where
  "gf_filter_pck_new_alloc d =
     \<lparr>pck_data = d, pck_dts = None, pck_cts = None, pck_sap = None, pck_duration = None\<rparr>"

section \<open>The MPEG program stream demuxer (dmx\_mpegps.c)\<close>

text \<open>
  Constants of \<^verbatim>\<open>gpac/constants.h\<close>, which is not among the sources, with the values of
  that header. The filter only compares and publishes them; the proofs use no more than
  that the two stream types differ.
\<close>

definition GF_STREAM_VISUAL :: u32 where "GF_STREAM_VISUAL = 0x04"
definition GF_STREAM_AUDIO :: u32 where "GF_STREAM_AUDIO = 0x05"
definition GPAC_OTI_VIDEO_MPEG1 :: u32 where "GPAC_OTI_VIDEO_MPEG1 = 0x6A"
definition GPAC_OTI_VIDEO_MPEG2_MAIN :: u32 where "GPAC_OTI_VIDEO_MPEG2_MAIN = 0x61"
definition GPAC_OTI_AUDIO_MPEG1 :: u32 where "GPAC_OTI_AUDIO_MPEG1 = 0x6B"
definition GPAC_OTI_AUDIO_AC3 :: u32 where "GPAC_OTI_AUDIO_AC3 = 0xA5"
definition GF_4CC_LPCM :: u32 where "GF_4CC_LPCM = 0x4C50434D"

datatype mpeg2ps_video_type = MPEG_VIDEO_MPEG1 | MPEG_VIDEO_MPEG2 | MPEG_VIDEO_UNKNOWN

datatype mpeg2ps_audio_type =
  MPEG_AUDIO_MPEG | MPEG_AUDIO_AC3 | MPEG_AUDIO_LPCM | MPEG_AUDIO_UNKNOWN

text \<open>
  The demux library (\<^verbatim>\<open>mpeg2_ps.h\<close>) is not among the sources: the filter is modelled over
  any library, given as a record of its functions over a handle type \<open>'h\<close>. A function
  that advances the source returns the new handle. The C type \<^verbatim>\<open>Double\<close> is a type
  parameter \<open>'d\<close> as well, with the four floating-point operations the filter performs:
  \<^verbatim>\<open>a == b\<close>, \<^verbatim>\<open>if (fps)\<close>, \<^verbatim>\<open>(u64) (1000*x)\<close> and \<^verbatim>\<open>(u32) (fps*1000 + 0.5)\<close>.
\<close>

record ('h, 'd) mpeg2ps_lib =
  mpeg2ps_init :: "string option \<Rightarrow> 'h option"
  gf_file_exists :: "string option \<Rightarrow> bool"
  mpeg2ps_get_max_time_msec :: "'h \<Rightarrow> u64"
  mpeg2ps_get_first_cts :: "'h \<Rightarrow> u64"
  mpeg2ps_get_video_stream_count :: "'h \<Rightarrow> u32"
  mpeg2ps_get_video_stream_type :: "'h \<Rightarrow> u32 \<Rightarrow> mpeg2ps_video_type"
  mpeg2ps_get_video_stream_framerate :: "'h \<Rightarrow> u32 \<Rightarrow> 'd"
  mpeg2ps_get_video_stream_width :: "'h \<Rightarrow> u32 \<Rightarrow> u32"
  mpeg2ps_get_video_stream_height :: "'h \<Rightarrow> u32 \<Rightarrow> u32"
  mpeg2ps_get_video_stream_aspect_ratio :: "'h \<Rightarrow> u32 \<Rightarrow> u32"
  mpeg2ps_get_audio_stream_count :: "'h \<Rightarrow> u32"
  mpeg2ps_get_audio_stream_type :: "'h \<Rightarrow> u32 \<Rightarrow> mpeg2ps_audio_type"
  mpeg2ps_get_audio_stream_sample_freq :: "'h \<Rightarrow> u32 \<Rightarrow> u32"
  mpeg2ps_get_audio_stream_channels :: "'h \<Rightarrow> u32 \<Rightarrow> u32"
  mpeg2ps_get_audio_stream_bitrate :: "'h \<Rightarrow> u32 \<Rightarrow> u32"
  mpeg2ps_seek_video_frame :: "'h \<Rightarrow> u32 \<Rightarrow> u64 \<Rightarrow> 'h"
  mpeg2ps_seek_audio_frame :: "'h \<Rightarrow> u32 \<Rightarrow> u64 \<Rightarrow> 'h"
  mpeg2ps_get_video_frame :: "'h \<Rightarrow> u32 \<Rightarrow> (bytes \<times> u8 \<times> u64 \<times> u64) option \<times> 'h"
  mpeg2ps_get_audio_frame :: "'h \<Rightarrow> u32 \<Rightarrow> (bytes \<times> u64) option \<times> 'h"
  double_eq :: "'d \<Rightarrow> 'd \<Rightarrow> bool"
  double_nonzero :: "'d \<Rightarrow> bool"
  double_msec :: "'d \<Rightarrow> u64"
  double_fps_1000 :: "'d \<Rightarrow> u32"

record M2PSStream =
  opid :: nat
  stream_type :: u32
  stream_num :: u32
  in_use :: bool

text \<open>
  The fields of \<^verbatim>\<open>GF_M2PSDmxCtx\<close> that the filter reads or writes. The source path and
  the demux handle are \<^verbatim>\<open>NULL\<close> (\<open>None\<close>) until set.
\<close>

record ('h, 'd) GF_M2PSDmxCtx =
  ipid :: "nat option"
  src_url :: "string option"
  ps :: "'h option"
  start_range :: 'd
  first_dts :: u64
  is_playing :: bool
  in_seek :: bool
  streams :: "M2PSStream list"

definition get_video_timing :: "('h, 'd) mpeg2ps_lib \<Rightarrow> 'd \<Rightarrow> u32 \<times> u32" where
  "get_video_timing lib fps =
     (let fps_1000 = double_fps_1000 lib fps in
      if fps_1000 = 29970 then (30000, 1001)
      else if fps_1000 = 23976 then (24000, 1001)
      else if fps_1000 = 59940 then (60000, 1001)
      else (fps_1000, 1000))"

text \<open>
  The search loop of \<^verbatim>\<open>m2psdmx_setup\<close>: the index of the first stream of the given type
  that is not in use, if there is one.
\<close>

fun find_unused :: "u32 \<Rightarrow> M2PSStream list \<Rightarrow> nat option" where
  "find_unused ty [] = None"
| "find_unused ty (st # sts) =
     (if stream_type st = ty \<and> \<not> in_use st then Some 0
      else map_option Suc (find_unused ty sts))"

text \<open>
  The first half of each iteration of the two loops of \<^verbatim>\<open>m2psdmx_setup\<close>: take the unused
  stream found, or allocate a zeroed stream with a new output pin at the end of the list.
  The result is the session, the list and the index of the stream taken.
\<close>

definition m2psdmx_get_stream ::
  "u32 \<Rightarrow> session \<Rightarrow> M2PSStream list \<Rightarrow> session \<times> M2PSStream list \<times> nat" where
  "m2psdmx_get_stream ty s sts =
     (case find_unused ty sts of
        Some j \<Rightarrow> (s, sts, j)
      | None \<Rightarrow>
          (let (pid, s') = gf_filter_pid_new s in
           (s', sts @ [\<lparr>opid = pid, stream_type = ty, stream_num = 0, in_use = False\<rparr>],
            length sts)))"

text \<open>One iteration of the video loop of \<^verbatim>\<open>m2psdmx_setup\<close>, for stream index \<open>i\<close>.\<close>

definition m2psdmx_setup_video ::
  "('h, 'd) mpeg2ps_lib \<Rightarrow> 'h \<Rightarrow> s32 \<times> u32 \<Rightarrow> u32 \<Rightarrow>
   session \<times> M2PSStream list \<times> u32 \<Rightarrow> session \<times> M2PSStream list \<times> u32" where
  "m2psdmx_setup_video lib h dur i = (\<lambda>(s, sts, sync_id).
     let (s1, sts1, j) = m2psdmx_get_stream GF_STREAM_VISUAL s sts;
         st = (sts1 ! j)\<lparr>stream_num := i, in_use := True\<rparr>;
         sync = (if sync_id = 0 then 1 + stream_num st else sync_id);
         s2 = gf_filter_pid_set_property (opid st) GF_PROP_PID_STREAM_TYPE
                (Some (PROP_UINT (stream_type st))) s1;
         s3 = (case mpeg2ps_get_video_stream_type lib h (stream_num st) of
                 MPEG_VIDEO_MPEG1 \<Rightarrow>
                   gf_filter_pid_set_property (opid st) GF_PROP_PID_OTI
                     (Some (PROP_UINT GPAC_OTI_VIDEO_MPEG1)) s2
               | MPEG_VIDEO_MPEG2 \<Rightarrow>
                   gf_filter_pid_set_property (opid st) GF_PROP_PID_OTI
                     (Some (PROP_UINT GPAC_OTI_VIDEO_MPEG2_MAIN)) s2
               | MPEG_VIDEO_UNKNOWN \<Rightarrow> s2);
         s4 = gf_filter_pid_set_property (opid st) GF_PROP_PID_TIMESCALE
                (Some (PROP_UINT 90000)) s3;
         s5 = gf_filter_pid_set_property (opid st) GF_PROP_PID_ID
                (Some (PROP_UINT (1 + stream_num st))) s4;
         s6 = gf_filter_pid_set_property (opid st) GF_PROP_PID_CLOCK_ID
                (Some (PROP_UINT sync)) s5;
         fps = mpeg2ps_get_video_stream_framerate lib h i;
         s7 = (if double_nonzero lib fps
               then (let (num, den) = get_video_timing lib fps in
                     gf_filter_pid_set_property (opid st) GF_PROP_PID_FPS
                       (Some (PROP_FRAC num den)) s6)
               else s6);
         s8 = gf_filter_pid_set_property (opid st) GF_PROP_PID_WIDTH
                (Some (PROP_UINT (mpeg2ps_get_video_stream_width lib h i))) s7;
         s9 = gf_filter_pid_set_property (opid st) GF_PROP_PID_WIDTH
                (Some (PROP_UINT (mpeg2ps_get_video_stream_height lib h i))) s8;
         par = mpeg2ps_get_video_stream_aspect_ratio lib h i;
         s10 = (if par \<noteq> 0
                then gf_filter_pid_set_property (opid st) GF_PROP_PID_SAR
                       (Some (PROP_FRAC (drop_bit 16 par) (par AND 0xffff))) s9
                else s9);
         s11 = gf_filter_pid_set_property (opid st) GF_PROP_PID_DURATION
                 (Some (PROP_FRAC (fst dur) (snd dur))) s10
     in (s11, sts1[j := st], sync))"

text \<open>One iteration of the audio loop of \<^verbatim>\<open>m2psdmx_setup\<close>, for stream index \<open>i\<close>.\<close>

definition m2psdmx_setup_audio ::
  "('h, 'd) mpeg2ps_lib \<Rightarrow> 'h \<Rightarrow> s32 \<times> u32 \<Rightarrow> u32 \<Rightarrow>
   session \<times> M2PSStream list \<times> u32 \<Rightarrow> session \<times> M2PSStream list \<times> u32" where
  "m2psdmx_setup_audio lib h dur i = (\<lambda>(s, sts, sync_id).
     if mpeg2ps_get_audio_stream_type lib h i = MPEG_AUDIO_UNKNOWN then (s, sts, sync_id)
     else
     let (s1, sts1, j) = m2psdmx_get_stream GF_STREAM_AUDIO s sts;
         st = (sts1 ! j)\<lparr>stream_num := i, in_use := True\<rparr>;
         sync = (if sync_id = 0 then 100 + stream_num st else sync_id);
         s2 = gf_filter_pid_set_property (opid st) GF_PROP_PID_STREAM_TYPE
                (Some (PROP_UINT (stream_type st))) s1;
         s3 = (case mpeg2ps_get_audio_stream_type lib h (stream_num st) of
                 MPEG_AUDIO_MPEG \<Rightarrow>
                   gf_filter_pid_set_property (opid st) GF_PROP_PID_OTI
                     (Some (PROP_UINT GPAC_OTI_AUDIO_MPEG1)) s2
               | MPEG_AUDIO_AC3 \<Rightarrow>
                   gf_filter_pid_set_property (opid st) GF_PROP_PID_OTI
                     (Some (PROP_UINT GPAC_OTI_AUDIO_AC3)) s2
               | MPEG_AUDIO_LPCM \<Rightarrow>
                   gf_filter_pid_set_property (opid st) GF_PROP_PID_OTI
                     (Some (PROP_UINT GF_4CC_LPCM)) s2
               | MPEG_AUDIO_UNKNOWN \<Rightarrow> s2);
         s4 = gf_filter_pid_set_property (opid st) GF_PROP_PID_SAMPLE_RATE
                (Some (PROP_UINT (mpeg2ps_get_audio_stream_sample_freq lib h i))) s3;
         s5 = gf_filter_pid_set_property (opid st) GF_PROP_PID_NUM_CHANNELS
                (Some (PROP_UINT (mpeg2ps_get_audio_stream_channels lib h i))) s4;
         s6 = gf_filter_pid_set_property (opid st) GF_PROP_PID_BITRATE
                (Some (PROP_UINT (mpeg2ps_get_audio_stream_bitrate lib h i))) s5;
         s7 = gf_filter_pid_set_property (opid st) GF_PROP_PID_TIMESCALE
                (Some (PROP_UINT 90000)) s6;
         s8 = gf_filter_pid_set_property (opid st) GF_PROP_PID_ID
                (Some (PROP_UINT (100 + stream_num st))) s7;
         s9 = gf_filter_pid_set_property (opid st) GF_PROP_PID_CLOCK_ID
                (Some (PROP_UINT sync)) s8;
         s10 = gf_filter_pid_set_property (opid st) GF_PROP_PID_DURATION
                 (Some (PROP_FRAC (fst dur) (snd dur))) s9
     in (s10, sts1[j := st], sync))"

text \<open>The stream indices \<open>0, ..., n - 1\<close> of a \<^verbatim>\<open>for (i=0; i<n; i++)\<close> loop over \<^verbatim>\<open>u32\<close>.\<close>

definition u32_upto :: "u32 \<Rightarrow> u32 list" where
  "u32_upto n = map word_of_nat [0..<unat n]"

text \<open>
  \<^verbatim>\<open>m2psdmx_setup\<close>, on the open handle \<open>h\<close>. \<^verbatim>\<open>dur.num\<close> is the 32-bit \<^verbatim>\<open>num\<close> field of
  a \<^verbatim>\<open>GF_Fraction\<close>, so the 64-bit duration is truncated.
\<close>

definition m2psdmx_setup ::
  "('h, 'd) mpeg2ps_lib \<Rightarrow> 'h \<Rightarrow> session \<Rightarrow> ('h, 'd) GF_M2PSDmxCtx \<Rightarrow>
   session \<times> ('h, 'd) GF_M2PSDmxCtx" where
  "m2psdmx_setup lib h s ctx =
     (let dur = (ucast (mpeg2ps_get_max_time_msec lib h) :: s32, 1000 :: u32);
          ctx1 = ctx\<lparr>first_dts := mpeg2ps_get_first_cts lib h\<rparr>;
          v = fold (m2psdmx_setup_video lib h dur)
                (u32_upto (mpeg2ps_get_video_stream_count lib h)) (s, streams ctx1, 0);
          (s2, sts2, sync2) = fold (m2psdmx_setup_audio lib h dur)
                (u32_upto (mpeg2ps_get_audio_stream_count lib h)) v
      in (s2, ctx1\<lparr>streams := sts2\<rparr>))"

text \<open>The loop of \<^verbatim>\<open>m2psdmx_configure_pid\<close> on removal: pop from the back, remove the pin.\<close>

definition m2psdmx_remove_streams :: "M2PSStream list \<Rightarrow> session \<Rightarrow> session" where
  "m2psdmx_remove_streams sts s = fold (\<lambda>st. gf_filter_pid_remove (opid st)) (rev sts) s"

text \<open>
  \<^verbatim>\<open>m2psdmx_configure_pid\<close> for input pin \<open>pid\<close>. The path is compared with \<^verbatim>\<open>strcmp\<close>;
  a file-path property that is not a string is read as no path.
\<close>

definition m2psdmx_configure_pid ::
  "nat \<Rightarrow> bool \<Rightarrow> session \<Rightarrow> ('h, 'd) GF_M2PSDmxCtx \<Rightarrow>
   GF_Err \<times> session \<times> ('h, 'd) GF_M2PSDmxCtx" where
  "m2psdmx_configure_pid pid is_remove s ctx =
     (if is_remove
      then (GF_OK, m2psdmx_remove_streams (streams ctx) s, ctx\<lparr>ipid := None, streams := []\<rparr>)
      else if \<not> in_caps_ok s pid then (GF_NOT_SUPPORTED, s, ctx)
      else
        (let ctx1 = ctx\<lparr>ipid := Some pid\<rparr>;
             s1 = s\<lparr>in_framing := (in_framing s)(pid := True)\<rparr>
         in case in_props s1 pid GF_PROP_PID_FILEPATH of
              Some (PROP_STRING path) \<Rightarrow>
                if src_url ctx1 = Some path then (GF_OK, s1, ctx1)
                else
                  (let (s2, ctx2) =
                         (if ps ctx1 \<noteq> None
                          then (note_call PS_CLOSE s1,
                                ctx1\<lparr>streams := map (\<lambda>st. st\<lparr>in_use := False\<rparr>) (streams ctx1)\<rparr>)
                          else (s1, ctx1))
                   in (GF_OK, s2, ctx2\<lparr>ps := None, src_url := Some path\<rparr>))
            | _ \<Rightarrow> (GF_NOT_SUPPORTED, s1, ctx1)))"

datatype 'd GF_FilterEvent =
    GF_FEVT_PLAY 'd
  | GF_FEVT_STOP
  | GF_FEVT_SET_SPEED
  | GF_FEVT_OTHER

text \<open>\<^verbatim>\<open>m2psdmx_process_event\<close>: the result is true when the event is cancelled.\<close>

definition m2psdmx_process_event ::
  "('h, 'd) mpeg2ps_lib \<Rightarrow> 'd GF_FilterEvent \<Rightarrow> ('h, 'd) GF_M2PSDmxCtx \<Rightarrow>
   bool \<times> ('h, 'd) GF_M2PSDmxCtx" where
  "m2psdmx_process_event lib evt ctx =
     (case evt of
        GF_FEVT_PLAY r \<Rightarrow>
          if is_playing ctx \<and> double_eq lib (start_range ctx) r then (True, ctx)
          else (True, ctx\<lparr>start_range := r, is_playing := True, in_seek := True\<rparr>)
      | GF_FEVT_STOP \<Rightarrow> (False, ctx\<lparr>is_playing := False\<rparr>)
      | GF_FEVT_SET_SPEED \<Rightarrow> (True, ctx)
      | GF_FEVT_OTHER \<Rightarrow> (False, ctx))"

text \<open>One iteration of the seek loop of \<^verbatim>\<open>m2psdmx_process\<close>.\<close>

definition m2psdmx_seek_stream ::
  "('h, 'd) mpeg2ps_lib \<Rightarrow> u64 \<Rightarrow> M2PSStream \<Rightarrow> session \<times> 'h \<Rightarrow> session \<times> 'h" where
  "m2psdmx_seek_stream lib seek_to st = (\<lambda>(s, h).
     if \<not> in_use st then (s, h)
     else if stream_type st = GF_STREAM_VISUAL
     then (note_call (PS_SEEK_VIDEO (stream_num st) seek_to) s,
           mpeg2ps_seek_video_frame lib h (stream_num st) seek_to)
     else (note_call (PS_SEEK_AUDIO (stream_num st) seek_to) s,
           mpeg2ps_seek_audio_frame lib h (stream_num st) seek_to))"

text \<open>
  The start-code test on the last four bytes of a video frame. The C code reads before
  the buffer when the frame is shorter than four bytes; the model leaves such a frame as
  it is.
\<close>

definition strip_start_code :: "bytes \<Rightarrow> bytes" where
  "strip_start_code buf =
     (let n = length buf in
      if 4 \<le> n \<and> buf ! (n - 4) = 0 \<and> buf ! (n - 3) = 0 \<and> buf ! (n - 2) = 1
      then take (n - 4) buf else buf)"

text \<open>
  One iteration of the frame loop of \<^verbatim>\<open>m2psdmx_process\<close>: the session, the handle and
  \<^verbatim>\<open>nb_done\<close> before and after.
\<close>

definition m2psdmx_process_stream ::
  "('h, 'd) mpeg2ps_lib \<Rightarrow> u64 \<Rightarrow> M2PSStream \<Rightarrow> session \<times> 'h \<times> nat \<Rightarrow> session \<times> 'h \<times> nat" where
  "m2psdmx_process_stream lib fdts st = (\<lambda>(s, h, nb_done).
     if \<not> in_use st then (s, h, nb_done + 1)
     else if out_blocked s (opid st) then (s, h, nb_done)
     else if stream_type st = GF_STREAM_VISUAL
     then
       (let s1 = note_call (PS_GET_VIDEO_FRAME (stream_num st)) s in
        case mpeg2ps_get_video_frame lib h (stream_num st) of
          (None, h') \<Rightarrow> (s1, h', nb_done + 1)
        | (Some (buf, ftype, dts, cts), h') \<Rightarrow>
            (let dst = gf_filter_pck_new_alloc (strip_start_code buf);
                 dst1 = (if ftype = 1 then dst\<lparr>pck_sap := Some GF_FILTER_SAP_1\<rparr> else dst);
                 dst2 = dst1\<lparr>pck_dts := Some (dts - fdts)\<rparr>;
                 dst3 = dst2\<lparr>pck_cts := Some (cts - fdts)\<rparr>
             in (gf_filter_pck_send (opid st) dst3 s1, h', nb_done)))
     else
       (let s1 = note_call (PS_GET_AUDIO_FRAME (stream_num st)) s in
        case mpeg2ps_get_audio_frame lib h (stream_num st) of
          (None, h') \<Rightarrow> (s1, h', nb_done + 1)
        | (Some (buf, cts), h') \<Rightarrow>
            (let dst = gf_filter_pck_new_alloc buf;
                 dst1 = dst\<lparr>pck_sap := Some GF_FILTER_SAP_1\<rparr>;
                 dst2 = dst1\<lparr>pck_cts := Some (cts - fdts)\<rparr>
             in (gf_filter_pck_send (opid st) dst2 s1, h', nb_done))))"

text \<open>
  The part of \<^verbatim>\<open>m2psdmx_process\<close> after the handle is open (from the test of
  \<^verbatim>\<open>is_playing\<close> on), on the open handle \<open>h\<close>.
\<close>

definition m2psdmx_process_open ::
  "('h, 'd) mpeg2ps_lib \<Rightarrow> 'h \<Rightarrow> session \<Rightarrow> ('h, 'd) GF_M2PSDmxCtx \<Rightarrow>
   GF_Err \<times> session \<times> ('h, 'd) GF_M2PSDmxCtx" where
  "m2psdmx_process_open lib h s ctx =
     (if \<not> is_playing ctx then (GF_OK, s, ctx)
      else
        (let count = length (streams ctx);
             (s1, h1, ctx1) =
               (if in_seek ctx
                then (let (s', h') = fold (m2psdmx_seek_stream lib (double_msec lib (start_range ctx)))
                                       (streams ctx) (s, h)
                      in (s', h', ctx\<lparr>in_seek := False\<rparr>))
                else (s, h, ctx));
             (s2, h2, nb_done) =
               fold (m2psdmx_process_stream lib (first_dts ctx1)) (streams ctx1) (s1, h1, 0);
             ctx2 = ctx1\<lparr>ps := Some h2\<rparr>
         in if nb_done = count
            then (GF_EOS,
                  gf_filter_pid_drop_packet (ipid ctx2)
                    (fold (\<lambda>st. gf_filter_pid_set_eos (opid st)) (streams ctx2) s2),
                  ctx2)
            else (GF_OK, s2, ctx2)))"

text \<open>
  \<^verbatim>\<open>m2psdmx_process\<close>. The input pin is in framing mode, so every packet is a complete
  file and the assertion on \<^verbatim>\<open>end\<close> holds.
\<close>

definition m2psdmx_process ::
  "('h, 'd) mpeg2ps_lib \<Rightarrow> session \<Rightarrow> ('h, 'd) GF_M2PSDmxCtx \<Rightarrow>
   GF_Err \<times> session \<times> ('h, 'd) GF_M2PSDmxCtx" where
  "m2psdmx_process lib s ctx =
     (case gf_filter_pid_get_packet (ipid ctx) s of
        None \<Rightarrow> (GF_OK, s, ctx)
      | Some pck \<Rightarrow>
          (case ps ctx of
             Some h \<Rightarrow> m2psdmx_process_open lib h s ctx
           | None \<Rightarrow>
               (let s1 = note_call (PS_INIT (src_url ctx)) s in
                case mpeg2ps_init lib (src_url ctx) of
                  None \<Rightarrow>
                    (let e = (if \<not> gf_file_exists lib (src_url ctx) then GF_URL_ERROR
                              else GF_NON_COMPLIANT_BITSTREAM)
                     in (GF_NOT_SUPPORTED, note_call (SETUP_FAILURE e) s1, ctx))
                | Some h \<Rightarrow>
                    (let (s2, ctx2) = m2psdmx_setup lib h s1 (ctx\<lparr>ps := Some h\<rparr>)
                     in m2psdmx_process_open lib h s2 ctx2))))"

section \<open>The encoder (ff\_enc.c)\<close>

text \<open>
  The coded unit that the codec engine writes into the \<^verbatim>\<open>AVPacket\<close>: its bytes
  (\<^verbatim>\<open>pkt.size\<close> of them), timestamps, flags and duration.
\<close>

record AVPacket =
  av_data :: bytes
  av_pts :: s64
  av_dts :: s64
  av_flags :: u32
  av_duration :: s64

definition AV_PKT_FLAG_KEY :: u32 where "AV_PKT_FLAG_KEY = 0x0001"
definition AV_PICTURE_TYPE_I :: u32 where "AV_PICTURE_TYPE_I = 1"

text \<open>
  The codec engine (libavcodec) is not among the sources: the filter is modelled over any
  engine with state \<open>'c\<close>. An encode call is given the size of the output buffer and the
  frame (\<open>None\<close> is the null frame that asks for a flush) and returns \<^verbatim>\<open>res\<close>, the
  packet, \<^verbatim>\<open>gotpck\<close> and the new state. \<^verbatim>\<open>avcodec_fill_audio_frame\<close> is given the frame,
  the channel count, the sample format and the samples, and returns \<^verbatim>\<open>res\<close> and the frame.
\<close>

record 'c ffenc_lib =
  avcodec_encode_video2 :: "'c \<Rightarrow> u32 \<Rightarrow> AVFrame option \<Rightarrow> s32 \<times> AVPacket \<times> s32 \<times> 'c"
  avcodec_encode_audio2 :: "'c \<Rightarrow> u32 \<Rightarrow> AVFrame option \<Rightarrow> s32 \<times> AVPacket \<times> s32 \<times> 'c"
  avcodec_fill_audio_frame :: "AVFrame \<Rightarrow> u32 \<Rightarrow> u32 \<Rightarrow> bytes \<Rightarrow> s32 \<times> AVFrame"
  frame_size :: "'c \<Rightarrow> u32"

datatype ffenc_proc = FFENC_PROCESS_VIDEO | FFENC_PROCESS_AUDIO

text \<open>
  The fields of \<^verbatim>\<open>GF_FFEncodeCtx\<close> that the process callbacks read or write.
  \<open>audio_buffer\<close> holds the \<open>bytes_in_audio_buffer\<close> bytes accumulated so far.
\<close>

record 'c GF_FFEncodeCtx =
  all_intra :: bool
  encoder :: 'c
  in_pid :: nat
  out_pid :: nat
  timescale :: u32
  process_fn :: ffenc_proc
  flush_done :: bool
  frame :: AVFrame
  enc_buffer_size :: u32
  width :: u32
  height :: u32
  stride :: u32
  stride_uv :: u32
  nb_planes :: u32
  pixel_fmt :: u32
  channels :: u32
  sample_rate :: u32
  bytes_per_sample :: u32
  sample_fmt :: u32
  audio_buffer :: bytes
  bytes_in_audio_buffer :: u32
  first_byte_cts :: u64
  init_cts_setup :: bool
  ts_shift :: s32

text \<open>
  The plane pointers of a software frame: a pointer into the payload is the rest of the
  payload from its offset.
\<close>

definition ffenc_data_planes :: "'c GF_FFEncodeCtx \<Rightarrow> bytes \<Rightarrow> AVFrame \<Rightarrow> AVFrame" where
  "ffenc_data_planes ctx d fr =
     (let fr1 = fr\<lparr>data0 := d, linesize0 := stride ctx\<rparr> in
      if 1 < unat (nb_planes ctx)
      then
        (let fr2 = fr1\<lparr>data1 := drop (unat (stride ctx * height ctx)) d,
                       linesize1 := (if stride_uv ctx \<noteq> 0 then stride_uv ctx
                                     else stride ctx div 2)\<rparr>
         in if 2 < unat (nb_planes ctx)
            then fr2\<lparr>data2 := drop (unat (stride_uv ctx * height ctx div 2)) (data1 fr2),
                     linesize2 := linesize1 fr2\<rparr>
            else fr2\<lparr>linesize2 := 0\<rparr>)
      else fr1\<lparr>linesize1 := 0\<rparr>)"

text \<open>
  The planes of a hardware frame, fetched through \<^verbatim>\<open>get_plane\<close>; the third fetch asks
  for plane 1 again, as the source does.
\<close>

definition ffenc_hw_planes :: "'c GF_FFEncodeCtx \<Rightarrow> in_pck \<Rightarrow> AVFrame \<Rightarrow> GF_Err \<times> AVFrame" where
  "ffenc_hw_planes ctx pck fr =
     (case ipck_hw pck of
        None \<Rightarrow> (GF_NOT_SUPPORTED, fr)
      | Some get_plane \<Rightarrow>
          (let (e0, d0, l0) = get_plane 0 (data0 fr, linesize0 fr);
               fr1 = fr\<lparr>data0 := d0, linesize0 := l0\<rparr>
           in if e0 = GF_OK \<and> 1 < unat (nb_planes ctx)
              then
                (let (e1, d1, l1) = get_plane 1 (data1 fr1, linesize1 fr1);
                     fr2 = fr1\<lparr>data1 := d1, linesize1 := l1\<rparr>
                 in if e1 = GF_OK \<and> 2 < unat (nb_planes ctx)
                    then
                      (let (e2, d2, l2) = get_plane 1 (data2 fr2, linesize2 fr2)
                       in (e2, fr2\<lparr>data2 := d2, linesize2 := l2\<rparr>))
                    else (e1, fr2))
              else (e0, fr1)))"

text \<open>The end of \<^verbatim>\<open>ffenc_process_video\<close>, from the test of \<^verbatim>\<open>res\<close> on.\<close>

definition ffenc_video_output ::
  "s32 \<Rightarrow> AVPacket \<Rightarrow> s32 \<Rightarrow> session \<Rightarrow> 'c GF_FFEncodeCtx \<Rightarrow>
   GF_Err \<times> session \<times> 'c GF_FFEncodeCtx" where
  "ffenc_video_output res pkt gotpck s ctx =
     (if sint res < 0 then (GF_SERVICE_ERROR, note_call (LOG_ERROR ''Error encoding frame'') s, ctx)
      else if gotpck = 0 then (GF_OK, s, ctx)
      else
        (let dst = gf_filter_pck_new_alloc (av_data pkt);
             dst1 = dst\<lparr>pck_cts := Some (av_pts pkt)\<rparr>;
             dst2 = dst1\<lparr>pck_dts := Some (av_dts pkt)\<rparr>;
             dst3 = (if av_flags pkt AND AV_PKT_FLAG_KEY \<noteq> 0
                     then dst2\<lparr>pck_sap := Some GF_FILTER_SAP_1\<rparr>
                     else dst2\<lparr>pck_sap := Some GF_FILTER_SAP_NONE\<rparr>);
             dst4 = dst3\<lparr>pck_duration := Some (ucast (av_duration pkt))\<rparr>
         in (GF_OK, gf_filter_pck_send (out_pid ctx) dst4 s, ctx)))"

definition ffenc_process_video ::
  "'c ffenc_lib \<Rightarrow> session \<Rightarrow> 'c GF_FFEncodeCtx \<Rightarrow> GF_Err \<times> session \<times> 'c GF_FFEncodeCtx" where
  "ffenc_process_video lib s ctx =
     (let pck = gf_filter_pid_get_packet (Some (in_pid ctx)) s in
      if pck = None \<and> flush_done ctx \<and> \<not> in_eos s (in_pid ctx) then (GF_OK, s, ctx)
      else
        (let fr0 = (frame ctx)\<lparr>pict_type := 0, fr_width := width ctx, fr_height := height ctx,
                               fr_format := pixel_fmt ctx\<rparr>;
             fr1 = (if all_intra ctx then fr0\<lparr>pict_type := AV_PICTURE_TYPE_I\<rparr> else fr0)
         in case pck of
              Some p \<Rightarrow>
                (let (e, fr2) = (case ipck_data p of
                                   Some d \<Rightarrow> (GF_OK, ffenc_data_planes ctx d fr1)
                                 | None \<Rightarrow> ffenc_hw_planes ctx p fr1)
                 in if e \<noteq> GF_OK
                    then (e,
                          gf_filter_pid_drop_packet (Some (in_pid ctx))
                            (note_call (LOG_ERROR ''Failed to fetch frame data'') s),
                          ctx\<lparr>frame := fr2\<rparr>)
                    else
                      (let fr3 = (if ipck_interlaced p = 0 then fr2\<lparr>interlaced_frame := 0\<rparr>
                                  else fr2\<lparr>interlaced_frame := 1,
                                           top_field_first :=
                                             (if ipck_interlaced p = 2 then 1 else 0)\<rparr>);
                           fr4 = fr3\<lparr>pts := ipck_cts p, pkt_pts := ipck_cts p,
                                     pkt_dts := ipck_cts p\<rparr>;
                           (res, pkt, gotpck, c) =
                             avcodec_encode_video2 lib (encoder ctx) (enc_buffer_size ctx) (Some fr4);
                           s1 = note_call (ENCODE_VIDEO (Some fr4)) s;
                           s2 = gf_filter_pid_drop_packet (Some (in_pid ctx)) s1
                       in ffenc_video_output res pkt gotpck s2 (ctx\<lparr>frame := fr4, encoder := c\<rparr>)))
            | None \<Rightarrow>
                (let (res, pkt, gotpck, c) =
                       avcodec_encode_video2 lib (encoder ctx) (enc_buffer_size ctx) None;
                     s1 = note_call (ENCODE_VIDEO None) s;
                     ctx1 = ctx\<lparr>frame := fr1, encoder := c\<rparr>
                 in if gotpck = 0
                    then (GF_EOS, gf_filter_pid_set_eos (out_pid ctx1) s1, ctx1\<lparr>flush_done := True\<rparr>)
                    else ffenc_video_output res pkt gotpck s1 ctx1)))"

text \<open>
  Signed 64-bit division, truncating towards zero as C does. Division by zero is
  undefined in C; here it yields 0.
\<close>

definition sdiv64 :: "s64 \<Rightarrow> s64 \<Rightarrow> s64" where
  "sdiv64 a b = word_of_int (sint a sdiv sint b)"

text \<open>
  The bookkeeping of \<^verbatim>\<open>ffenc_process_audio\<close> for the rest of the input packet (\<open>d\<close>, of
  \<open>sz\<close> bytes) once \<open>nb_copy\<close> bytes went into the frame: the rest is kept in the audio
  buffer and \<open>first_byte_cts\<close> moves on by the duration of the bytes copied. The unsigned
  divisions are those of the source; division by zero is undefined in C and 0 here.
\<close>

definition ffenc_audio_keep_rest ::
  "in_pck \<Rightarrow> bytes \<Rightarrow> u32 \<Rightarrow> u32 \<Rightarrow> 'c GF_FFEncodeCtx \<Rightarrow> 'c GF_FFEncodeCtx" where
  "ffenc_audio_keep_rest pck d sz nb_copy ctx =
     (let ctx1 = ctx\<lparr>bytes_in_audio_buffer := sz\<rparr> in
      if sz \<noteq> 0
      then
        (let ts_diff = (ucast (nb_copy div bytes_per_sample ctx1) :: u64);
             ts_diff1 = ts_diff * ucast (timescale ctx1);
             ts_diff2 = ts_diff1 div ucast (sample_rate ctx1)
         in ctx1\<lparr>audio_buffer := take (unat sz) d,
                 first_byte_cts := ipck_cts pck + ts_diff2\<rparr>)
      else ctx1)"

text \<open>
  The end of \<^verbatim>\<open>ffenc_process_audio\<close>, from the test of \<^verbatim>\<open>res\<close> after the encode call on:
  the timestamp shift is captured on the first coded unit and added to every unit.
\<close>

definition ffenc_audio_output ::
  "s32 \<Rightarrow> AVPacket \<Rightarrow> s32 \<Rightarrow> session \<Rightarrow> 'c GF_FFEncodeCtx \<Rightarrow>
   GF_Err \<times> session \<times> 'c GF_FFEncodeCtx" where
  "ffenc_audio_output res pkt gotpck s ctx =
     (if sint res < 0 then (GF_SERVICE_ERROR, note_call (LOG_ERROR ''Error encoding frame'') s, ctx)
      else if gotpck = 0 then (GF_OK, s, ctx)
      else
        (let dst = gf_filter_pck_new_alloc (av_data pkt);
             (s1, ctx1) =
               (if init_cts_setup ctx
                then
                  (let ctxa = ctx\<lparr>init_cts_setup := False\<rparr>;
                       ctxb = (if pts (frame ctxa) \<noteq> av_pts pkt
                               then ctxa\<lparr>ts_shift := ucast (pts (frame ctxa) - av_pts pkt)\<rparr>
                               else ctxa)
                   in if ts_shift ctxb \<noteq> 0
                      then
                        (let shift = (scast (ts_shift ctxb) :: s64);
                             shift1 = shift * ucast (sample_rate ctxb);
                             shift2 = sdiv64 shift1 (ucast (timescale ctxb))
                         in (gf_filter_pid_set_property (out_pid ctxb) GF_PROP_PID_AUDIO_SKIP
                               (Some (PROP_UINT (ucast shift2))) s,
                             ctxb))
                      else (s, ctxb))
                else (s, ctx));
             dst1 = dst\<lparr>pck_cts := Some (av_pts pkt + scast (ts_shift ctx1))\<rparr>;
             dst2 = dst1\<lparr>pck_dts := Some (av_dts pkt + scast (ts_shift ctx1))\<rparr>;
             dst3 = (if av_flags pkt AND AV_PKT_FLAG_KEY \<noteq> 0
                     then dst2\<lparr>pck_sap := Some GF_FILTER_SAP_1\<rparr>
                     else dst2\<lparr>pck_sap := Some GF_FILTER_SAP_NONE\<rparr>);
             dst4 = dst3\<lparr>pck_duration := Some (ucast (av_duration pkt))\<rparr>
         in (GF_OK, gf_filter_pck_send (out_pid ctx1) dst4 s1, ctx1)))"

text \<open>
  The step of \<^verbatim>\<open>ffenc_process_audio\<close> that fills the frame from a payload \<open>d\<close>: with a
  fixed frame size the frame is completed in the audio buffer, otherwise the payload is
  the frame. The result is \<^verbatim>\<open>res\<close>, the rest of the payload and its size, \<^verbatim>\<open>nb_copy\<close>
  and the state. A \<^verbatim>\<open>memcpy\<close> to offset \<open>n\<close> of the audio buffer keeps its first \<open>n\<close>
  bytes and appends the bytes copied.
\<close>

definition ffenc_audio_fill ::
  "'c ffenc_lib \<Rightarrow> bytes \<Rightarrow> 'c GF_FFEncodeCtx \<Rightarrow> s32 \<times> bytes \<times> u32 \<times> u32 \<times> 'c GF_FFEncodeCtx" where
  "ffenc_audio_fill lib d ctx =
     (let sz = (word_of_nat (length d) :: u32);
          fs = frame_size lib (encoder ctx)
      in if fs \<noteq> 0
         then
           (let nb_copy = bytes_per_sample ctx * fs - bytes_in_audio_buffer ctx;
                buf = take (unat (bytes_in_audio_buffer ctx)) (audio_buffer ctx)
                        @ take (unat nb_copy) d;
                n = bytes_in_audio_buffer ctx + nb_copy;
                (r, fr) = avcodec_fill_audio_frame lib ((frame ctx)\<lparr>nb_samples := fs\<rparr>)
                            (channels ctx) (sample_fmt ctx) buf
            in (r, drop (unat nb_copy) d, sz - nb_copy, nb_copy,
                ctx\<lparr>audio_buffer := buf, bytes_in_audio_buffer := n, frame := fr\<rparr>))
         else
           (let (r, fr) = avcodec_fill_audio_frame lib
                            ((frame ctx)\<lparr>nb_samples := sz div bytes_per_sample ctx\<rparr>)
                            (channels ctx) (sample_fmt ctx) d
            in (r, [], 0, 0, ctx\<lparr>frame := fr\<rparr>)))"

text \<open>
  The step of \<^verbatim>\<open>ffenc_process_audio\<close> that submits the filled frame of a pending packet:
  the encode call, the bookkeeping for the rest of the payload, the drop of the input
  packet, and the output.
\<close>

definition ffenc_audio_encode ::
  "'c ffenc_lib \<Rightarrow> in_pck \<Rightarrow> bytes \<Rightarrow> u32 \<Rightarrow> u32 \<Rightarrow> session \<Rightarrow> 'c GF_FFEncodeCtx \<Rightarrow>
   GF_Err \<times> session \<times> 'c GF_FFEncodeCtx" where
  "ffenc_audio_encode lib p d sz nb_copy s ctx =
     (let fr = (frame ctx)\<lparr>pts := first_byte_cts ctx, pkt_pts := first_byte_cts ctx,
                            pkt_dts := first_byte_cts ctx\<rparr>;
          (res, pkt, gotpck, c) =
            avcodec_encode_audio2 lib (encoder ctx) (enc_buffer_size ctx) (Some fr);
          s1 = note_call (ENCODE_AUDIO (Some fr)) s;
          ctx1 = ffenc_audio_keep_rest p d sz nb_copy (ctx\<lparr>frame := fr, encoder := c\<rparr>);
          s2 = gf_filter_pid_drop_packet (Some (in_pid ctx1)) s1
      in ffenc_audio_output res pkt gotpck s2 ctx1)"

text \<open>
  \<^verbatim>\<open>ffenc_process_audio\<close> when a packet \<open>p\<close> with payload \<open>d\<close> is pending. \<open>sz\<close> is
  the 32-bit payload size.
\<close>

definition ffenc_process_audio_pck ::
  "'c ffenc_lib \<Rightarrow> in_pck \<Rightarrow> bytes \<Rightarrow> session \<Rightarrow> 'c GF_FFEncodeCtx \<Rightarrow>
   GF_Err \<times> session \<times> 'c GF_FFEncodeCtx" where
  "ffenc_process_audio_pck lib p d s ctx =
     (let sz = (word_of_nat (length d) :: u32);
          ctx1 = (if bytes_in_audio_buffer ctx = 0 then ctx\<lparr>first_byte_cts := ipck_cts p\<rparr>
                  else ctx);
          fs = frame_size lib (encoder ctx1)
      in if fs \<noteq> 0 \<and> sz + bytes_in_audio_buffer ctx1 < bytes_per_sample ctx1 * fs
         then (GF_OK,
               gf_filter_pid_drop_packet (Some (in_pid ctx1)) s,
               ctx1\<lparr>audio_buffer := take (unat (bytes_in_audio_buffer ctx1)) (audio_buffer ctx1) @ d,
                     bytes_in_audio_buffer := bytes_in_audio_buffer ctx1 + sz\<rparr>)
         else
           (let (res, d', sz', nb_copy, ctx2) = ffenc_audio_fill lib d ctx1
            in if sint res < 0
               then (GF_SERVICE_ERROR,
                     gf_filter_pid_drop_packet (Some (in_pid ctx2))
                       (note_call (LOG_ERROR ''Error filling raw audio frame'') s),
                     ffenc_audio_keep_rest p d' sz' nb_copy ctx2)
               else ffenc_audio_encode lib p d' sz' nb_copy s ctx2))"

definition ffenc_process_audio ::
  "'c ffenc_lib \<Rightarrow> session \<Rightarrow> 'c GF_FFEncodeCtx \<Rightarrow> GF_Err \<times> session \<times> 'c GF_FFEncodeCtx" where
  "ffenc_process_audio lib s ctx =
     (let pck = gf_filter_pid_get_packet (Some (in_pid ctx)) s in
      if pck = None \<and> flush_done ctx \<and> \<not> in_eos s (in_pid ctx) then (GF_OK, s, ctx)
      else
        (case pck of
           Some p \<Rightarrow>
             (case ipck_data p of
                None \<Rightarrow>
                  (GF_OK,
                   gf_filter_pid_drop_packet (Some (in_pid ctx))
                     (note_call (LOG_WARNING ''Packet without associated data'') s),
                   ctx)
              | Some d \<Rightarrow> ffenc_process_audio_pck lib p d s ctx)
         | None \<Rightarrow>
             (let (res, pkt, gotpck, c) =
                    avcodec_encode_audio2 lib (encoder ctx) (enc_buffer_size ctx) None;
                  s1 = note_call (ENCODE_AUDIO None) s;
                  ctx1 = ctx\<lparr>encoder := c\<rparr>
              in if gotpck = 0
                 then (GF_EOS, gf_filter_pid_set_eos (out_pid ctx1) s1, ctx1\<lparr>flush_done := True\<rparr>)
                 else ffenc_audio_output res pkt gotpck s1 ctx1)))"

definition ffenc_process ::
  "'c ffenc_lib \<Rightarrow> session \<Rightarrow> 'c GF_FFEncodeCtx \<Rightarrow> GF_Err \<times> session \<times> 'c GF_FFEncodeCtx" where
  "ffenc_process lib s ctx =
     (if out_blocked s (out_pid ctx) then (GF_OK, s, ctx)
      else (case process_fn ctx of
              FFENC_PROCESS_VIDEO \<Rightarrow> ffenc_process_video lib s ctx
            | FFENC_PROCESS_AUDIO \<Rightarrow> ffenc_process_audio lib s ctx))"

section \<open>Runs and concrete collaborators\<close>

text \<open>The calls a step added to the log.\<close>

definition new_calls :: "session \<Rightarrow> session \<Rightarrow> call list" where
  "new_calls s s' = drop (length (calls s)) (calls s')"

fun is_seek :: "call \<Rightarrow> bool" where
  "is_seek (PS_SEEK_VIDEO n t) = True"
| "is_seek (PS_SEEK_AUDIO n t) = True"
| "is_seek c = False"

text \<open>The seek call that the seek loop issues for a stream.\<close>

definition seek_call :: "u64 \<Rightarrow> M2PSStream \<Rightarrow> call" where
  "seek_call t st =
     (if stream_type st = GF_STREAM_VISUAL then PS_SEEK_VIDEO (stream_num st) t
      else PS_SEEK_AUDIO (stream_num st) t)"

text \<open>
  A run of \<^verbatim>\<open>m2psdmx_process\<close> calls. Between two calls the session is in the hands of
  the scheduler and the neighbouring filters, so each call is given the session it finds;
  the filter state is carried from call to call. The result lists the calls each step
  made.
\<close>

fun m2psdmx_run ::
  "('h, 'd) mpeg2ps_lib \<Rightarrow> session list \<Rightarrow> ('h, 'd) GF_M2PSDmxCtx \<Rightarrow> call list list" where
  "m2psdmx_run lib [] ctx = []"
| "m2psdmx_run lib (s # ss) ctx =
     (case m2psdmx_process lib s ctx of
        (e, s', ctx') \<Rightarrow> new_calls s s' # m2psdmx_run lib ss ctx')"

text \<open>
  An in-memory program stream for concrete runs: per video stream its type, width,
  height and remaining frames, per audio stream its type and remaining frames.
\<close>

record mem_ps =
  mem_video :: "(mpeg2ps_video_type \<times> u32 \<times> u32 \<times> (bytes \<times> u8 \<times> u64 \<times> u64) list) list"
  mem_audio :: "(mpeg2ps_audio_type \<times> (bytes \<times> u64) list) list"

definition mem_get_video :: "mem_ps \<Rightarrow> u32 \<Rightarrow> (bytes \<times> u8 \<times> u64 \<times> u64) option \<times> mem_ps" where
  "mem_get_video h n =
     (if unat n < length (mem_video h)
      then (case mem_video h ! unat n of
              (ty, w, ht, []) \<Rightarrow> (None, h)
            | (ty, w, ht, f # fs) \<Rightarrow>
                (Some f, h\<lparr>mem_video := (mem_video h)[unat n := (ty, w, ht, fs)]\<rparr>))
      else (None, h))"

definition mem_get_audio :: "mem_ps \<Rightarrow> u32 \<Rightarrow> (bytes \<times> u64) option \<times> mem_ps" where
  "mem_get_audio h n =
     (if unat n < length (mem_audio h)
      then (case mem_audio h ! unat n of
              (ty, []) \<Rightarrow> (None, h)
            | (ty, f # fs) \<Rightarrow> (Some f, h\<lparr>mem_audio := (mem_audio h)[unat n := (ty, fs)]\<rparr>))
      else (None, h))"

text \<open>
  A demux library over in-memory streams: \<open>files\<close> maps the paths that open to their
  streams, \<open>others\<close> lists the paths that exist but do not parse. Seeking leaves the
  position where it is, and a \<^verbatim>\<open>Double\<close> is a whole number here.
\<close>

definition mem_lib :: "(string \<times> mem_ps) list \<Rightarrow> string list \<Rightarrow> (mem_ps, nat) mpeg2ps_lib" where
  "mem_lib files others =
     \<lparr>mpeg2ps_init = (\<lambda>url. case url of None \<Rightarrow> None | Some u \<Rightarrow> map_of files u),
      gf_file_exists = (\<lambda>url. case url of None \<Rightarrow> False
                                | Some u \<Rightarrow> u \<in> set (map fst files) \<or> u \<in> set others),
      mpeg2ps_get_max_time_msec = (\<lambda>h. 10000),
      mpeg2ps_get_first_cts = (\<lambda>h. 0),
      mpeg2ps_get_video_stream_count = (\<lambda>h. word_of_nat (length (mem_video h))),
      mpeg2ps_get_video_stream_type = (\<lambda>h n. if unat n < length (mem_video h)
                                              then fst (mem_video h ! unat n)
                                              else MPEG_VIDEO_UNKNOWN),
      mpeg2ps_get_video_stream_framerate = (\<lambda>h n. 25),
      mpeg2ps_get_video_stream_width = (\<lambda>h n. if unat n < length (mem_video h)
                                               then fst (snd (mem_video h ! unat n)) else 0),
      mpeg2ps_get_video_stream_height = (\<lambda>h n. if unat n < length (mem_video h)
                                                then fst (snd (snd (mem_video h ! unat n))) else 0),
      mpeg2ps_get_video_stream_aspect_ratio = (\<lambda>h n. 0),
      mpeg2ps_get_audio_stream_count = (\<lambda>h. word_of_nat (length (mem_audio h))),
      mpeg2ps_get_audio_stream_type = (\<lambda>h n. if unat n < length (mem_audio h)
                                              then fst (mem_audio h ! unat n)
                                              else MPEG_AUDIO_UNKNOWN),
      mpeg2ps_get_audio_stream_sample_freq = (\<lambda>h n. 48000),
      mpeg2ps_get_audio_stream_channels = (\<lambda>h n. 2),
      mpeg2ps_get_audio_stream_bitrate = (\<lambda>h n. 128000),
      mpeg2ps_seek_video_frame = (\<lambda>h n t. h),
      mpeg2ps_seek_audio_frame = (\<lambda>h n t. h),
      mpeg2ps_get_video_frame = mem_get_video,
      mpeg2ps_get_audio_frame = mem_get_audio,
      double_eq = (\<lambda>a b. a = b),
      double_nonzero = (\<lambda>a. a \<noteq> 0),
      double_msec = (\<lambda>a. word_of_nat (1000 * a)),
      double_fps_1000 = (\<lambda>a. word_of_nat (1000 * a))\<rparr>"

text \<open>A session with one input pin (pin 0) holding the given packets, and no output pin.\<close>

definition session0 :: "in_pck list \<Rightarrow> (prop_key \<Rightarrow> GF_PropertyValue option) \<Rightarrow> session" where
  "session0 pcks props =
     \<lparr>in_pcks = (\<lambda>p. if p = 0 then pcks else []),
      in_eos = (\<lambda>p. False),
      in_props = (\<lambda>p. if p = 0 then props else (\<lambda>k. None)),
      in_caps_ok = (\<lambda>p. True),
      in_framing = (\<lambda>p. False),
      out_count = 0,
      out_props = (\<lambda>p k. None),
      out_pcks = (\<lambda>p. []),
      out_eos = (\<lambda>p. False),
      out_blocked = (\<lambda>p. False),
      out_removed = (\<lambda>p. False),
      calls = []\<rparr>"

definition file_pck :: in_pck where
  "file_pck = \<lparr>ipck_data = Some [], ipck_cts = 0, ipck_interlaced = 0, ipck_hw = None\<rparr>"

definition path_prop :: "string \<Rightarrow> prop_key \<Rightarrow> GF_PropertyValue option" where
  "path_prop u = (\<lambda>k. if k = GF_PROP_PID_FILEPATH then Some (PROP_STRING u) else None)"

text \<open>The demuxer state after \<^verbatim>\<open>m2psdmx_initialize\<close>: zeroed, with an empty stream list.\<close>

definition m2psdmx_ctx0 :: "(mem_ps, nat) GF_M2PSDmxCtx" where
  "m2psdmx_ctx0 =
     \<lparr>ipid = None, src_url = None, ps = None, start_range = 0, first_dts = 0,
      is_playing = False, in_seek = False, streams = []\<rparr>"

text \<open>
  A codec engine that plays back a script: each encode call takes the next scripted
  reply (\<^verbatim>\<open>res\<close>, packet, \<^verbatim>\<open>gotpck\<close>); with the script used up it produces nothing.
  Filling an audio frame always succeeds.
\<close>

definition empty_pkt :: AVPacket where
  "empty_pkt = \<lparr>av_data = [], av_pts = 0, av_dts = 0, av_flags = 0, av_duration = 0\<rparr>"

definition scripted_encode ::
  "(s32 \<times> AVPacket \<times> s32) list \<Rightarrow> u32 \<Rightarrow> AVFrame option \<Rightarrow>
   s32 \<times> AVPacket \<times> s32 \<times> (s32 \<times> AVPacket \<times> s32) list" where
  "scripted_encode c n f =
     (case c of
        [] \<Rightarrow> (0, empty_pkt, 0, [])
      | (r, p, g) # rest \<Rightarrow> (r, p, g, rest))"

definition scripted_lib :: "u32 \<Rightarrow> ((s32 \<times> AVPacket \<times> s32) list) ffenc_lib" where
  "scripted_lib fs =
     \<lparr>avcodec_encode_video2 = scripted_encode,
      avcodec_encode_audio2 = scripted_encode,
      avcodec_fill_audio_frame = (\<lambda>fr ch fmt d. (0, fr)),
      frame_size = (\<lambda>c. fs)\<rparr>"

definition frame0 :: AVFrame where
  "frame0 =
     \<lparr>pict_type = 0, fr_width = 0, fr_height = 0, fr_format = 0,
      data0 = [], data1 = [], data2 = [], linesize0 = 0, linesize1 = 0, linesize2 = 0,
      interlaced_frame = 0, top_field_first = 0, pts = 0, pkt_pts = 0, pkt_dts = 0,
      nb_samples = 0\<rparr>"

text \<open>
  An encoder state as \<^verbatim>\<open>ffenc_config_input\<close> leaves it for 16-bit stereo audio at
  48000 Hz with no timescale property (so the timescale is the sample rate), reading
  input pin 0 and writing output pin 0, over the given codec script.
\<close>

definition ffenc_audio_ctx0 ::
  "(s32 \<times> AVPacket \<times> s32) list \<Rightarrow> ((s32 \<times> AVPacket \<times> s32) list) GF_FFEncodeCtx" where
  "ffenc_audio_ctx0 script =
     \<lparr>all_intra = False, encoder = script, in_pid = 0, out_pid = 0, timescale = 48000,
      process_fn = FFENC_PROCESS_AUDIO, flush_done = False, frame = frame0,
      enc_buffer_size = 48000, width = 0, height = 0, stride = 0, stride_uv = 0,
      nb_planes = 0, pixel_fmt = 0, channels = 2, sample_rate = 48000,
      bytes_per_sample = 4, sample_fmt = 1, audio_buffer = [], bytes_in_audio_buffer = 0,
      first_byte_cts = 0, init_cts_setup = True, ts_shift = 0\<rparr>"

text \<open>An encoder state for 4x2 single-plane video, over the given codec script.\<close>

definition ffenc_video_ctx0 ::
  "(s32 \<times> AVPacket \<times> s32) list \<Rightarrow> ((s32 \<times> AVPacket \<times> s32) list) GF_FFEncodeCtx" where
  "ffenc_video_ctx0 script =
     \<lparr>all_intra = False, encoder = script, in_pid = 0, out_pid = 0, timescale = 0,
      process_fn = FFENC_PROCESS_VIDEO, flush_done = False, frame = frame0,
      enc_buffer_size = 8, width = 4, height = 2, stride = 4, stride_uv = 0,
      nb_planes = 1, pixel_fmt = 0, channels = 0, sample_rate = 0,
      bytes_per_sample = 0, sample_fmt = 0, audio_buffer = [], bytes_in_audio_buffer = 0,
      first_byte_cts = 0, init_cts_setup = False, ts_shift = 0\<rparr>"

text \<open>
  What the demuxer's setup and seek steps leave alone in the session: the packet queues,
  the end-of-stream, would-block and removal flags.
\<close>

definition pins_kept :: "session \<Rightarrow> session \<Rightarrow> bool" where
  "pins_kept s s' =
     (in_pcks s' = in_pcks s \<and> in_eos s' = in_eos s \<and> out_blocked s' = out_blocked s \<and>
      out_pcks s' = out_pcks s \<and> out_eos s' = out_eos s \<and> out_removed s' = out_removed s)"

text \<open>
  A concrete demuxer state: one MPEG-2 video stream of 720x576 with a single intra frame,
  already set up on output pin 0 and playing, in a session where every output pin would
  block.
\<close>

definition one_video_ps :: mem_ps where
  "one_video_ps =
     \<lparr>mem_video = [(MPEG_VIDEO_MPEG2, 720, 576, [([0, 0, 1, 0xB3], 1, 0, 0)])], mem_audio = []\<rparr>"

definition video_stream0 :: M2PSStream where
  "video_stream0 = \<lparr>opid = 0, stream_type = GF_STREAM_VISUAL, stream_num = 0, in_use = True\<rparr>"

definition playing_ctx :: "(mem_ps, nat) GF_M2PSDmxCtx" where
  "playing_ctx =
     m2psdmx_ctx0\<lparr>ipid := Some 0, src_url := Some ''a.mpg'', ps := Some one_video_ps,
                  is_playing := True, streams := [video_stream0]\<rparr>"

definition blocked_session :: session where
  "blocked_session =
     (session0 [file_pck] (path_prop ''a.mpg''))\<lparr>out_count := 1, out_blocked := (\<lambda>p. True)\<rparr>"

fun is_pid_new :: "call \<Rightarrow> bool" where
  "is_pid_new (PID_NEW n) = True"
| "is_pid_new c = False"

text \<open>The session of \<open>blocked_session\<close> with no pin blocked.\<close>

definition open_session :: session where
  "open_session = (session0 [file_pck] (path_prop ''a.mpg''))\<lparr>out_count := 1\<rparr>"

text \<open>Demuxer states for concrete runs: connected to a path that is yet to be opened, and
  left by a removal of the input pin (the path and the handle stay).\<close>

definition failed_open_ctx :: "(mem_ps, nat) GF_M2PSDmxCtx" where
  "failed_open_ctx = m2psdmx_ctx0\<lparr>ipid := Some 0, src_url := Some ''bad.mpg''\<rparr>"

definition removed_ctx :: "(mem_ps, nat) GF_M2PSDmxCtx" where
  "removed_ctx = m2psdmx_ctx0\<lparr>src_url := Some ''a.mpg'', ps := Some one_video_ps\<rparr>"

text \<open>
  Two sources: \<open>a.mpg\<close> with two video streams and one audio stream, \<open>b.mpg\<close> with one
  video and one audio stream.
\<close>

definition source_a :: mem_ps where
  "source_a =
     \<lparr>mem_video = [(MPEG_VIDEO_MPEG2, 720, 576, []), (MPEG_VIDEO_MPEG2, 352, 288, [])],
      mem_audio = [(MPEG_AUDIO_MPEG, [])]\<rparr>"

definition source_b :: mem_ps where
  "source_b =
     \<lparr>mem_video = [(MPEG_VIDEO_MPEG1, 320, 240, [])], mem_audio = [(MPEG_AUDIO_AC3, [])]\<rparr>"

definition two_files :: "(mem_ps, nat) mpeg2ps_lib" where
  "two_files = mem_lib [(''a.mpg'', source_a), (''b.mpg'', source_b)] []"

text \<open>
  Redirecting a demuxer from path \<open>a\<close> to path \<open>b\<close>: connect input pin 0 with path \<open>a\<close>,
  process once (the source is opened and set up), change the pin's path to \<open>b\<close>,
  configure again, process once more. The result is the stream list after the first
  open, the stream list after the second configure, and the final session and state.
\<close>

definition m2psdmx_reopen ::
  "('h, 'd) mpeg2ps_lib \<Rightarrow> ('h, 'd) GF_M2PSDmxCtx \<Rightarrow> string \<Rightarrow> string \<Rightarrow>
   M2PSStream list \<times> M2PSStream list \<times> session \<times> ('h, 'd) GF_M2PSDmxCtx" where
  "m2psdmx_reopen lib c0 a b =
     (let s0 = session0 [file_pck] (path_prop a);
          (e1, s1, c1) = m2psdmx_configure_pid 0 False s0 c0;
          (e2, s2, c2) = m2psdmx_process lib s1 c1;
          (e3, s3, c3) = m2psdmx_configure_pid 0 False
                           (s2\<lparr>in_props := (in_props s2)(0 := path_prop b)\<rparr>) c2;
          (e4, s4, c4) = m2psdmx_process lib s3 c3
      in (streams c2, streams c3, s4, c4))"

text \<open>
  The packet that \<^verbatim>\<open>ffenc_process_audio\<close> sends for a coded unit under a timestamp
  shift.
\<close>

definition audio_dst :: "AVPacket \<Rightarrow> s32 \<Rightarrow> out_pck" where
  "audio_dst pkt shift =
     \<lparr>pck_data = av_data pkt,
      pck_dts = Some (av_dts pkt + scast shift),
      pck_cts = Some (av_pts pkt + scast shift),
      pck_sap = Some (if av_flags pkt AND AV_PKT_FLAG_KEY \<noteq> 0 then GF_FILTER_SAP_1
                      else GF_FILTER_SAP_NONE),
      pck_duration = Some (ucast (av_duration pkt))\<rparr>"

text \<open>
  The outcome of a \<^verbatim>\<open>process\<close> call whose encode call \<open>c\<close> failed on a pending packet:
  \<^verbatim>\<open>GF_SERVICE_ERROR\<close>; the call made the encode call, dropped the input packet and
  logged the error, in this order, and nothing else; the input queue lost its head;
  no end-of-stream flag, output queue, removal flag or property changed; the flush-done
  flag is as it was.
\<close>

definition encode_failed_result ::
  "call \<Rightarrow> session \<Rightarrow> 'c GF_FFEncodeCtx \<Rightarrow> GF_Err \<times> session \<times> 'c GF_FFEncodeCtx \<Rightarrow> bool" where
  "encode_failed_result c s ctx r =
     (case r of
        (e, s', ctx') \<Rightarrow>
          e = GF_SERVICE_ERROR \<and>
          new_calls s s' = [c, PID_DROP_PACKET (in_pid ctx), LOG_ERROR ''Error encoding frame''] \<and>
          in_pcks s' = (in_pcks s)(in_pid ctx := tl (in_pcks s (in_pid ctx))) \<and>
          in_eos s' = in_eos s \<and> out_eos s' = out_eos s \<and> out_pcks s' = out_pcks s \<and>
          out_removed s' = out_removed s \<and> out_props s' = out_props s \<and>
          flush_done ctx' = flush_done ctx)"

text \<open>
  Concrete encoder inputs: a four-byte audio packet and an eight-byte video packet with
  a given cts, a coded unit with a given timestamp, the frames the encoder submits for
  them from its initial states, a session whose input pin is empty and at end of
  stream, and an audio encoder state whose last submitted frame has pts 1024.
\<close>

definition audio_pck :: "u64 \<Rightarrow> in_pck" where
  "audio_pck cts =
     \<lparr>ipck_data = Some [0, 0, 0, 0], ipck_cts = cts, ipck_interlaced = 0, ipck_hw = None\<rparr>"

definition video_pck :: "u64 \<Rightarrow> in_pck" where
  "video_pck cts =
     \<lparr>ipck_data = Some [0, 0, 0, 0, 0, 0, 0, 0], ipck_cts = cts, ipck_interlaced = 0,
      ipck_hw = None\<rparr>"

definition coded :: "s64 \<Rightarrow> AVPacket" where
  "coded t = \<lparr>av_data = [1], av_pts = t, av_dts = t, av_flags = 1, av_duration = 1\<rparr>"

definition video_frame_sent :: AVFrame where
  "video_frame_sent =
     frame0\<lparr>fr_width := 4, fr_height := 2, data0 := [0, 0, 0, 0, 0, 0, 0, 0], linesize0 := 4\<rparr>"

definition audio_frame_sent :: AVFrame where
  "audio_frame_sent = frame0\<lparr>nb_samples := 1\<rparr>"

definition eos_session :: session where
  "eos_session = (session0 [] (\<lambda>k. None))\<lparr>in_eos := (\<lambda>p. True)\<rparr>"

definition first_unit_ctx :: "((s32 \<times> AVPacket \<times> s32) list) GF_FFEncodeCtx" where
  "first_unit_ctx = (ffenc_audio_ctx0 [])\<lparr>frame := frame0\<lparr>pts := 1024\<rparr>\<rparr>"

section \<open>Properties\<close>

lemma u32_upto_0: "u32_upto 0 = []"
  by (simp add: u32_upto_def)

lemma u32_upto_1: "u32_upto 1 = [0]"
  by (simp add: u32_upto_def)

lemma u32_upto_2: "u32_upto 2 = [0, 1]"
  by (simp add: u32_upto_def upt_rec)

text \<open>The definitions that evaluate a concrete run.\<close>

lemmas session_eval =
  note_call_def gf_filter_pid_get_packet_def gf_filter_pid_drop_packet_def gf_filter_pid_new_def
  gf_filter_pid_remove_def gf_filter_pid_set_property_def gf_filter_pck_send_def
  gf_filter_pid_set_eos_def gf_filter_pck_new_alloc_def session0_def file_pck_def path_prop_def
  new_calls_def open_session_def blocked_session_def

lemmas demux_eval =
  m2psdmx_process_def m2psdmx_process_open_def m2psdmx_process_stream_def m2psdmx_seek_stream_def
  m2psdmx_setup_def m2psdmx_setup_video_def m2psdmx_setup_audio_def m2psdmx_get_stream_def
  m2psdmx_configure_pid_def m2psdmx_remove_streams_def m2psdmx_process_event_def
  get_video_timing_def strip_start_code_def u32_upto_0 u32_upto_1 u32_upto_2
  mem_lib_def mem_get_video_def mem_get_audio_def m2psdmx_ctx0_def
  playing_ctx_def video_stream0_def one_video_ps_def failed_open_ctx_def removed_ctx_def
  source_a_def source_b_def two_files_def m2psdmx_reopen_def
  GF_STREAM_VISUAL_def GF_STREAM_AUDIO_def Let_def

lemma find_unused_less: "find_unused ty sts = Some j \<Longrightarrow> j < length sts"
  by (induction sts arbitrary: j) (auto split: if_splits)

lemmas ffenc_eval =
  ffenc_process_def ffenc_process_audio_def ffenc_process_audio_pck_def ffenc_audio_fill_def
  ffenc_audio_encode_def ffenc_audio_output_def
  ffenc_audio_keep_rest_def ffenc_process_video_def ffenc_video_output_def ffenc_data_planes_def
  ffenc_hw_planes_def sdiv64_def scripted_lib_def scripted_encode_def empty_pkt_def frame0_def
  ffenc_audio_ctx0_def ffenc_video_ctx0_def audio_pck_def video_pck_def coded_def
  AV_PKT_FLAG_KEY_def AV_PICTURE_TYPE_I_def video_frame_sent_def audio_frame_sent_def
  eos_session_def encode_failed_result_def first_unit_ctx_def Let_def

subsection \<open>What setup, seeking and the frame loop preserve\<close>

lemma pins_kept_refl: "pins_kept s s"
  by (simp add: pins_kept_def)

lemma pins_kept_trans: "pins_kept s s1 \<Longrightarrow> pins_kept s1 s2 \<Longrightarrow> pins_kept s s2"
  by (simp add: pins_kept_def)

lemma find_unused_free:
  "find_unused ty sts = Some j \<Longrightarrow> \<not> in_use (sts ! j) \<and> stream_type (sts ! j) = ty"
  by (induction sts arbitrary: j) (auto split: if_splits)

lemma get_stream_kept:
  assumes "m2psdmx_get_stream ty s sts = (s1, sts1, j)"
  shows "pins_kept s s1 \<and> j < length sts1 \<and> \<not> in_use (sts1 ! j) \<and>
      stream_type (sts1 ! j) = ty \<and> (\<exists>new. sts1 = sts @ new)"
proof (cases "find_unused ty sts")
  case None
  with assms show ?thesis
    by (auto simp: m2psdmx_get_stream_def gf_filter_pid_new_def pins_kept_def note_call_def)
next
  case (Some k)
  with assms find_unused_free[OF Some] find_unused_less[OF Some]
  show ?thesis
    by (auto simp: m2psdmx_get_stream_def pins_kept_def)
qed

lemma in_use_stays:
  assumes "st \<in> set sts" "in_use st" "j < length (sts @ new)" "\<not> in_use ((sts @ new) ! j)"
  shows "st \<in> set ((sts @ new)[j := x])"
proof -
  from assms(1) obtain k where k: "k < length sts" "sts ! k = st"
    by (auto simp: in_set_conv_nth)
  then have "(sts @ new) ! k = st" by (simp add: nth_append)
  with assms(2,4) have "k \<noteq> j" by auto
  with k have "((sts @ new)[j := x]) ! k = st" by (simp add: nth_append)
  moreover have "k < length ((sts @ new)[j := x])" using k by simp
  ultimately show ?thesis by (metis nth_mem)
qed

lemma setup_video_session:
  "pins_kept s1 (fst (m2psdmx_setup_video lib h dur i (s, sts, sy))) =
   pins_kept s1 (fst (m2psdmx_get_stream GF_STREAM_VISUAL s sts))"
  by (simp add: m2psdmx_setup_video_def Let_def split_beta pins_kept_def
      gf_filter_pid_set_property_def split: mpeg2ps_video_type.split)

lemma setup_video_streams:
  "fst (snd (m2psdmx_setup_video lib h dur i (s, sts, sy))) =
   (let (s1, sts1, j) = m2psdmx_get_stream GF_STREAM_VISUAL s sts
    in sts1[j := (sts1 ! j)\<lparr>stream_num := i, in_use := True\<rparr>])"
  by (simp add: m2psdmx_setup_video_def Let_def split_beta)

lemma setup_audio_session:
  "mpeg2ps_get_audio_stream_type lib h i \<noteq> MPEG_AUDIO_UNKNOWN \<Longrightarrow>
   pins_kept s1 (fst (m2psdmx_setup_audio lib h dur i (s, sts, sy))) =
   pins_kept s1 (fst (m2psdmx_get_stream GF_STREAM_AUDIO s sts))"
  by (simp add: m2psdmx_setup_audio_def Let_def split_beta pins_kept_def
      gf_filter_pid_set_property_def split: mpeg2ps_audio_type.split)

lemma setup_audio_streams:
  "mpeg2ps_get_audio_stream_type lib h i \<noteq> MPEG_AUDIO_UNKNOWN \<Longrightarrow>
   fst (snd (m2psdmx_setup_audio lib h dur i (s, sts, sy))) =
   (let (s1, sts1, j) = m2psdmx_get_stream GF_STREAM_AUDIO s sts
    in sts1[j := (sts1 ! j)\<lparr>stream_num := i, in_use := True\<rparr>])"
  by (simp add: m2psdmx_setup_audio_def Let_def split_beta)

lemma setup_audio_skip:
  "mpeg2ps_get_audio_stream_type lib h i = MPEG_AUDIO_UNKNOWN \<Longrightarrow>
   m2psdmx_setup_audio lib h dur i x = x"
  by (cases x) (simp add: m2psdmx_setup_audio_def)


lemma setup_video_kept:
  assumes "m2psdmx_setup_video lib h dur i (s, sts, sy) = (s', sts', sy')"
  shows "pins_kept s s' \<and> (st \<in> set sts \<and> in_use st \<longrightarrow> st \<in> set sts')"
proof -
  obtain s1 sts1 j where g: "m2psdmx_get_stream GF_STREAM_VISUAL s sts = (s1, sts1, j)"
    by (metis prod_cases3)
  note k = get_stream_kept[OF g]
  have "pins_kept s s'" using setup_video_session[of s lib h dur i s sts sy] assms g k by simp
  moreover from k obtain new where n: "sts1 = sts @ new" by blast
  have "sts' = sts1[j := (sts1 ! j)\<lparr>stream_num := i, in_use := True\<rparr>]"
    using setup_video_streams[of lib h dur i s sts sy] assms g by simp
  then have "st \<in> set sts \<and> in_use st \<longrightarrow> st \<in> set sts'"
    using in_use_stays[of st sts j new] k n by simp
  ultimately show ?thesis by simp
qed

lemma setup_audio_kept:
  assumes "m2psdmx_setup_audio lib h dur i (s, sts, sy) = (s', sts', sy')"
  shows "pins_kept s s' \<and> (st \<in> set sts \<and> in_use st \<longrightarrow> st \<in> set sts')"
proof (cases "mpeg2ps_get_audio_stream_type lib h i = MPEG_AUDIO_UNKNOWN")
  case True
  with assms show ?thesis by (simp add: setup_audio_skip pins_kept_refl)
next
  case False
  obtain s1 sts1 j where g: "m2psdmx_get_stream GF_STREAM_AUDIO s sts = (s1, sts1, j)"
    by (metis prod_cases3)
  note k = get_stream_kept[OF g]
  have "pins_kept s s'" using setup_audio_session[OF False, of s dur s sts sy] assms g k by simp
  moreover from k obtain new where n: "sts1 = sts @ new" by blast
  have "sts' = sts1[j := (sts1 ! j)\<lparr>stream_num := i, in_use := True\<rparr>]"
    using setup_audio_streams[OF False, of dur s sts sy] assms g by simp
  then have "st \<in> set sts \<and> in_use st \<longrightarrow> st \<in> set sts'"
    using in_use_stays[of st sts j new] k n by simp
  ultimately show ?thesis by simp
qed

lemma fold_setup_video_kept:
  "fold (m2psdmx_setup_video lib h dur) is (s, sts, sy) = (s', sts', sy') \<Longrightarrow>
   pins_kept s s' \<and> (st \<in> set sts \<and> in_use st \<longrightarrow> st \<in> set sts')"
proof (induction "is" arbitrary: s sts sy)
  case Nil
  then show ?case by (simp add: pins_kept_refl)
next
  case (Cons i "is")
  obtain s1 sts1 sy1 where one: "m2psdmx_setup_video lib h dur i (s, sts, sy) = (s1, sts1, sy1)"
    by (metis prod_cases3)
  with Cons.prems have "fold (m2psdmx_setup_video lib h dur) is (s1, sts1, sy1) = (s', sts', sy')"
    by simp
  from Cons.IH[OF this] setup_video_kept[OF one, of st] show ?case
    by (blast intro: pins_kept_trans)
qed

lemma fold_setup_audio_kept:
  "fold (m2psdmx_setup_audio lib h dur) is (s, sts, sy) = (s', sts', sy') \<Longrightarrow>
   pins_kept s s' \<and> (st \<in> set sts \<and> in_use st \<longrightarrow> st \<in> set sts')"
proof (induction "is" arbitrary: s sts sy)
  case Nil
  then show ?case by (simp add: pins_kept_refl)
next
  case (Cons i "is")
  obtain s1 sts1 sy1 where one: "m2psdmx_setup_audio lib h dur i (s, sts, sy) = (s1, sts1, sy1)"
    by (metis prod_cases3)
  with Cons.prems have "fold (m2psdmx_setup_audio lib h dur) is (s1, sts1, sy1) = (s', sts', sy')"
    by simp
  from Cons.IH[OF this] setup_audio_kept[OF one, of st] show ?case
    by (blast intro: pins_kept_trans)
qed

lemma setup_kept:
  assumes "m2psdmx_setup lib h s ctx = (s', ctx')"
  shows "pins_kept s s' \<and> (st \<in> set (streams ctx) \<and> in_use st \<longrightarrow> st \<in> set (streams ctx'))
    \<and> ctx' = ctx\<lparr>first_dts := mpeg2ps_get_first_cts lib h, streams := streams ctx'\<rparr>"
proof -
  let ?dur = "(ucast (mpeg2ps_get_max_time_msec lib h) :: s32, 1000 :: u32)"
  obtain s1 sts1 sy1 where v: "fold (m2psdmx_setup_video lib h ?dur)
        (u32_upto (mpeg2ps_get_video_stream_count lib h)) (s, streams ctx, 0) = (s1, sts1, sy1)"
    by (metis prod_cases3)
  obtain s2 sts2 sy2 where a: "fold (m2psdmx_setup_audio lib h ?dur)
        (u32_upto (mpeg2ps_get_audio_stream_count lib h)) (s1, sts1, sy1) = (s2, sts2, sy2)"
    by (metis prod_cases3)
  from assms have r: "s' = s2" "ctx' = ctx\<lparr>first_dts := mpeg2ps_get_first_cts lib h, streams := sts2\<rparr>"
    by (simp_all add: m2psdmx_setup_def Let_def v a)
  from fold_setup_video_kept[OF v, of st] fold_setup_audio_kept[OF a, of st] r
  have "pins_kept s s'" "st \<in> set (streams ctx) \<and> in_use st \<longrightarrow> st \<in> set (streams ctx')"
    by (auto intro: pins_kept_trans)
  moreover have "ctx' = ctx\<lparr>first_dts := mpeg2ps_get_first_cts lib h, streams := streams ctx'\<rparr>"
    using r by simp
  ultimately show ?thesis by simp
qed

lemma seek_stream_kept: "pins_kept s1 (fst (m2psdmx_seek_stream lib t st (s, h))) = pins_kept s1 s"
  by (simp add: m2psdmx_seek_stream_def pins_kept_def note_call_def)

lemma fold_seek_kept:
  "fold (m2psdmx_seek_stream lib t) sts (s, h) = (s', h') \<Longrightarrow> pins_kept s s'"
proof (induction sts arbitrary: s h)
  case Nil
  then show ?case by (simp add: pins_kept_refl)
next
  case (Cons st sts)
  obtain s1 h1 where one: "m2psdmx_seek_stream lib t st (s, h) = (s1, h1)"
    by (metis surj_pair)
  then have "pins_kept s s1"
    using seek_stream_kept[of s lib t st s h] by (simp add: pins_kept_refl)
  moreover from Cons.prems one have "fold (m2psdmx_seek_stream lib t) sts (s1, h1) = (s', h')"
    by simp
  ultimately show ?case using Cons.IH by (blast intro: pins_kept_trans)
qed

lemma process_stream_session:
  "in_pcks (fst (m2psdmx_process_stream lib fd st (s, h, n))) = in_pcks s \<and>
   in_eos (fst (m2psdmx_process_stream lib fd st (s, h, n))) = in_eos s \<and>
   out_blocked (fst (m2psdmx_process_stream lib fd st (s, h, n))) = out_blocked s \<and>
   out_eos (fst (m2psdmx_process_stream lib fd st (s, h, n))) = out_eos s \<and>
   out_removed (fst (m2psdmx_process_stream lib fd st (s, h, n))) = out_removed s \<and>
   (out_blocked s p \<longrightarrow> out_pcks (fst (m2psdmx_process_stream lib fd st (s, h, n))) p = out_pcks s p)"
  by (simp add: m2psdmx_process_stream_def Let_def note_call_def gf_filter_pck_send_def
      split: prod.split option.split)

lemma process_stream_count:
  "snd (snd (m2psdmx_process_stream lib fd st (s, h, n))) \<le> Suc n \<and>
   (in_use st \<and> out_blocked s (opid st) \<longrightarrow> snd (snd (m2psdmx_process_stream lib fd st (s, h, n))) = n)"
  by (simp add: m2psdmx_process_stream_def Let_def split: prod.split option.split)

lemma fold_process_stream:
  "fold (m2psdmx_process_stream lib fd) sts (s, h, n) = (s', h', n') \<Longrightarrow>
   in_pcks s' = in_pcks s \<and> in_eos s' = in_eos s \<and> out_blocked s' = out_blocked s \<and> out_eos s' = out_eos s \<and>
   out_removed s' = out_removed s \<and>
   (out_blocked s p \<longrightarrow> out_pcks s' p = out_pcks s p) \<and> n' \<le> n + length sts \<and>
   ((\<exists>st \<in> set sts. in_use st \<and> out_blocked s (opid st)) \<longrightarrow> n' < n + length sts)"
proof (induction sts arbitrary: s h n)
  case Nil
  then show ?case by simp
next
  case (Cons st sts)
  obtain s1 h1 n1 where one: "m2psdmx_process_stream lib fd st (s, h, n) = (s1, h1, n1)"
    by (metis prod_cases3)
  with Cons.prems have rest: "fold (m2psdmx_process_stream lib fd) sts (s1, h1, n1) = (s', h', n')"
    by simp
  note a = process_stream_session[of lib fd st s h n p, unfolded one, simplified]
  note b = process_stream_count[of lib fd st s h n, unfolded one, simplified]
  note ih = Cons.IH[OF rest]
  show ?case using a b ih by auto
qed

lemma process_open_blocked:
  assumes "st \<in> set (streams ctx)" "in_use st" "out_blocked s (opid st)"
    and "m2psdmx_process_open lib h s ctx = (e, s', ctx')"
  shows "e = GF_OK \<and> in_pcks s' = in_pcks s \<and> out_pcks s' (opid st) = out_pcks s (opid st) \<and>
         out_eos s' = out_eos s"
proof (cases "is_playing ctx")
  case False
  with assms(4) show ?thesis by (simp add: m2psdmx_process_open_def)
next
  case True
  define t where "t = double_msec lib (start_range ctx)"
  obtain s1 h1 where sk: "(if in_seek ctx then fold (m2psdmx_seek_stream lib t) (streams ctx) (s, h)
      else (s, h)) = (s1, h1)"
    by (metis surj_pair)
  have k1: "pins_kept s s1"
    using sk fold_seek_kept[of lib t "streams ctx" s h s1 h1] by (auto simp: pins_kept_refl split: if_splits)
  obtain s2 h2 n where fr: "fold (m2psdmx_process_stream lib (first_dts ctx)) (streams ctx) (s1, h1, 0)
      = (s2, h2, n)"
    by (metis prod_cases3)
  have b1: "out_blocked s1 (opid st)" using k1 assms(3) by (simp add: pins_kept_def)
  from fold_process_stream[OF fr, of "opid st"] b1 assms(1,2)
  have f: "in_pcks s2 = in_pcks s1" "out_eos s2 = out_eos s1" "out_pcks s2 (opid st) = out_pcks s1 (opid st)"
    "n < length (streams ctx)"
    by auto
  have "(e, s', ctx') = (GF_OK, s2, ctx\<lparr>in_seek := False, ps := Some h2\<rparr>)"
    using assms(4) True sk fr f(4)
    by (auto simp: m2psdmx_process_open_def Let_def t_def split: if_splits prod.splits)
  with f k1 show ?thesis by (simp add: pins_kept_def)
qed

lemma process_blocked:
  assumes "st \<in> set (streams ctx)" "in_use st" "out_blocked s (opid st)"
    and "m2psdmx_process lib s ctx = (e, s', ctx')"
  shows "e \<noteq> GF_EOS \<and> in_pcks s' = in_pcks s \<and> out_pcks s' (opid st) = out_pcks s (opid st) \<and>
         out_eos s' = out_eos s"
proof (cases "gf_filter_pid_get_packet (ipid ctx) s")
  case None
  with assms(4) show ?thesis by (simp add: m2psdmx_process_def)
next
  case (Some pck)
  show ?thesis
  proof (cases "ps ctx")
    case (Some h)
    with assms(4) \<open>gf_filter_pid_get_packet (ipid ctx) s = Some pck\<close>
    have "m2psdmx_process_open lib h s ctx = (e, s', ctx')" by (simp add: m2psdmx_process_def)
    from process_open_blocked[OF assms(1,2,3) this] show ?thesis by simp
  next
    case None
    note noh = this
    show ?thesis
    proof (cases "mpeg2ps_init lib (src_url ctx)")
      case None
      with assms(4) noh \<open>gf_filter_pid_get_packet (ipid ctx) s = Some pck\<close> show ?thesis
        by (auto simp: m2psdmx_process_def Let_def note_call_def)
    next
      case (Some h)
      obtain s2 ctx2 where su:
        "m2psdmx_setup lib h (note_call (PS_INIT (src_url ctx)) s) (ctx\<lparr>ps := Some h\<rparr>) = (s2, ctx2)"
        by (metis surj_pair)
      from setup_kept[OF su, of st] assms(1,2)
      have k: "pins_kept (note_call (PS_INIT (src_url ctx)) s) s2" "st \<in> set (streams ctx2)" by simp_all
      then have k': "pins_kept s s2" by (simp add: pins_kept_def note_call_def)
      have "m2psdmx_process_open lib h s2 ctx2 = (e, s', ctx')"
        using assms(4) noh Some su \<open>gf_filter_pid_get_packet (ipid ctx) s = Some pck\<close>
        by (simp add: m2psdmx_process_def Let_def)
      from process_open_blocked[OF k(2) assms(2) _ this] k' assms(3)
      show ?thesis by (simp add: pins_kept_def)
    qed
  qed
qed

subsection \<open>The calls each step makes\<close>

lemma get_stream_calls:
  "calls (fst (m2psdmx_get_stream ty s sts)) =
     calls s @ (case find_unused ty sts of None \<Rightarrow> [PID_NEW (out_count s)] | Some j \<Rightarrow> [])"
  by (simp add: m2psdmx_get_stream_def gf_filter_pid_new_def note_call_def split: option.split)

lemma setup_video_calls:
  "calls (fst (m2psdmx_setup_video lib h dur i (s, sts, sy))) =
   calls (fst (m2psdmx_get_stream GF_STREAM_VISUAL s sts))"
  by (simp add: m2psdmx_setup_video_def Let_def split_beta
      gf_filter_pid_set_property_def split: mpeg2ps_video_type.split)

lemma setup_audio_calls:
  "mpeg2ps_get_audio_stream_type lib h i \<noteq> MPEG_AUDIO_UNKNOWN \<Longrightarrow>
   calls (fst (m2psdmx_setup_audio lib h dur i (s, sts, sy))) =
   calls (fst (m2psdmx_get_stream GF_STREAM_AUDIO s sts))"
  by (simp add: m2psdmx_setup_audio_def Let_def split_beta
      gf_filter_pid_set_property_def split: mpeg2ps_audio_type.split)

lemma setup_video_new:
  "\<exists>cs. calls (fst (m2psdmx_setup_video lib h dur i (s, sts, sy))) = calls s @ cs \<and> list_all is_pid_new cs"
  by (simp add: setup_video_calls get_stream_calls split: option.split)

lemma setup_audio_new:
  "\<exists>cs. calls (fst (m2psdmx_setup_audio lib h dur i (s, sts, sy))) = calls s @ cs \<and> list_all is_pid_new cs"
proof (cases "mpeg2ps_get_audio_stream_type lib h i = MPEG_AUDIO_UNKNOWN")
  case True
  then show ?thesis by (simp add: setup_audio_skip)
next
  case False
  then show ?thesis by (simp add: setup_audio_calls get_stream_calls split: option.split)
qed

lemma fold_setup_video_new:
  "\<exists>cs. calls (fst (fold (m2psdmx_setup_video lib h dur) is (s, sts, sy))) = calls s @ cs \<and>
        list_all is_pid_new cs"
proof (induction "is" arbitrary: s sts sy)
  case Nil
  then show ?case by simp
next
  case (Cons i "is")
  obtain s1 sts1 sy1 where one: "m2psdmx_setup_video lib h dur i (s, sts, sy) = (s1, sts1, sy1)"
    by (metis prod_cases3)
  from setup_video_new[of lib h dur i s sts sy] one
  obtain cs where c: "calls s1 = calls s @ cs" "list_all is_pid_new cs" by auto
  from Cons.IH[of s1 sts1 sy1] obtain ds where
    d: "calls (fst (fold (m2psdmx_setup_video lib h dur) is (s1, sts1, sy1))) = calls s1 @ ds"
      "list_all is_pid_new ds" by auto
  from c d one show ?case by (intro exI[of _ "cs @ ds"]) simp
qed

lemma fold_setup_audio_new:
  "\<exists>cs. calls (fst (fold (m2psdmx_setup_audio lib h dur) is (s, sts, sy))) = calls s @ cs \<and>
        list_all is_pid_new cs"
proof (induction "is" arbitrary: s sts sy)
  case Nil
  then show ?case by simp
next
  case (Cons i "is")
  obtain s1 sts1 sy1 where one: "m2psdmx_setup_audio lib h dur i (s, sts, sy) = (s1, sts1, sy1)"
    by (metis prod_cases3)
  from setup_audio_new[of lib h dur i s sts sy] one
  obtain cs where c: "calls s1 = calls s @ cs" "list_all is_pid_new cs" by auto
  from Cons.IH[of s1 sts1 sy1] obtain ds where
    d: "calls (fst (fold (m2psdmx_setup_audio lib h dur) is (s1, sts1, sy1))) = calls s1 @ ds"
      "list_all is_pid_new ds" by auto
  from c d one show ?case by (intro exI[of _ "cs @ ds"]) simp
qed

lemma setup_new:
  "\<exists>cs. calls (fst (m2psdmx_setup lib h s ctx)) = calls s @ cs \<and> list_all is_pid_new cs"
proof -
  let ?dur = "(ucast (mpeg2ps_get_max_time_msec lib h) :: s32, 1000 :: u32)"
  obtain s1 sts1 sy1 where v: "fold (m2psdmx_setup_video lib h ?dur)
        (u32_upto (mpeg2ps_get_video_stream_count lib h))
        (s, streams (ctx\<lparr>first_dts := mpeg2ps_get_first_cts lib h\<rparr>), 0) = (s1, sts1, sy1)"
    by (metis prod_cases3)
  obtain s2 sts2 sy2 where a: "fold (m2psdmx_setup_audio lib h ?dur)
        (u32_upto (mpeg2ps_get_audio_stream_count lib h)) (s1, sts1, sy1) = (s2, sts2, sy2)"
    by (metis prod_cases3)
  have r: "fst (m2psdmx_setup lib h s ctx) = s2"
    using v a by (simp add: m2psdmx_setup_def Let_def)
  from fold_setup_video_new[of lib h ?dur "u32_upto (mpeg2ps_get_video_stream_count lib h)" s "streams ctx" 0] v
  obtain cs where c: "calls s1 = calls s @ cs" "list_all is_pid_new cs" by auto
  from fold_setup_audio_new[of lib h ?dur "u32_upto (mpeg2ps_get_audio_stream_count lib h)" s1 sts1 sy1] a
  obtain ds where d: "calls s2 = calls s1 @ ds" "list_all is_pid_new ds" by auto
  from c d r show ?thesis by (intro exI[of _ "cs @ ds"]) simp
qed

lemma pid_new_no_seek: "list_all is_pid_new cs \<Longrightarrow> filter is_seek cs = []"
proof (induction cs)
  case Nil
  then show ?case by simp
next
  case (Cons c cs)
  then show ?case by (cases c) simp_all
qed

lemma fold_seek_calls:
  "fold (m2psdmx_seek_stream lib t) sts (s, h) = (s', h') \<Longrightarrow>
   calls s' = calls s @ map (seek_call t) (filter in_use sts)"
proof (induction sts arbitrary: s h)
  case Nil
  then show ?case by simp
next
  case (Cons st sts)
  obtain s1 h1 where one: "m2psdmx_seek_stream lib t st (s, h) = (s1, h1)"
    by (metis surj_pair)
  then have "calls s1 = calls s @ map (seek_call t) (filter in_use [st])"
    by (auto simp: m2psdmx_seek_stream_def note_call_def seek_call_def split: if_splits)
  moreover from Cons.prems one have "fold (m2psdmx_seek_stream lib t) sts (s1, h1) = (s', h')"
    by simp
  ultimately show ?case using Cons.IH by simp
qed

lemma process_stream_calls:
  "\<exists>cs. calls (fst (m2psdmx_process_stream lib fd st (s, h, n))) = calls s @ cs \<and>
        filter is_seek cs = []"
  by (simp add: m2psdmx_process_stream_def Let_def note_call_def gf_filter_pck_send_def
      split: prod.split option.split)

lemma fold_process_stream_calls:
  "\<exists>cs. calls (fst (fold (m2psdmx_process_stream lib fd) sts (s, h, n))) = calls s @ cs \<and>
        filter is_seek cs = []"
proof (induction sts arbitrary: s h n)
  case Nil
  then show ?case by simp
next
  case (Cons st sts)
  obtain s1 h1 n1 where one: "m2psdmx_process_stream lib fd st (s, h, n) = (s1, h1, n1)"
    by (metis prod_cases3)
  from process_stream_calls[of lib fd st s h n] one
  obtain cs where c: "calls s1 = calls s @ cs" "filter is_seek cs = []" by auto
  from Cons.IH[of s1 h1 n1] obtain ds where
    d: "calls (fst (fold (m2psdmx_process_stream lib fd) sts (s1, h1, n1))) = calls s1 @ ds"
      "filter is_seek ds = []" by auto
  from c d one show ?case by (intro exI[of _ "cs @ ds"]) simp
qed

lemma fold_set_eos_calls: "calls (fold (\<lambda>st. gf_filter_pid_set_eos (opid st)) sts s) = calls s"
  by (induction sts arbitrary: s) (simp_all add: gf_filter_pid_set_eos_def)

lemma drop_packet_calls:
  "\<exists>cs. calls (gf_filter_pid_drop_packet p s) = calls s @ cs \<and> filter is_seek cs = []"
  by (simp add: gf_filter_pid_drop_packet_def note_call_def split: option.split)

lemma process_open_seeks:
  assumes "m2psdmx_process_open lib h s ctx = (e, s', ctx')"
  shows "(\<exists>cs. calls s' = calls s @ cs \<and> filter is_seek cs =
           (if is_playing ctx \<and> in_seek ctx
            then map (seek_call (double_msec lib (start_range ctx))) (filter in_use (streams ctx))
            else []))
         \<and> in_seek ctx' = (in_seek ctx \<and> \<not> is_playing ctx) \<and> streams ctx' = streams ctx"
proof (cases "is_playing ctx")
  case False
  with assms show ?thesis by (simp add: m2psdmx_process_open_def)
next
  case True
  define t where "t = double_msec lib (start_range ctx)"
  obtain s1 h1 where sk: "(if in_seek ctx then fold (m2psdmx_seek_stream lib t) (streams ctx) (s, h)
      else (s, h)) = (s1, h1)"
    by (metis surj_pair)
  have c1: "calls s1 = calls s @ (if in_seek ctx then map (seek_call t) (filter in_use (streams ctx)) else [])"
    using sk fold_seek_calls[of lib t "streams ctx" s h s1 h1] by (auto split: if_splits)
  obtain s2 h2 n where fr: "fold (m2psdmx_process_stream lib (first_dts ctx)) (streams ctx) (s1, h1, 0)
      = (s2, h2, n)"
    by (metis prod_cases3)
  from fold_process_stream_calls[of lib "first_dts ctx" "streams ctx" s1 h1 0] fr
  obtain cs where c2: "calls s2 = calls s1 @ cs" "filter is_seek cs = []" by auto
  define ctx2 where "ctx2 = ctx\<lparr>in_seek := False, ps := Some h2\<rparr>"
  have res: "(e, s', ctx') =
      (if n = length (streams ctx)
       then (GF_EOS, gf_filter_pid_drop_packet (ipid ctx2)
               (fold (\<lambda>st. gf_filter_pid_set_eos (opid st)) (streams ctx2) s2), ctx2)
       else (GF_OK, s2, ctx2))"
    using assms True sk fr
    by (auto simp: m2psdmx_process_open_def Let_def t_def ctx2_def split: if_splits prod.splits)
  from drop_packet_calls[of "ipid ctx2" "fold (\<lambda>st. gf_filter_pid_set_eos (opid st)) (streams ctx2) s2"]
  obtain ds where c3: "calls (gf_filter_pid_drop_packet (ipid ctx2)
               (fold (\<lambda>st. gf_filter_pid_set_eos (opid st)) (streams ctx2) s2)) = calls s2 @ ds"
      "filter is_seek ds = []"
    by (auto simp: fold_set_eos_calls)
  have "\<exists>es. calls s' = calls s2 @ es \<and> filter is_seek es = []"
    using res c3 by (auto split: if_splits)
  then obtain es where c4: "calls s' = calls s2 @ es" "filter is_seek es = []" by auto
  have sk_seek: "filter is_seek (map (seek_call t) sts) = map (seek_call t) sts" for sts
    by (induction sts) (simp_all add: seek_call_def)
  let ?sk = "(if in_seek ctx then map (seek_call t) (filter in_use (streams ctx)) else [])"
  have "calls s' = calls s @ (?sk @ cs @ es)" "filter is_seek (?sk @ cs @ es) = ?sk"
    using c1 c2 c4 by (simp_all add: sk_seek)
  then have "\<exists>cs. calls s' = calls s @ cs \<and> filter is_seek cs = ?sk" by blast
  moreover have "ctx' = ctx2" using res by (auto split: if_splits)
  ultimately show ?thesis using True unfolding ctx2_def t_def by auto
qed

lemma process_seeks:
  assumes "m2psdmx_process lib s ctx = (e, s', ctx')"
  shows "(\<exists>cs. calls s' = calls s @ cs \<and> filter is_seek cs =
           (if in_seek ctx \<and> \<not> in_seek ctx'
            then map (seek_call (double_msec lib (start_range ctx))) (filter in_use (streams ctx'))
            else []))
         \<and> (in_seek ctx' \<longrightarrow> in_seek ctx)"
proof (cases "gf_filter_pid_get_packet (ipid ctx) s")
  case None
  with assms show ?thesis by (auto simp: m2psdmx_process_def)
next
  case (Some pck)
  note pk = this
  show ?thesis
  proof (cases "ps ctx")
    case (Some h)
    with assms pk
    have "m2psdmx_process_open lib h s ctx = (e, s', ctx')" by (simp add: m2psdmx_process_def)
    from process_open_seeks[OF this] show ?thesis by auto
  next
    case None
    note noh = this
    show ?thesis
    proof (cases "mpeg2ps_init lib (src_url ctx)")
      case None
      with assms noh pk show ?thesis
        by (auto simp: m2psdmx_process_def Let_def note_call_def)
    next
      case (Some h)
      define s1 where "s1 = note_call (PS_INIT (src_url ctx)) s"
      obtain s2 ctx2 where su:
        "m2psdmx_setup lib h s1 (ctx\<lparr>ps := Some h\<rparr>) = (s2, ctx2)"
        by (metis surj_pair)
      from setup_new[of lib h s1 "ctx\<lparr>ps := Some h\<rparr>"] su
      obtain cs where c: "calls s2 = calls s1 @ cs" "list_all is_pid_new cs" by auto
      have c0: "calls s2 = calls s @ (PS_INIT (src_url ctx) # cs)"
        using c by (simp add: s1_def note_call_def)
      from setup_kept[OF su]
      have k: "ctx2 = ctx\<lparr>ps := Some h, first_dts := mpeg2ps_get_first_cts lib h, streams := streams ctx2\<rparr>"
        by simp
      have po: "m2psdmx_process_open lib h s2 ctx2 = (e, s', ctx')"
        using assms noh Some su pk
        by (simp add: m2psdmx_process_def Let_def s1_def)
      have k2: "is_playing ctx2 = is_playing ctx" "in_seek ctx2 = in_seek ctx"
        "start_range ctx2 = start_range ctx"
        by (subst k, simp)+
      from process_open_seeks[OF po] k2 obtain ds where
        d: "calls s' = calls s2 @ ds"
           "filter is_seek ds = (if is_playing ctx \<and> in_seek ctx
            then map (seek_call (double_msec lib (start_range ctx))) (filter in_use (streams ctx2))
            else [])"
           "in_seek ctx' = (in_seek ctx \<and> \<not> is_playing ctx)" "streams ctx' = streams ctx2"
        by auto
      have "calls s' = calls s @ (PS_INIT (src_url ctx) # cs @ ds)"
        "filter is_seek (PS_INIT (src_url ctx) # cs @ ds) = filter is_seek ds"
        using c0 d(1) pid_new_no_seek[OF c(2)] by simp_all
      then have "\<exists>cs. calls s' = calls s @ cs \<and> filter is_seek cs = filter is_seek ds" by blast
      with d show ?thesis by auto
    qed
  qed
qed

lemma process_new_seeks:
  assumes "m2psdmx_process lib s ctx = (e, s', ctx')"
  shows "filter is_seek (new_calls s s') =
           (if in_seek ctx \<and> \<not> in_seek ctx'
            then map (seek_call (double_msec lib (start_range ctx))) (filter in_use (streams ctx'))
            else [])"
    and "in_seek ctx' \<Longrightarrow> in_seek ctx"
  using process_seeks[OF assms] by (auto simp: new_calls_def)

lemma run_no_seek:
  "\<not> in_seek ctx \<Longrightarrow> filter (list_ex is_seek) (m2psdmx_run lib ss ctx) = []"
proof (induction ss arbitrary: ctx)
  case Nil
  then show ?case by simp
next
  case (Cons s ss)
  obtain e s' ctx' where r: "m2psdmx_process lib s ctx = (e, s', ctx')"
    by (metis prod_cases3)
  from process_new_seeks[OF r] Cons.prems
  have "filter is_seek (new_calls s s') = []" "\<not> in_seek ctx'" by auto
  then have "\<not> list_ex is_seek (new_calls s s')" "filter (list_ex is_seek) (m2psdmx_run lib ss ctx') = []"
    using Cons.IH by (simp_all add: list_ex_iff filter_empty_conv)
  with r show ?case by simp
qed

lemma run_one_seek:
  "length (filter (list_ex is_seek) (m2psdmx_run lib ss ctx)) \<le> 1"
proof (induction ss arbitrary: ctx)
  case Nil
  then show ?case by simp
next
  case (Cons s ss)
  obtain e s' ctx' where r: "m2psdmx_process lib s ctx = (e, s', ctx')"
    by (metis prod_cases3)
  show ?case
  proof (cases "list_ex is_seek (new_calls s s')")
    case True
    then have "filter is_seek (new_calls s s') \<noteq> []"
      by (simp add: list_ex_iff filter_empty_conv)
    with process_new_seeks(1)[OF r] have "\<not> in_seek ctx'" by (auto split: if_splits)
    from run_no_seek[OF this] r True show ?thesis by simp
  next
    case False
    with r Cons.IH[of ctx'] show ?thesis by simp
  qed
qed

lemma process_opens:
  assumes "ps ctx = None" "gf_filter_pid_get_packet (ipid ctx) s = Some pck"
    and "m2psdmx_process lib s ctx = (e, s', ctx')"
  shows "(\<exists>cs. calls s' = calls s @ PS_INIT (src_url ctx) # cs) \<and>
         (ps ctx' \<noteq> None) = (mpeg2ps_init lib (src_url ctx) \<noteq> None)"
proof (cases "mpeg2ps_init lib (src_url ctx)")
  case None
  with assms show ?thesis
    by (auto simp: m2psdmx_process_def Let_def note_call_def)
next
  case (Some h)
  define s1 where "s1 = note_call (PS_INIT (src_url ctx)) s"
  obtain s2 ctx2 where su: "m2psdmx_setup lib h s1 (ctx\<lparr>ps := Some h\<rparr>) = (s2, ctx2)"
    by (metis surj_pair)
  from setup_new[of lib h s1 "ctx\<lparr>ps := Some h\<rparr>"] su
  obtain cs where c: "calls s2 = calls s1 @ cs" by auto
  from setup_kept[OF su]
  have k: "ctx2 = ctx\<lparr>ps := Some h, first_dts := mpeg2ps_get_first_cts lib h, streams := streams ctx2\<rparr>"
    by simp
  have po: "m2psdmx_process_open lib h s2 ctx2 = (e, s', ctx')"
    using assms Some su by (simp add: m2psdmx_process_def Let_def s1_def)
  from process_open_seeks[OF po] obtain ds where d: "calls s' = calls s2 @ ds" by auto
  have "ps ctx2 \<noteq> None" by (subst k) simp
  then have "ps ctx' \<noteq> None" using po
    by (auto simp: m2psdmx_process_open_def Let_def split: if_splits prod.splits)
  moreover have "calls s' = calls s @ PS_INIT (src_url ctx) # (cs @ ds)"
    using c d by (simp add: s1_def note_call_def)
  ultimately show ?thesis using Some by blast
qed

subsection \<open>Setup and the stream pool\<close>

lemma get_stream_props: "out_props (fst (m2psdmx_get_stream ty s sts)) = out_props s"
  by (simp add: m2psdmx_get_stream_def gf_filter_pid_new_def note_call_def split: option.split)

lemma setup_video_height:
  "out_props (fst (m2psdmx_setup_video lib h dur i (s, sts, sy))) p GF_PROP_PID_HEIGHT =
   out_props s p GF_PROP_PID_HEIGHT"
  using get_stream_props[of GF_STREAM_VISUAL s sts]
  by (simp add: m2psdmx_setup_video_def Let_def split_beta
      gf_filter_pid_set_property_def split: mpeg2ps_video_type.split)

lemma setup_audio_height:
  "out_props (fst (m2psdmx_setup_audio lib h dur i (s, sts, sy))) p GF_PROP_PID_HEIGHT =
   out_props s p GF_PROP_PID_HEIGHT"
  using get_stream_props[of GF_STREAM_AUDIO s sts]
  by (simp add: m2psdmx_setup_audio_def Let_def split_beta
      gf_filter_pid_set_property_def split: mpeg2ps_audio_type.split)

lemma fold_setup_video_height:
  "out_props (fst (fold (m2psdmx_setup_video lib h dur) is (s, sts, sy))) p GF_PROP_PID_HEIGHT =
   out_props s p GF_PROP_PID_HEIGHT"
proof (induction "is" arbitrary: s sts sy)
  case Nil
  then show ?case by simp
next
  case (Cons i "is")
  obtain s1 sts1 sy1 where one: "m2psdmx_setup_video lib h dur i (s, sts, sy) = (s1, sts1, sy1)"
    by (metis prod_cases3)
  with setup_video_height[of lib h dur i s sts sy p] Cons.IH[of s1 sts1 sy1] show ?case by simp
qed

lemma fold_setup_audio_height:
  "out_props (fst (fold (m2psdmx_setup_audio lib h dur) is (s, sts, sy))) p GF_PROP_PID_HEIGHT =
   out_props s p GF_PROP_PID_HEIGHT"
proof (induction "is" arbitrary: s sts sy)
  case Nil
  then show ?case by simp
next
  case (Cons i "is")
  obtain s1 sts1 sy1 where one: "m2psdmx_setup_audio lib h dur i (s, sts, sy) = (s1, sts1, sy1)"
    by (metis prod_cases3)
  with setup_audio_height[of lib h dur i s sts sy p] Cons.IH[of s1 sts1 sy1] show ?case by simp
qed

lemma setup_height:
  "out_props (fst (m2psdmx_setup lib h s ctx)) p GF_PROP_PID_HEIGHT = out_props s p GF_PROP_PID_HEIGHT"
proof -
  let ?dur = "(ucast (mpeg2ps_get_max_time_msec lib h) :: s32, 1000 :: u32)"
  obtain s1 sts1 sy1 where v: "fold (m2psdmx_setup_video lib h ?dur)
        (u32_upto (mpeg2ps_get_video_stream_count lib h))
        (s, streams (ctx\<lparr>first_dts := mpeg2ps_get_first_cts lib h\<rparr>), 0) = (s1, sts1, sy1)"
    by (metis prod_cases3)
  obtain s2 sts2 sy2 where a: "fold (m2psdmx_setup_audio lib h ?dur)
        (u32_upto (mpeg2ps_get_audio_stream_count lib h)) (s1, sts1, sy1) = (s2, sts2, sy2)"
    by (metis prod_cases3)
  have r: "fst (m2psdmx_setup lib h s ctx) = s2"
    using v a by (simp add: m2psdmx_setup_def Let_def)
  from fold_setup_video_height[of lib h ?dur "u32_upto (mpeg2ps_get_video_stream_count lib h)" s "streams ctx" 0 p] v
  have "out_props s1 p GF_PROP_PID_HEIGHT = out_props s p GF_PROP_PID_HEIGHT" by simp
  moreover from fold_setup_audio_height[of lib h ?dur "u32_upto (mpeg2ps_get_audio_stream_count lib h)" s1 sts1 sy1 p] a
  have "out_props s2 p GF_PROP_PID_HEIGHT = out_props s1 p GF_PROP_PID_HEIGHT" by simp
  ultimately show ?thesis using r by simp
qed

lemma find_unused_ex:
  "list_ex (\<lambda>st. stream_type st = ty \<and> \<not> in_use st) sts \<Longrightarrow> \<exists>j. find_unused ty sts = Some j"
  by (induction sts) auto

lemma find_unused_none:
  "\<not> list_ex (\<lambda>st. stream_type st = ty \<and> \<not> in_use st) sts \<Longrightarrow> find_unused ty sts = None"
  by (induction sts) auto

lemma find_unused_first:
  "find_unused ty sts = Some j \<Longrightarrow>
   \<not> list_ex (\<lambda>st. stream_type st = ty \<and> \<not> in_use st) (take j sts)"
proof (induction sts arbitrary: j)
  case Nil
  then show ?case by simp
next
  case (Cons st sts)
  then show ?case by (cases j) (auto split: if_splits)
qed

lemma get_stream_count:
  "out_count (fst (m2psdmx_get_stream ty s sts)) =
     (case find_unused ty sts of None \<Rightarrow> Suc (out_count s) | Some j \<Rightarrow> out_count s)"
  by (simp add: m2psdmx_get_stream_def gf_filter_pid_new_def note_call_def split: option.split)

lemma setup_video_count:
  "out_count (fst (m2psdmx_setup_video lib h dur i (s, sts, sy))) =
   out_count (fst (m2psdmx_get_stream GF_STREAM_VISUAL s sts))"
  by (simp add: m2psdmx_setup_video_def Let_def split_beta
      gf_filter_pid_set_property_def split: mpeg2ps_video_type.split)

lemma setup_audio_count:
  "mpeg2ps_get_audio_stream_type lib h i \<noteq> MPEG_AUDIO_UNKNOWN \<Longrightarrow>
   out_count (fst (m2psdmx_setup_audio lib h dur i (s, sts, sy))) =
   out_count (fst (m2psdmx_get_stream GF_STREAM_AUDIO s sts))"
  by (simp add: m2psdmx_setup_audio_def Let_def split_beta
      gf_filter_pid_set_property_def split: mpeg2ps_audio_type.split)

lemma reuse_keeps_pins:
  assumes "find_unused ty sts = Some j"
  shows "map opid (sts[j := (sts ! j)\<lparr>stream_num := i, in_use := True\<rparr>]) = map opid sts"
proof -
  from find_unused_less[OF assms] have j: "j < length sts" .
  then show ?thesis
    by (simp add: map_update list_update_same_conv)
qed

lemma setup_video_reuse:
  assumes "list_ex (\<lambda>st. stream_type st = GF_STREAM_VISUAL \<and> \<not> in_use st) sts"
  shows "case m2psdmx_setup_video lib h dur i (s, sts, sy) of
           (s', sts', sy') \<Rightarrow>
             calls s' = calls s \<and> out_count s' = out_count s \<and> map opid sts' = map opid sts"
proof -
  from assms obtain j where j: "find_unused GF_STREAM_VISUAL sts = Some j"
    using find_unused_ex by blast
  then have g: "m2psdmx_get_stream GF_STREAM_VISUAL s sts = (s, sts, j)"
    by (simp add: m2psdmx_get_stream_def)
  obtain s' sts' sy' where r: "m2psdmx_setup_video lib h dur i (s, sts, sy) = (s', sts', sy')"
    by (metis prod_cases3)
  from setup_video_calls[of lib h dur i s sts sy] setup_video_count[of lib h dur i s sts sy]
    setup_video_streams[of lib h dur i s sts sy] g r reuse_keeps_pins[OF j, of i]
  show ?thesis by simp
qed

lemma setup_audio_reuse:
  assumes "list_ex (\<lambda>st. stream_type st = GF_STREAM_AUDIO \<and> \<not> in_use st) sts"
  shows "case m2psdmx_setup_audio lib h dur i (s, sts, sy) of
           (s', sts', sy') \<Rightarrow>
             calls s' = calls s \<and> out_count s' = out_count s \<and> map opid sts' = map opid sts"
proof (cases "mpeg2ps_get_audio_stream_type lib h i = MPEG_AUDIO_UNKNOWN")
  case True
  then show ?thesis by (simp add: setup_audio_skip)
next
  case False
  from assms obtain j where j: "find_unused GF_STREAM_AUDIO sts = Some j"
    using find_unused_ex by blast
  then have g: "m2psdmx_get_stream GF_STREAM_AUDIO s sts = (s, sts, j)"
    by (simp add: m2psdmx_get_stream_def)
  obtain s' sts' sy' where r: "m2psdmx_setup_audio lib h dur i (s, sts, sy) = (s', sts', sy')"
    by (metis prod_cases3)
  from setup_audio_calls[OF False, of dur s sts sy] setup_audio_count[OF False, of dur s sts sy]
    setup_audio_streams[OF False, of dur s sts sy] g r reuse_keeps_pins[OF j, of i]
  show ?thesis by simp
qed

subsection \<open>The encoder: word arithmetic, the timestamp shift, failed encode calls\<close>

lemma sint_ucast_u32:
  fixes sr :: u32
  shows "sint (ucast sr :: s64) = uint sr"
proof -
  have "uint sr < 2 ^ 32" using uint_lt2p[of sr] by simp
  moreover have "- (2 ^ 63) \<le> (0 :: int)" by simp
  then have "- (2 ^ 63) \<le> uint sr" using uint_nonnegative[of sr] by (rule order_trans)
  ultimately have "- (2 ^ 63) \<le> uint sr" "uint sr < 2 ^ 63" by simp_all
  then show ?thesis by (simp add: signed_ucast_eq signed_take_bit_int_eq_self)
qed

lemma scale_same:
  fixes sr :: u32
  assumes "sr \<noteq> 0"
  shows "sdiv64 (scast (64 :: s32) * ucast sr) (ucast sr) = 64"
proof -
  have u: "uint sr < 2 ^ 32" using uint_lt2p[of sr] by simp
  have p: "0 < uint sr" using assms by (simp add: uint_0_iff order_less_le)
  have c: "(scast (64 :: s32) :: s64) = 64" by simp
  have "(64 * ucast sr :: s64) = word_of_int (64 * uint sr)"
    by (simp only: ucast_eq of_int_mult of_int_numeral)
  with c have "(scast (64 :: s32) * ucast sr :: s64) = word_of_int (64 * uint sr)"
    by (simp only:)
  then have "sint (scast (64 :: s32) * ucast sr :: s64) = signed_take_bit 63 (64 * uint sr)"
    by (simp only: sint_sbintrunc') simp
  also have "\<dots> = 64 * uint sr"
    using u p by (intro signed_take_bit_int_eq_self) simp_all
  finally have b: "sint (scast (64 :: s32) * ucast sr :: s64) = 64 * uint sr" .
  show ?thesis
    using b p assms by (simp add: sdiv64_def sint_ucast_u32 signed_divide_int_def)
qed

lemma shift_int:
  fixes a b :: s64
  assumes "- (2 ^ 31) \<le> sint a - sint b" "sint a - sint b < 2 ^ 31"
  shows "sint (ucast (a - b) :: s32) = sint a - sint b"
proof -
  have "a - b = word_of_int (sint a - sint b)" by simp
  then have "uint (a - b) = take_bit 64 (sint a - sint b)"
    by (simp only: uint_word_of_int_eq) simp
  then have "sint (ucast (a - b) :: s32) = signed_take_bit 31 (take_bit 64 (sint a - sint b))"
    by (simp add: signed_ucast_eq)
  also have "\<dots> = signed_take_bit 31 (sint a - sint b)"
    by (simp add: signed_take_bit_take_bit)
  also have "\<dots> = sint a - sint b"
    using assms by (intro signed_take_bit_int_eq_self) simp_all
  finally show ?thesis .
qed

lemma audio_output_later:
  "\<not> init_cts_setup ctx \<Longrightarrow> snd (snd (ffenc_audio_output res pkt g s ctx)) = ctx"
  by (simp add: ffenc_audio_output_def Let_def)

lemma video_output_ctx: "snd (snd (ffenc_video_output res pkt g s ctx)) = ctx"
  by (simp add: ffenc_video_output_def Let_def)

lemma keep_rest_shift:
  "init_cts_setup (ffenc_audio_keep_rest p d sz n ctx) = init_cts_setup ctx \<and>
   ts_shift (ffenc_audio_keep_rest p d sz n ctx) = ts_shift ctx"
  by (simp add: ffenc_audio_keep_rest_def Let_def)

lemma process_audio_pck_later:
  assumes "\<not> init_cts_setup ctx"
  shows "\<not> init_cts_setup (snd (snd (ffenc_process_audio_pck lib p d s ctx))) \<and>
         ts_shift (snd (snd (ffenc_process_audio_pck lib p d s ctx))) = ts_shift ctx"
  using assms
  by (simp add: ffenc_process_audio_pck_def ffenc_audio_fill_def ffenc_audio_encode_def Let_def
      split_beta audio_output_later keep_rest_shift)

lemma process_audio_later:
  assumes "\<not> init_cts_setup ctx"
  shows "\<not> init_cts_setup (snd (snd (ffenc_process_audio lib s ctx))) \<and>
         ts_shift (snd (snd (ffenc_process_audio lib s ctx))) = ts_shift ctx"
  using assms process_audio_pck_later[OF assms]
  by (simp add: ffenc_process_audio_def Let_def split_beta audio_output_later
      split: option.split)

lemma process_video_later:
  "init_cts_setup (snd (snd (ffenc_process_video lib s ctx))) = init_cts_setup ctx \<and>
   ts_shift (snd (snd (ffenc_process_video lib s ctx))) = ts_shift ctx"
  by (simp add: ffenc_process_video_def Let_def split_beta video_output_ctx
      split: option.split)

lemma process_later:
  assumes "\<not> init_cts_setup ctx"
  shows "\<not> init_cts_setup (snd (snd (ffenc_process lib s ctx))) \<and>
         ts_shift (snd (snd (ffenc_process lib s ctx))) = ts_shift ctx"
  using assms process_audio_later[OF assms] process_video_later[of lib s ctx]
  by (simp add: ffenc_process_def split: ffenc_proc.split)

lemma audio_output_first:
  assumes "init_cts_setup ctx" "0 \<le> sint res" "g \<noteq> 0" "pts (frame ctx) \<noteq> av_pts pkt"
  shows "ffenc_audio_output res pkt g s ctx =
    (let sh = (ucast (pts (frame ctx) - av_pts pkt) :: s32);
         ctx' = ctx\<lparr>init_cts_setup := False, ts_shift := sh\<rparr>;
         s1 = (if sh \<noteq> 0
               then gf_filter_pid_set_property (out_pid ctx) GF_PROP_PID_AUDIO_SKIP
                      (Some (PROP_UINT (ucast (sdiv64 (scast sh * ucast (sample_rate ctx))
                                                (ucast (timescale ctx)))))) s
               else s)
     in (GF_OK, gf_filter_pck_send (out_pid ctx) (audio_dst pkt sh) s1, ctx'))"
  using assms
  by (simp add: ffenc_audio_output_def Let_def audio_dst_def gf_filter_pck_new_alloc_def)

lemma audio_output_next:
  assumes "\<not> init_cts_setup ctx" "0 \<le> sint res" "g \<noteq> 0"
  shows "ffenc_audio_output res pkt g s ctx =
     (GF_OK, gf_filter_pck_send (out_pid ctx) (audio_dst pkt (ts_shift ctx)) s, ctx)"
  using assms
  by (simp add: ffenc_audio_output_def Let_def audio_dst_def gf_filter_pck_new_alloc_def)



lemma video_output_fail:
  "sint res < 0 \<Longrightarrow>
   ffenc_video_output res pkt g s ctx =
     (GF_SERVICE_ERROR, note_call (LOG_ERROR ''Error encoding frame'') s, ctx)"
  by (simp add: ffenc_video_output_def)

lemma audio_output_fail:
  "sint res < 0 \<Longrightarrow>
   ffenc_audio_output res pkt g s ctx =
     (GF_SERVICE_ERROR, note_call (LOG_ERROR ''Error encoding frame'') s, ctx)"
  by (simp add: ffenc_audio_output_def)

lemma video_output_calls:
  "\<exists>cs. calls (fst (snd (ffenc_video_output res pkt g s ctx))) = calls s @ cs \<and>
        ENCODE_VIDEO f \<notin> set cs"
  by (simp add: ffenc_video_output_def Let_def note_call_def gf_filter_pck_send_def)

lemma audio_output_calls:
  "\<exists>cs. calls (fst (snd (ffenc_audio_output res pkt g s ctx))) = calls s @ cs \<and>
        ENCODE_AUDIO f \<notin> set cs"
  by (simp add: ffenc_audio_output_def Let_def note_call_def gf_filter_pck_send_def
      gf_filter_pid_set_property_def split_beta)

lemma process_video_encode_fails:
  assumes pk: "gf_filter_pid_get_packet (Some (in_pid ctx)) s = Some p"
    and r: "ffenc_process_video lib s ctx = (e, s', ctx')"
    and enc: "ENCODE_VIDEO (Some fr) \<in> set (new_calls s s')"
    and neg: "sint (fst (avcodec_encode_video2 lib (encoder ctx) (enc_buffer_size ctx) (Some fr))) < 0"
  shows "encode_failed_result (ENCODE_VIDEO (Some fr)) s ctx (e, s', ctx')"
proof -
  let ?fr0 = "(frame ctx)\<lparr>pict_type := 0, fr_width := width ctx, fr_height := height ctx,
                               fr_format := pixel_fmt ctx\<rparr>"
  let ?fr1 = "(if all_intra ctx then ?fr0\<lparr>pict_type := AV_PICTURE_TYPE_I\<rparr> else ?fr0)"
  obtain e0 fr2 where pl: "(case ipck_data p of
                                   Some d \<Rightarrow> (GF_OK, ffenc_data_planes ctx d ?fr1)
                                 | None \<Rightarrow> ffenc_hw_planes ctx p ?fr1) = (e0, fr2)"
    by (metis surj_pair)
  show ?thesis
  proof (cases "e0 = GF_OK")
    case False
    with r pk pl have "s' = gf_filter_pid_drop_packet (Some (in_pid ctx))
                            (note_call (LOG_ERROR ''Failed to fetch frame data'') s)"
      by (auto simp: ffenc_process_video_def Let_def)
    with enc show ?thesis
      by (simp add: new_calls_def gf_filter_pid_drop_packet_def note_call_def)
  next
    case True
    let ?fr3 = "(if ipck_interlaced p = 0 then fr2\<lparr>interlaced_frame := 0\<rparr>
                                  else fr2\<lparr>interlaced_frame := 1,
                                           top_field_first :=
                                             (if ipck_interlaced p = 2 then 1 else 0)\<rparr>)"
    let ?fr4 = "?fr3\<lparr>pts := ipck_cts p, pkt_pts := ipck_cts p, pkt_dts := ipck_cts p\<rparr>"
    obtain res pkt g c where en:
      "avcodec_encode_video2 lib (encoder ctx) (enc_buffer_size ctx) (Some ?fr4) = (res, pkt, g, c)"
      by (metis prod_cases4)
    let ?s2 = "gf_filter_pid_drop_packet (Some (in_pid ctx)) (note_call (ENCODE_VIDEO (Some ?fr4)) s)"
    have res: "(e, s', ctx') = ffenc_video_output res pkt g ?s2 (ctx\<lparr>frame := ?fr4, encoder := c\<rparr>)"
      using r pk pl True en
      by (auto simp: ffenc_process_video_def Let_def)
    have c2: "calls ?s2 = calls s @ [ENCODE_VIDEO (Some ?fr4), PID_DROP_PACKET (in_pid ctx)]"
      by (simp add: gf_filter_pid_drop_packet_def note_call_def)
    from video_output_calls[of res pkt g ?s2 "ctx\<lparr>frame := ?fr4, encoder := c\<rparr>" "Some fr"] res
    obtain cs where cs: "calls s' = calls ?s2 @ cs" "ENCODE_VIDEO (Some fr) \<notin> set cs"
      by (metis fst_conv snd_conv)
    with enc c2 have f: "fr = ?fr4" by (auto simp: new_calls_def)
    with neg en have "sint res < 0" by simp
    from video_output_fail[OF this, of pkt g ?s2 "ctx\<lparr>frame := ?fr4, encoder := c\<rparr>"] res
    have "e = GF_SERVICE_ERROR" "s' = note_call (LOG_ERROR ''Error encoding frame'') ?s2"
      "ctx' = ctx\<lparr>frame := ?fr4, encoder := c\<rparr>" by simp_all
    then show ?thesis using f
      by (simp add: encode_failed_result_def new_calls_def gf_filter_pid_drop_packet_def
          note_call_def)
  qed
qed

lemma audio_fill_keeps:
  "ffenc_audio_fill lib d ctx = (res, d', sz', nb_copy, ctx2) \<Longrightarrow>
   in_pid ctx2 = in_pid ctx \<and> encoder ctx2 = encoder ctx \<and>
   enc_buffer_size ctx2 = enc_buffer_size ctx \<and> flush_done ctx2 = flush_done ctx"
  by (auto simp: ffenc_audio_fill_def Let_def split: if_splits prod.splits)

lemma audio_encode_fails:
  assumes r: "ffenc_audio_encode lib p d sz nb_copy s ctx = (e, s', ctx')"
    and enc: "ENCODE_AUDIO (Some fr) \<in> set (new_calls s s')"
    and neg: "sint (fst (avcodec_encode_audio2 lib (encoder ctx) (enc_buffer_size ctx) (Some fr))) < 0"
  shows "encode_failed_result (ENCODE_AUDIO (Some fr)) s ctx (e, s', ctx')"
proof -
  let ?fr4 = "(frame ctx)\<lparr>pts := first_byte_cts ctx, pkt_pts := first_byte_cts ctx,
                            pkt_dts := first_byte_cts ctx\<rparr>"
  obtain res pkt g c where en:
    "avcodec_encode_audio2 lib (encoder ctx) (enc_buffer_size ctx) (Some ?fr4) = (res, pkt, g, c)"
    by (metis prod_cases4)
  let ?ctx3 = "ffenc_audio_keep_rest p d sz nb_copy (ctx\<lparr>frame := ?fr4, encoder := c\<rparr>)"
  let ?s2 = "gf_filter_pid_drop_packet (Some (in_pid ?ctx3)) (note_call (ENCODE_AUDIO (Some ?fr4)) s)"
  have k3: "in_pid ?ctx3 = in_pid ctx" "flush_done ?ctx3 = flush_done ctx"
    by (simp_all add: ffenc_audio_keep_rest_def Let_def)
  have res: "(e, s', ctx') = ffenc_audio_output res pkt g ?s2 ?ctx3"
    using r en by (simp add: ffenc_audio_encode_def Let_def)
  have c2: "calls ?s2 = calls s @ [ENCODE_AUDIO (Some ?fr4), PID_DROP_PACKET (in_pid ctx)]"
    by (simp add: gf_filter_pid_drop_packet_def note_call_def k3)
  from audio_output_calls[of res pkt g ?s2 ?ctx3 "Some fr"] res
  obtain cs where cs: "calls s' = calls ?s2 @ cs" "ENCODE_AUDIO (Some fr) \<notin> set cs"
    by (metis fst_conv snd_conv)
  with enc c2 have f: "fr = ?fr4" by (auto simp: new_calls_def)
  with neg en have "sint res < 0" by simp
  from audio_output_fail[OF this, of pkt g ?s2 ?ctx3] res
  have "e = GF_SERVICE_ERROR" "s' = note_call (LOG_ERROR ''Error encoding frame'') ?s2"
    "ctx' = ?ctx3" by simp_all
  then show ?thesis using f k3
    by (simp add: encode_failed_result_def new_calls_def gf_filter_pid_drop_packet_def
        note_call_def)
qed

lemma process_audio_encode_fails:
  assumes pk: "gf_filter_pid_get_packet (Some (in_pid ctx)) s = Some p"
    and r: "ffenc_process_audio lib s ctx = (e, s', ctx')"
    and enc: "ENCODE_AUDIO (Some fr) \<in> set (new_calls s s')"
    and neg: "sint (fst (avcodec_encode_audio2 lib (encoder ctx) (enc_buffer_size ctx) (Some fr))) < 0"
  shows "encode_failed_result (ENCODE_AUDIO (Some fr)) s ctx (e, s', ctx')"
proof (cases "ipck_data p")
  case None
  with r pk have "s' = gf_filter_pid_drop_packet (Some (in_pid ctx))
                     (note_call (LOG_WARNING ''Packet without associated data'') s)"
    by (auto simp: ffenc_process_audio_def Let_def)
  with enc show ?thesis
    by (simp add: new_calls_def gf_filter_pid_drop_packet_def note_call_def)
next
  case (Some d)
  with r pk have r1: "ffenc_process_audio_pck lib p d s ctx = (e, s', ctx')"
    by (simp add: ffenc_process_audio_def Let_def)
  let ?ctx1 = "(if bytes_in_audio_buffer ctx = 0 then ctx\<lparr>first_byte_cts := ipck_cts p\<rparr>
                  else ctx)"
  have k1: "in_pid ?ctx1 = in_pid ctx" "encoder ?ctx1 = encoder ctx"
    "enc_buffer_size ?ctx1 = enc_buffer_size ctx" "flush_done ?ctx1 = flush_done ctx"
    by simp_all
  obtain res0 d' sz' nb_copy ctx2 where fill:
    "ffenc_audio_fill lib d ?ctx1 = (res0, d', sz', nb_copy, ctx2)"
    by (metis prod_cases5)
  note k2 = audio_fill_keeps[OF fill, unfolded k1]
  consider
    (acc) "s' = gf_filter_pid_drop_packet (Some (in_pid ctx)) s"
  | (bad) "s' = gf_filter_pid_drop_packet (Some (in_pid ctx))
                  (note_call (LOG_ERROR ''Error filling raw audio frame'') s)"
  | (enc) "ffenc_audio_encode lib p d' sz' nb_copy s ctx2 = (e, s', ctx')"
    using r1 fill k2
    by (auto simp: ffenc_process_audio_pck_def Let_def split: if_splits)
  then show ?thesis
  proof cases
    case acc
    with enc show ?thesis
      by (simp add: new_calls_def gf_filter_pid_drop_packet_def note_call_def)
  next
    case bad
    with enc show ?thesis
      by (simp add: new_calls_def gf_filter_pid_drop_packet_def note_call_def)
  next
    case enc
    from audio_encode_fails[OF enc] assms(3) neg k2
    show ?thesis by (simp add: encode_failed_result_def)
  qed
qed



subsection \<open>Claims\<close>

text \<open>
  C10: once the source handle is open, a \<^verbatim>\<open>m2psdmx_process\<close> call made while the filter is
  not playing returns \<^verbatim>\<open>GF_OK\<close> and leaves the session and the filter state as they were,
  whether or not an input packet is pending: no frame is read, nothing is sought, no
  packet is emitted, no output pin is marked end-of-stream, and the pending input packet
  is not dropped.
\<close>

theorem C10_not_playing_is_noop:
  "ps ctx = Some h \<Longrightarrow> \<not> is_playing ctx \<Longrightarrow> m2psdmx_process lib s ctx = (GF_OK, s, ctx)"
  by (simp add: m2psdmx_process_def m2psdmx_process_open_def split: option.splits)

theorem C10_not_playing_is_noop_witness:
  "ps (m2psdmx_ctx0\<lparr>ps := Some \<lparr>mem_video = [], mem_audio = []\<rparr>\<rparr>)
     = Some \<lparr>mem_video = [], mem_audio = []\<rparr>
   \<and> \<not> is_playing (m2psdmx_ctx0\<lparr>ps := Some \<lparr>mem_video = [], mem_audio = []\<rparr>\<rparr>)
   \<and> gf_filter_pid_get_packet (Some 0) (session0 [file_pck] (path_prop ''a.mpg'')) = Some file_pck
   \<and> m2psdmx_process (mem_lib [] []) (session0 [file_pck] (path_prop ''a.mpg''))
        (m2psdmx_ctx0\<lparr>ipid := Some 0, ps := Some \<lparr>mem_video = [], mem_audio = []\<rparr>\<rparr>)
      = (GF_OK, session0 [file_pck] (path_prop ''a.mpg''),
         m2psdmx_ctx0\<lparr>ipid := Some 0, ps := Some \<lparr>mem_video = [], mem_audio = []\<rparr>\<rparr>)"
  using C10_not_playing_is_noop
    [of "m2psdmx_ctx0\<lparr>ipid := Some 0, ps := Some \<lparr>mem_video = [], mem_audio = []\<rparr>\<rparr>"
        "\<lparr>mem_video = [], mem_audio = []\<rparr>" "mem_lib [] []"
        "session0 [file_pck] (path_prop ''a.mpg'')"]
  by (simp add: m2psdmx_ctx0_def gf_filter_pid_get_packet_def session0_def)

text \<open>
  C1: when the destination pin would block, \<^verbatim>\<open>process\<close> does no transformation work for
  it. The encoder returns \<^verbatim>\<open>GF_OK\<close> with the session and its state untouched: no input
  packet is consumed, no call reaches the codec engine, no packet is produced. In the
  demuxer the loop iteration of a blocked pin in use leaves the session, the source
  handle and \<^verbatim>\<open>nb_done\<close> as they are, so no frame is pulled for it; and the whole call
  sends nothing on that pin, does not end the stream, marks no pin end-of-stream and
  leaves every input queue, hence the pending input packet, in place. (A pending seek
  and the lazy open are still carried out; they move no data.)
\<close>

theorem C1_would_block_defers:
  "(out_blocked es (out_pid ectx) \<longrightarrow> ffenc_process elib es ectx = (GF_OK, es, ectx))
   \<and> (in_use st \<and> out_blocked s (opid st) \<longrightarrow>
        m2psdmx_process_stream lib fd st (s, h, n) = (s, h, n))
   \<and> (st \<in> set (streams ctx) \<and> in_use st \<and> out_blocked s (opid st) \<longrightarrow>
        (case m2psdmx_process lib s ctx of
           (e, s', ctx') \<Rightarrow>
             e \<noteq> GF_EOS \<and> in_pcks s' = in_pcks s \<and>
             out_pcks s' (opid st) = out_pcks s (opid st) \<and> out_eos s' = out_eos s))"
proof (intro conjI impI)
  assume "out_blocked es (out_pid ectx)"
  then show "ffenc_process elib es ectx = (GF_OK, es, ectx)"
    by (simp add: ffenc_process_def)
next
  assume "in_use st \<and> out_blocked s (opid st)"
  then show "m2psdmx_process_stream lib fd st (s, h, n) = (s, h, n)"
    by (simp add: m2psdmx_process_stream_def)
next
  assume a: "st \<in> set (streams ctx) \<and> in_use st \<and> out_blocked s (opid st)"
  obtain e s' ctx' where r: "m2psdmx_process lib s ctx = (e, s', ctx')"
    by (metis prod_cases3)
  from a process_blocked[OF _ _ _ r, of st] r
  show "case m2psdmx_process lib s ctx of
          (e, s', ctx') \<Rightarrow>
            e \<noteq> GF_EOS \<and> in_pcks s' = in_pcks s \<and>
            out_pcks s' (opid st) = out_pcks s (opid st) \<and> out_eos s' = out_eos s"
    by simp
qed

theorem C1_would_block_defers_witness:
  "out_blocked blocked_session (out_pid (ffenc_audio_ctx0 []))
   \<and> ffenc_process (scripted_lib 0) blocked_session (ffenc_audio_ctx0 [])
       = (GF_OK, blocked_session, ffenc_audio_ctx0 [])
   \<and> video_stream0 \<in> set (streams playing_ctx) \<and> in_use video_stream0
   \<and> out_blocked blocked_session (opid video_stream0)
   \<and> m2psdmx_process_stream (mem_lib [] []) 0 video_stream0 (blocked_session, one_video_ps, 0)
       = (blocked_session, one_video_ps, 0)
   \<and> (case m2psdmx_process (mem_lib [] []) blocked_session playing_ctx of
         (e, s', ctx') \<Rightarrow>
           e \<noteq> GF_EOS \<and> in_pcks s' = in_pcks blocked_session \<and>
           out_pcks s' (opid video_stream0) = out_pcks blocked_session (opid video_stream0) \<and>
           out_eos s' = out_eos blocked_session)"
  using C1_would_block_defers
    [of blocked_session "ffenc_audio_ctx0 []" "scripted_lib 0" video_stream0 blocked_session
        "mem_lib [] []" 0 one_video_ps 0 playing_ctx]
  by (simp add: blocked_session_def video_stream0_def playing_ctx_def)

text \<open>
  C6: a PLAY event that arrives while the demuxer is playing, with a start offset equal
  (by the C comparison) to the stored one, is cancelled and changes nothing: the
  pending-seek flag and the stored start range stay as they are. So the same PLAY issued
  twice in a row leaves the state the first one left, and in any run of \<^verbatim>\<open>process\<close> calls
  that follows at most one call seeks. The call that consumes the pending-seek flag seeks
  each stream in use once, to the stored start range; no other call seeks.
\<close>

theorem C6_repeated_play_seeks_once:
  "(is_playing ctx \<and> double_eq lib (start_range ctx) r \<longrightarrow>
      m2psdmx_process_event lib (GF_FEVT_PLAY r) ctx = (True, ctx))
   \<and> (case m2psdmx_process_event lib (GF_FEVT_PLAY r) ctx of
         (c1, ctx1) \<Rightarrow>
           (case m2psdmx_process_event lib (GF_FEVT_PLAY r) ctx1 of
              (c2, ctx2) \<Rightarrow>
                c1 \<and> c2 \<and> ctx2 = ctx1 \<and>
                length (filter (list_ex is_seek) (m2psdmx_run lib ss ctx2)) \<le> 1))
   \<and> (case m2psdmx_process lib s ctx of
         (e, s', ctx') \<Rightarrow>
           filter is_seek (new_calls s s') =
             (if in_seek ctx \<and> \<not> in_seek ctx'
              then map (seek_call (double_msec lib (start_range ctx))) (filter in_use (streams ctx'))
              else []))"
proof (intro conjI impI)
  assume "is_playing ctx \<and> double_eq lib (start_range ctx) r"
  then show "m2psdmx_process_event lib (GF_FEVT_PLAY r) ctx = (True, ctx)"
    by (simp add: m2psdmx_process_event_def)
next
  show "case m2psdmx_process_event lib (GF_FEVT_PLAY r) ctx of
          (c1, ctx1) \<Rightarrow>
            (case m2psdmx_process_event lib (GF_FEVT_PLAY r) ctx1 of
               (c2, ctx2) \<Rightarrow>
                 c1 \<and> c2 \<and> ctx2 = ctx1 \<and>
                 length (filter (list_ex is_seek) (m2psdmx_run lib ss ctx2)) \<le> 1)"
    by (simp add: m2psdmx_process_event_def run_one_seek [simplified])
next
  obtain e s' ctx' where r: "m2psdmx_process lib s ctx = (e, s', ctx')"
    by (metis prod_cases3)
  from process_new_seeks(1)[OF r] r
  show "case m2psdmx_process lib s ctx of
          (e, s', ctx') \<Rightarrow>
            filter is_seek (new_calls s s') =
              (if in_seek ctx \<and> \<not> in_seek ctx'
               then map (seek_call (double_msec lib (start_range ctx))) (filter in_use (streams ctx'))
               else [])"
    by simp
qed

theorem C6_repeated_play_seeks_once_witness:
  "is_playing (playing_ctx\<lparr>in_seek := True\<rparr>)
   \<and> double_eq (mem_lib [] []) (start_range (playing_ctx\<lparr>in_seek := True\<rparr>)) 0
   \<and> m2psdmx_process_event (mem_lib [] []) (GF_FEVT_PLAY 0) (playing_ctx\<lparr>in_seek := True\<rparr>)
       = (True, playing_ctx\<lparr>in_seek := True\<rparr>)
   \<and> m2psdmx_run (mem_lib [] []) [open_session, open_session] (playing_ctx\<lparr>in_seek := True\<rparr>)
       = [[PS_SEEK_VIDEO 0 0, PS_GET_VIDEO_FRAME 0], [PS_GET_VIDEO_FRAME 0, PID_DROP_PACKET 0]]
   \<and> length (filter (list_ex is_seek)
        (m2psdmx_run (mem_lib [] []) [open_session, open_session] (playing_ctx\<lparr>in_seek := True\<rparr>)))
       \<le> 1"
  using C6_repeated_play_seeks_once
    [of "playing_ctx\<lparr>in_seek := True\<rparr>" "mem_lib [] []" 0 "[open_session, open_session]"
        open_session]
  by (simp add: session_eval demux_eval)

text \<open>
  C8, as the specification states it, fails: after a failed lazy open the filter keeps no
  record of the failure, and the next \<^verbatim>\<open>process\<close> call, the input packet still pending,
  calls \<^verbatim>\<open>mpeg2ps_init\<close> again. Here the file exists and does not parse; the second call
  repeats the open and the failure signal.
\<close>

theorem C8_open_is_retried_counterexample:
  "case m2psdmx_process (mem_lib [] [''bad.mpg''])
          (session0 [file_pck] (path_prop ''bad.mpg'')) failed_open_ctx of
     (e1, s1, c1) \<Rightarrow>
       (case m2psdmx_process (mem_lib [] [''bad.mpg'']) s1 c1 of
          (e2, s2, c2) \<Rightarrow>
            new_calls s1 s2 =
              [PS_INIT (Some ''bad.mpg''), SETUP_FAILURE GF_NON_COMPLIANT_BITSTREAM])"
  by (simp add: session_eval demux_eval)

text \<open>
  C8, amended: when the lazy open fails during \<^verbatim>\<open>process\<close>, the filter signals a
  setup failure (\<^verbatim>\<open>GF_URL_ERROR\<close> if the file does not exist, \<^verbatim>\<open>GF_NON_COMPLIANT_BITSTREAM\<close>
  otherwise) and returns \<^verbatim>\<open>GF_NOT_SUPPORTED\<close> for that call; its state and the session
  are otherwise unchanged, the input packet stays pending, and the next \<^verbatim>\<open>process\<close> call
  attempts the open again with the same outcome.
\<close>

theorem C8_open_failure:
  "ps ctx = None \<and> gf_filter_pid_get_packet (ipid ctx) s = Some pck \<and>
   mpeg2ps_init lib (src_url ctx) = None \<longrightarrow>
     (case m2psdmx_process lib s ctx of
        (e1, s1, c1) \<Rightarrow>
          e1 = GF_NOT_SUPPORTED \<and> c1 = ctx \<and>
          s1 = s\<lparr>calls := calls s @
                 [PS_INIT (src_url ctx),
                  SETUP_FAILURE (if gf_file_exists lib (src_url ctx)
                                 then GF_NON_COMPLIANT_BITSTREAM else GF_URL_ERROR)]\<rparr> \<and>
          (case m2psdmx_process lib s1 c1 of
             (e2, s2, c2) \<Rightarrow>
               e2 = GF_NOT_SUPPORTED \<and> c2 = ctx \<and>
               new_calls s1 s2 =
                 [PS_INIT (src_url ctx),
                  SETUP_FAILURE (if gf_file_exists lib (src_url ctx)
                                 then GF_NON_COMPLIANT_BITSTREAM else GF_URL_ERROR)]))"
  by (auto simp: m2psdmx_process_def Let_def note_call_def gf_filter_pid_get_packet_def new_calls_def
      split: option.splits list.splits)

theorem C8_open_failure_witness:
  "ps failed_open_ctx = None
   \<and> gf_filter_pid_get_packet (ipid failed_open_ctx) (session0 [file_pck] (path_prop ''bad.mpg''))
       = Some file_pck
   \<and> mpeg2ps_init (mem_lib [] []) (src_url failed_open_ctx) = None
   \<and> (case m2psdmx_process (mem_lib [] []) (session0 [file_pck] (path_prop ''bad.mpg''))
              failed_open_ctx of
        (e1, s1, c1) \<Rightarrow>
          e1 = GF_NOT_SUPPORTED \<and> c1 = failed_open_ctx \<and>
          calls s1 = [PS_INIT (Some ''bad.mpg''), SETUP_FAILURE GF_URL_ERROR])"
  using C8_open_failure
    [of failed_open_ctx "session0 [file_pck] (path_prop ''bad.mpg'')" file_pck "mem_lib [] []"]
  by (simp add: session_eval demux_eval)

text \<open>
  C7, as the specification states it, fails: \<^verbatim>\<open>m2psdmx_configure_pid\<close> records the input
  pin before it compares the paths. After the input pin was removed (the path and the
  handle stay), a new pin with the same path is accepted with \<^verbatim>\<open>GF_OK\<close> and the filter
  state changes.
\<close>

theorem C7_same_path_changes_state_counterexample:
  "src_url removed_ctx = Some ''a.mpg''
   \<and> in_props (session0 [] (path_prop ''a.mpg'')) 0 GF_PROP_PID_FILEPATH
       = Some (PROP_STRING ''a.mpg'')
   \<and> fst (m2psdmx_configure_pid 0 False (session0 [] (path_prop ''a.mpg'')) removed_ctx) = GF_OK
   \<and> snd (snd (m2psdmx_configure_pid 0 False (session0 [] (path_prop ''a.mpg'')) removed_ctx))
       \<noteq> removed_ctx"
  by (simp add: session_eval demux_eval)

text \<open>
  C7, amended: a \<^verbatim>\<open>configure_pid\<close> call (not a removal, on a pin whose capabilities match)
  with a file path equal to the recorded one returns \<^verbatim>\<open>GF_OK\<close> and changes nothing in the
  filter state but the recorded input pin, which becomes the pin of the call; the pin is
  put in framing mode. With a different path while a handle is open, the call closes the
  handle, marks every stream not in use without removing a pin, records the new path and
  returns \<^verbatim>\<open>GF_OK\<close> without opening the new source. The source is opened by the next
  \<^verbatim>\<open>process\<close> call that finds an input packet: its first call is \<^verbatim>\<open>mpeg2ps_init\<close> on the
  recorded path, and the handle is set exactly when that succeeds.
\<close>

theorem C7_configure_pid_paths:
  "(in_caps_ok s pid \<and> in_props s pid GF_PROP_PID_FILEPATH = Some (PROP_STRING path) \<and>
    src_url ctx = Some path \<longrightarrow>
      m2psdmx_configure_pid pid False s ctx =
        (GF_OK, s\<lparr>in_framing := (in_framing s)(pid := True)\<rparr>, ctx\<lparr>ipid := Some pid\<rparr>))
   \<and> (in_caps_ok s pid \<and> in_props s pid GF_PROP_PID_FILEPATH = Some (PROP_STRING path) \<and>
      src_url cb \<noteq> Some path \<and> ps cb = Some h \<longrightarrow>
      m2psdmx_configure_pid pid False s cb =
        (GF_OK,
         s\<lparr>in_framing := (in_framing s)(pid := True), calls := calls s @ [PS_CLOSE]\<rparr>,
         cb\<lparr>ipid := Some pid, streams := map (\<lambda>st. st\<lparr>in_use := False\<rparr>) (streams cb),
            ps := None, src_url := Some path\<rparr>))
   \<and> (ps cc = None \<and> gf_filter_pid_get_packet (ipid cc) sc = Some pck \<longrightarrow>
        (case m2psdmx_process lib sc cc of
           (e, s', ctx') \<Rightarrow>
             (\<exists>cs. calls s' = calls sc @ PS_INIT (src_url cc) # cs) \<and>
             (ps ctx' \<noteq> None) = (mpeg2ps_init lib (src_url cc) \<noteq> None)))"
proof (intro conjI impI)
  assume "in_caps_ok s pid \<and> in_props s pid GF_PROP_PID_FILEPATH = Some (PROP_STRING path) \<and>
    src_url ctx = Some path"
  then show "m2psdmx_configure_pid pid False s ctx =
        (GF_OK, s\<lparr>in_framing := (in_framing s)(pid := True)\<rparr>, ctx\<lparr>ipid := Some pid\<rparr>)"
    by (simp add: m2psdmx_configure_pid_def)
next
  assume "in_caps_ok s pid \<and> in_props s pid GF_PROP_PID_FILEPATH = Some (PROP_STRING path) \<and>
      src_url cb \<noteq> Some path \<and> ps cb = Some h"
  then show "m2psdmx_configure_pid pid False s cb =
        (GF_OK,
         s\<lparr>in_framing := (in_framing s)(pid := True), calls := calls s @ [PS_CLOSE]\<rparr>,
         cb\<lparr>ipid := Some pid, streams := map (\<lambda>st. st\<lparr>in_use := False\<rparr>) (streams cb),
            ps := None, src_url := Some path\<rparr>)"
    by (simp add: m2psdmx_configure_pid_def note_call_def)
next
  assume a: "ps cc = None \<and> gf_filter_pid_get_packet (ipid cc) sc = Some pck"
  obtain e s' ctx' where r: "m2psdmx_process lib sc cc = (e, s', ctx')"
    by (metis prod_cases3)
  from a process_opens[OF _ _ r, of pck] r
  show "case m2psdmx_process lib sc cc of
           (e, s', ctx') \<Rightarrow>
             (\<exists>cs. calls s' = calls sc @ PS_INIT (src_url cc) # cs) \<and>
             (ps ctx' \<noteq> None) = (mpeg2ps_init lib (src_url cc) \<noteq> None)"
    by simp
qed

theorem C7_configure_pid_paths_witness:
  "in_caps_ok open_session 0
   \<and> in_props open_session 0 GF_PROP_PID_FILEPATH = Some (PROP_STRING ''a.mpg'')
   \<and> src_url playing_ctx = Some ''a.mpg''
   \<and> m2psdmx_configure_pid 0 False open_session playing_ctx =
       (GF_OK, open_session\<lparr>in_framing := (in_framing open_session)(0 := True)\<rparr>, playing_ctx)
   \<and> src_url (playing_ctx\<lparr>src_url := Some ''old.mpg''\<rparr>) \<noteq> Some ''a.mpg''
   \<and> ps (playing_ctx\<lparr>src_url := Some ''old.mpg''\<rparr>) = Some one_video_ps
   \<and> m2psdmx_configure_pid 0 False open_session (playing_ctx\<lparr>src_url := Some ''old.mpg''\<rparr>) =
       (GF_OK,
        open_session\<lparr>in_framing := (in_framing open_session)(0 := True), calls := [PS_CLOSE]\<rparr>,
        playing_ctx\<lparr>streams := [video_stream0\<lparr>in_use := False\<rparr>], ps := None\<rparr>)
   \<and> ps (playing_ctx\<lparr>streams := [video_stream0\<lparr>in_use := False\<rparr>], ps := None\<rparr>) = None
   \<and> gf_filter_pid_get_packet
        (ipid (playing_ctx\<lparr>streams := [video_stream0\<lparr>in_use := False\<rparr>], ps := None\<rparr>))
        open_session = Some file_pck
   \<and> (case m2psdmx_process (mem_lib [(''a.mpg'', one_video_ps)] []) open_session
              (playing_ctx\<lparr>streams := [video_stream0\<lparr>in_use := False\<rparr>], ps := None\<rparr>) of
         (e, s', ctx') \<Rightarrow>
           (\<exists>cs. calls s' = PS_INIT (Some ''a.mpg'') # cs) \<and> ps ctx' \<noteq> None)"
  using C7_configure_pid_paths
    [of open_session 0 "''a.mpg''" playing_ctx "playing_ctx\<lparr>src_url := Some ''old.mpg''\<rparr>"
        one_video_ps "playing_ctx\<lparr>streams := [video_stream0\<lparr>in_use := False\<rparr>], ps := None\<rparr>"
        open_session file_pck "mem_lib [(''a.mpg'', one_video_ps)] []"]
  by (simp add: session_eval playing_ctx_def video_stream0_def m2psdmx_ctx0_def mem_lib_def)

text \<open>
  C4: the claim is right and the code is not. The video loop of \<^verbatim>\<open>m2psdmx_setup\<close> sets
  \<^verbatim>\<open>GF_PROP_PID_WIDTH\<close> twice, the second time to the height of the stream, and never sets
  \<^verbatim>\<open>GF_PROP_PID_HEIGHT\<close>: setup leaves the height property of every pin as it finds it.
  When a demuxer is redirected from \<open>a.mpg\<close> (720x576 first) to \<open>b.mpg\<close> (320x240), the
  reused video pin 0 gets the new codec identifier, but its width property is 240, the
  height of the new source, and it has no height property.
\<close>

theorem C4_setup_never_sets_height:
  "out_props (fst (m2psdmx_setup lib h s ctx)) p GF_PROP_PID_HEIGHT
     = out_props s p GF_PROP_PID_HEIGHT
   \<and> (case m2psdmx_reopen two_files m2psdmx_ctx0 ''a.mpg'' ''b.mpg'' of
        (sts_a, sts_closed, s', ctx') \<Rightarrow>
          ps ctx' = Some source_b \<and>
          mpeg2ps_get_video_stream_width two_files source_b 0 = 320 \<and>
          mpeg2ps_get_video_stream_height two_files source_b 0 = 240 \<and>
          streams ctx' ! 0 = \<lparr>opid = 0, stream_type = GF_STREAM_VISUAL, stream_num = 0,
                               in_use = True\<rparr> \<and>
          out_props s' 0 GF_PROP_PID_OTI = Some (PROP_UINT GPAC_OTI_VIDEO_MPEG1) \<and>
          out_props s' 0 GF_PROP_PID_WIDTH = Some (PROP_UINT 240) \<and>
          out_props s' 0 GF_PROP_PID_HEIGHT = None)"
proof
  show "out_props (fst (m2psdmx_setup lib h s ctx)) p GF_PROP_PID_HEIGHT
     = out_props s p GF_PROP_PID_HEIGHT"
    by (rule setup_height)
  show "case m2psdmx_reopen two_files m2psdmx_ctx0 ''a.mpg'' ''b.mpg'' of
        (sts_a, sts_closed, s', ctx') \<Rightarrow>
          ps ctx' = Some source_b \<and>
          mpeg2ps_get_video_stream_width two_files source_b 0 = 320 \<and>
          mpeg2ps_get_video_stream_height two_files source_b 0 = 240 \<and>
          streams ctx' ! 0 = \<lparr>opid = 0, stream_type = GF_STREAM_VISUAL, stream_num = 0,
                               in_use = True\<rparr> \<and>
          out_props s' 0 GF_PROP_PID_OTI = Some (PROP_UINT GPAC_OTI_VIDEO_MPEG1) \<and>
          out_props s' 0 GF_PROP_PID_WIDTH = Some (PROP_UINT 240) \<and>
          out_props s' 0 GF_PROP_PID_HEIGHT = None"
    by (simp add: session_eval demux_eval)
qed

text \<open>
  C5: when the source changes, \<^verbatim>\<open>configure_pid\<close> marks every stream not in use; it
  removes no pin (the only call it makes is the close of the handle). When a source is
  set up, each of its streams takes the first stream of its type that is not in use,
  without creating a pin and without touching the session; only when no stream of that
  type is free does it create a pin, appended to the list; an iteration of the video or
  audio loop that finds a free stream makes no call and keeps the pins of the list. So
  redirecting a demuxer from
  \<open>a.mpg\<close> (two video streams, one audio) to \<open>b.mpg\<close> (one video, one audio) reuses
  video pin 0 and audio pin 2, leaves video pin 1 alive and not in use, and over the
  whole run creates three pins and removes none.
\<close>

theorem C5_pins_are_pooled:
  "(in_caps_ok s pid \<and> in_props s pid GF_PROP_PID_FILEPATH = Some (PROP_STRING path) \<and>
      src_url ctx \<noteq> Some path \<and> ps ctx = Some h \<longrightarrow>
      (case m2psdmx_configure_pid pid False s ctx of
         (e, s', ctx') \<Rightarrow>
           streams ctx' = map (\<lambda>st. st\<lparr>in_use := False\<rparr>) (streams ctx) \<and>
           new_calls s s' = [PS_CLOSE] \<and> out_removed s' = out_removed s \<and>
           out_count s' = out_count s))
   \<and> (list_ex (\<lambda>st. stream_type st = ty \<and> \<not> in_use st) sts \<longrightarrow>
        (case m2psdmx_get_stream ty s sts of
           (s1, sts1, j) \<Rightarrow>
             s1 = s \<and> sts1 = sts \<and> j < length sts \<and> stream_type (sts ! j) = ty \<and>
             \<not> in_use (sts ! j) \<and>
             \<not> list_ex (\<lambda>st. stream_type st = ty \<and> \<not> in_use st) (take j sts)))
   \<and> (\<not> list_ex (\<lambda>st. stream_type st = ty \<and> \<not> in_use st) sts2 \<longrightarrow>
        (case m2psdmx_get_stream ty s sts2 of
           (s1, sts1, j) \<Rightarrow>
             new_calls s s1 = [PID_NEW (out_count s)] \<and> out_count s1 = Suc (out_count s) \<and>
             sts1 = sts2 @ [\<lparr>opid = out_count s, stream_type = ty, stream_num = 0,
                             in_use = False\<rparr>] \<and>
             j = length sts2))
   \<and> (case m2psdmx_reopen two_files m2psdmx_ctx0 ''a.mpg'' ''b.mpg'' of
        (sts_a, sts_closed, s', ctx') \<Rightarrow>
          sts_a =
            [\<lparr>opid = 0, stream_type = GF_STREAM_VISUAL, stream_num = 0, in_use = True\<rparr>,
             \<lparr>opid = 1, stream_type = GF_STREAM_VISUAL, stream_num = 1, in_use = True\<rparr>,
             \<lparr>opid = 2, stream_type = GF_STREAM_AUDIO, stream_num = 0, in_use = True\<rparr>] \<and>
          sts_closed = map (\<lambda>st. st\<lparr>in_use := False\<rparr>) sts_a \<and>
          streams ctx' =
            [\<lparr>opid = 0, stream_type = GF_STREAM_VISUAL, stream_num = 0, in_use = True\<rparr>,
             \<lparr>opid = 1, stream_type = GF_STREAM_VISUAL, stream_num = 1, in_use = False\<rparr>,
             \<lparr>opid = 2, stream_type = GF_STREAM_AUDIO, stream_num = 0, in_use = True\<rparr>] \<and>
          calls s' = [PS_INIT (Some ''a.mpg''), PID_NEW 0, PID_NEW 1, PID_NEW 2, PS_CLOSE,
                      PS_INIT (Some ''b.mpg'')] \<and>
          out_count s' = 3 \<and> \<not> out_removed s' 0 \<and> \<not> out_removed s' 1 \<and> \<not> out_removed s' 2)
   \<and> (list_ex (\<lambda>st. stream_type st = GF_STREAM_VISUAL \<and> \<not> in_use st) stv \<longrightarrow>
        (case m2psdmx_setup_video lib hv dur i (sv, stv, sy) of
           (s', sts', sy') \<Rightarrow>
             calls s' = calls sv \<and> out_count s' = out_count sv \<and> map opid sts' = map opid stv))
   \<and> (list_ex (\<lambda>st. stream_type st = GF_STREAM_AUDIO \<and> \<not> in_use st) sta \<longrightarrow>
        (case m2psdmx_setup_audio lib hv dur i (sv, sta, sy) of
           (s', sts', sy') \<Rightarrow>
             calls s' = calls sv \<and> out_count s' = out_count sv \<and> map opid sts' = map opid sta))"
proof (intro conjI impI)
  assume "in_caps_ok s pid \<and> in_props s pid GF_PROP_PID_FILEPATH = Some (PROP_STRING path) \<and>
      src_url ctx \<noteq> Some path \<and> ps ctx = Some h"
  then show "case m2psdmx_configure_pid pid False s ctx of
         (e, s', ctx') \<Rightarrow>
           streams ctx' = map (\<lambda>st. st\<lparr>in_use := False\<rparr>) (streams ctx) \<and>
           new_calls s s' = [PS_CLOSE] \<and> out_removed s' = out_removed s \<and>
           out_count s' = out_count s"
    by (simp add: m2psdmx_configure_pid_def note_call_def new_calls_def)
next
  assume "list_ex (\<lambda>st. stream_type st = ty \<and> \<not> in_use st) sts"
  then obtain j where j: "find_unused ty sts = Some j" using find_unused_ex by blast
  from find_unused_less[OF j] find_unused_free[OF j] find_unused_first[OF j] j
  show "case m2psdmx_get_stream ty s sts of
           (s1, sts1, j) \<Rightarrow>
             s1 = s \<and> sts1 = sts \<and> j < length sts \<and> stream_type (sts ! j) = ty \<and>
             \<not> in_use (sts ! j) \<and>
             \<not> list_ex (\<lambda>st. stream_type st = ty \<and> \<not> in_use st) (take j sts)"
    by (simp add: m2psdmx_get_stream_def)
next
  assume "\<not> list_ex (\<lambda>st. stream_type st = ty \<and> \<not> in_use st) sts2"
  from find_unused_none[OF this]
  show "case m2psdmx_get_stream ty s sts2 of
           (s1, sts1, j) \<Rightarrow>
             new_calls s s1 = [PID_NEW (out_count s)] \<and> out_count s1 = Suc (out_count s) \<and>
             sts1 = sts2 @ [\<lparr>opid = out_count s, stream_type = ty, stream_num = 0,
                             in_use = False\<rparr>] \<and>
             j = length sts2"
    by (simp add: m2psdmx_get_stream_def gf_filter_pid_new_def note_call_def new_calls_def)
next
  show "case m2psdmx_reopen two_files m2psdmx_ctx0 ''a.mpg'' ''b.mpg'' of
        (sts_a, sts_closed, s', ctx') \<Rightarrow>
          sts_a =
            [\<lparr>opid = 0, stream_type = GF_STREAM_VISUAL, stream_num = 0, in_use = True\<rparr>,
             \<lparr>opid = 1, stream_type = GF_STREAM_VISUAL, stream_num = 1, in_use = True\<rparr>,
             \<lparr>opid = 2, stream_type = GF_STREAM_AUDIO, stream_num = 0, in_use = True\<rparr>] \<and>
          sts_closed = map (\<lambda>st. st\<lparr>in_use := False\<rparr>) sts_a \<and>
          streams ctx' =
            [\<lparr>opid = 0, stream_type = GF_STREAM_VISUAL, stream_num = 0, in_use = True\<rparr>,
             \<lparr>opid = 1, stream_type = GF_STREAM_VISUAL, stream_num = 1, in_use = False\<rparr>,
             \<lparr>opid = 2, stream_type = GF_STREAM_AUDIO, stream_num = 0, in_use = True\<rparr>] \<and>
          calls s' = [PS_INIT (Some ''a.mpg''), PID_NEW 0, PID_NEW 1, PID_NEW 2, PS_CLOSE,
                      PS_INIT (Some ''b.mpg'')] \<and>
          out_count s' = 3 \<and> \<not> out_removed s' 0 \<and> \<not> out_removed s' 1 \<and> \<not> out_removed s' 2"
    by (simp add: session_eval demux_eval)
next
  assume "list_ex (\<lambda>st. stream_type st = GF_STREAM_VISUAL \<and> \<not> in_use st) stv"
  then show "case m2psdmx_setup_video lib hv dur i (sv, stv, sy) of
           (s', sts', sy') \<Rightarrow>
             calls s' = calls sv \<and> out_count s' = out_count sv \<and> map opid sts' = map opid stv"
    by (rule setup_video_reuse)
next
  assume "list_ex (\<lambda>st. stream_type st = GF_STREAM_AUDIO \<and> \<not> in_use st) sta"
  then show "case m2psdmx_setup_audio lib hv dur i (sv, sta, sy) of
           (s', sts', sy') \<Rightarrow>
             calls s' = calls sv \<and> out_count s' = out_count sv \<and> map opid sts' = map opid sta"
    by (rule setup_audio_reuse)
qed

theorem C5_pins_are_pooled_witness:
  "in_caps_ok (session0 [file_pck] (path_prop ''b.mpg'')) 0
   \<and> in_props (session0 [file_pck] (path_prop ''b.mpg'')) 0 GF_PROP_PID_FILEPATH
       = Some (PROP_STRING ''b.mpg'')
   \<and> src_url playing_ctx \<noteq> Some ''b.mpg'' \<and> ps playing_ctx = Some one_video_ps
   \<and> (case m2psdmx_configure_pid 0 False (session0 [file_pck] (path_prop ''b.mpg'')) playing_ctx of
         (e, s', ctx') \<Rightarrow>
           streams ctx' = [video_stream0\<lparr>in_use := False\<rparr>] \<and> calls s' = [PS_CLOSE] \<and>
           \<not> out_removed s' 0)
   \<and> list_ex (\<lambda>st. stream_type st = GF_STREAM_VISUAL \<and> \<not> in_use st)
        [video_stream0, video_stream0\<lparr>opid := 1, in_use := False\<rparr>]
   \<and> m2psdmx_get_stream GF_STREAM_VISUAL (session0 [file_pck] (path_prop ''b.mpg''))
        [video_stream0, video_stream0\<lparr>opid := 1, in_use := False\<rparr>]
       = (session0 [file_pck] (path_prop ''b.mpg''),
          [video_stream0, video_stream0\<lparr>opid := 1, in_use := False\<rparr>], 1)
   \<and> \<not> list_ex (\<lambda>st. stream_type st = GF_STREAM_VISUAL \<and> \<not> in_use st) [video_stream0]
   \<and> (case m2psdmx_get_stream GF_STREAM_VISUAL (session0 [file_pck] (path_prop ''b.mpg''))
              [video_stream0] of
         (s1, sts1, j) \<Rightarrow>
           calls s1 = [PID_NEW 0] \<and> j = 1 \<and>
           sts1 = [video_stream0,
                   \<lparr>opid = 0, stream_type = GF_STREAM_VISUAL, stream_num = 0, in_use = False\<rparr>])
   \<and> list_ex (\<lambda>st. stream_type st = GF_STREAM_VISUAL \<and> \<not> in_use st)
        [video_stream0\<lparr>in_use := False\<rparr>]
   \<and> (case m2psdmx_setup_video two_files source_b (10000, 1000) 0
              (open_session, [video_stream0\<lparr>in_use := False\<rparr>], 0) of
         (s', sts', sy') \<Rightarrow> calls s' = [] \<and> out_count s' = 1 \<and> sts' = [video_stream0])
   \<and> list_ex (\<lambda>st. stream_type st = GF_STREAM_AUDIO \<and> \<not> in_use st)
        [\<lparr>opid = 0, stream_type = GF_STREAM_AUDIO, stream_num = 7, in_use = False\<rparr>]
   \<and> (case m2psdmx_setup_audio two_files source_b (10000, 1000) 0
              (open_session,
               [\<lparr>opid = 0, stream_type = GF_STREAM_AUDIO, stream_num = 7, in_use = False\<rparr>], 0) of
         (s', sts', sy') \<Rightarrow>
           calls s' = [] \<and> out_count s' = 1 \<and>
           sts' = [\<lparr>opid = 0, stream_type = GF_STREAM_AUDIO, stream_num = 0, in_use = True\<rparr>])"
  using C5_pins_are_pooled
    [of "session0 [file_pck] (path_prop ''b.mpg'')" 0 "''b.mpg''" playing_ctx one_video_ps
        GF_STREAM_VISUAL "[video_stream0, video_stream0\<lparr>opid := 1, in_use := False\<rparr>]"
        "[video_stream0]",
     where stv = "[video_stream0\<lparr>in_use := False\<rparr>]" and lib = two_files and hv = source_b
       and dur = "(10000, 1000)" and i = 0 and sv = open_session and sy = 0
       and sta = "[\<lparr>opid = 0, stream_type = GF_STREAM_AUDIO, stream_num = 7, in_use = False\<rparr>]"]
  by (simp add: session_eval demux_eval)

text \<open>
  C2: the claim is right for the demuxer and for an encoder that has already flushed,
  and the encoder breaks it before its first flush. \<^verbatim>\<open>ffenc_process_video\<close> and
  \<^verbatim>\<open>ffenc_process_audio\<close> test the end of the input stream only under \<^verbatim>\<open>flush_done\<close>:
  with no pending packet, the input pin not at end of stream and \<^verbatim>\<open>flush_done\<close> unset,
  the call submits the null frame to the codec engine and, when that yields no packet,
  sets \<^verbatim>\<open>flush_done\<close>, marks the output pin end-of-stream and returns \<^verbatim>\<open>GF_EOS\<close>.
\<close>

theorem C2_flush_without_eos:
  "(gf_filter_pid_get_packet (Some (in_pid cv)) sv = None \<and> \<not> in_eos sv (in_pid cv) \<and>
    \<not> flush_done cv \<and> \<not> out_blocked sv (out_pid cv) \<and> process_fn cv = FFENC_PROCESS_VIDEO \<and>
    avcodec_encode_video2 lib (encoder cv) (enc_buffer_size cv) None = (res, pkt, 0, c) \<longrightarrow>
      (case ffenc_process lib sv cv of
         (e, s', ctx') \<Rightarrow>
           e = GF_EOS \<and> new_calls sv s' = [ENCODE_VIDEO None] \<and> out_eos s' (out_pid cv) \<and>
           flush_done ctx'))
   \<and> (gf_filter_pid_get_packet (Some (in_pid ca)) sa = None \<and> \<not> in_eos sa (in_pid ca) \<and>
    \<not> flush_done ca \<and> \<not> out_blocked sa (out_pid ca) \<and> process_fn ca = FFENC_PROCESS_AUDIO \<and>
    avcodec_encode_audio2 lib (encoder ca) (enc_buffer_size ca) None = (res, pkt, 0, c) \<longrightarrow>
      (case ffenc_process lib sa ca of
         (e, s', ctx') \<Rightarrow>
           e = GF_EOS \<and> new_calls sa s' = [ENCODE_AUDIO None] \<and> out_eos s' (out_pid ca) \<and>
           flush_done ctx'))
   \<and> (gf_filter_pid_get_packet (Some (in_pid cd)) sd = None \<and> \<not> in_eos sd (in_pid cd) \<and>
       flush_done cd \<longrightarrow> ffenc_process lib sd cd = (GF_OK, sd, cd))
   \<and> (gf_filter_pid_get_packet (ipid dctx) ds = None \<longrightarrow>
        m2psdmx_process dlib ds dctx = (GF_OK, ds, dctx))"
  by (auto simp: ffenc_process_def ffenc_process_video_def ffenc_process_audio_def Let_def
      new_calls_def note_call_def gf_filter_pid_set_eos_def m2psdmx_process_def
      split: ffenc_proc.splits)

theorem C2_flush_without_eos_witness:
  "gf_filter_pid_get_packet (Some (in_pid (ffenc_video_ctx0 []))) (session0 [] (\<lambda>k. None)) = None
   \<and> \<not> in_eos (session0 [] (\<lambda>k. None)) (in_pid (ffenc_video_ctx0 []))
   \<and> \<not> flush_done (ffenc_video_ctx0 [])
   \<and> \<not> out_blocked (session0 [] (\<lambda>k. None)) (out_pid (ffenc_video_ctx0 []))
   \<and> (case ffenc_process (scripted_lib 0) (session0 [] (\<lambda>k. None)) (ffenc_video_ctx0 []) of
         (e, s', ctx') \<Rightarrow>
           e = GF_EOS \<and> calls s' = [ENCODE_VIDEO None] \<and> out_eos s' 0 \<and> flush_done ctx')
   \<and> (case ffenc_process (scripted_lib 0) (session0 [] (\<lambda>k. None)) (ffenc_audio_ctx0 []) of
         (e, s', ctx') \<Rightarrow>
           e = GF_EOS \<and> calls s' = [ENCODE_AUDIO None] \<and> out_eos s' 0 \<and> flush_done ctx')
   \<and> ffenc_process (scripted_lib 0) (session0 [] (\<lambda>k. None))
        ((ffenc_audio_ctx0 [])\<lparr>flush_done := True\<rparr>)
       = (GF_OK, session0 [] (\<lambda>k. None), (ffenc_audio_ctx0 [])\<lparr>flush_done := True\<rparr>)
   \<and> m2psdmx_process (mem_lib [] []) (session0 [] (\<lambda>k. None)) playing_ctx
       = (GF_OK, session0 [] (\<lambda>k. None), playing_ctx)"
  using C2_flush_without_eos
    [of "ffenc_video_ctx0 []" "session0 [] (\<lambda>k. None)" "scripted_lib 0" 0 empty_pkt "[]"
        "ffenc_audio_ctx0 []" "session0 [] (\<lambda>k. None)"
        "(ffenc_audio_ctx0 [])\<lparr>flush_done := True\<rparr>" "session0 [] (\<lambda>k. None)"
        playing_ctx "session0 [] (\<lambda>k. None)" "mem_lib [] []"]
  by (simp add: ffenc_eval session_eval playing_ctx_def m2psdmx_ctx0_def)

text \<open>
  C9, as the specification states it, fails on a flush call: with no pending packet, an
  encode call (of the null frame) that fails and yields no packet is not logged; the
  filter sets \<^verbatim>\<open>flush_done\<close>, marks the output pin end-of-stream and returns \<^verbatim>\<open>GF_EOS\<close>.
\<close>

theorem C9_flush_failure_ends_stream_counterexample:
  "gf_filter_pid_get_packet (Some 0) eos_session = None
   \<and> sint (fst (avcodec_encode_video2 (scripted_lib 0) [(- 1, empty_pkt, 0)] 8 None)) < 0
   \<and> (case ffenc_process (scripted_lib 0) eos_session (ffenc_video_ctx0 [(- 1, empty_pkt, 0)]) of
         (e, s', ctx') \<Rightarrow>
           e = GF_EOS \<and> calls s' = [ENCODE_VIDEO None] \<and> out_eos s' 0 \<and> flush_done ctx')"
  by (simp add: ffenc_eval session_eval)

text \<open>
  C9, amended: for every \<^verbatim>\<open>process\<close> call with a pending input packet in which the
  encode call fails, the error is logged, the input packet is dropped and the call
  returns \<^verbatim>\<open>GF_SERVICE_ERROR\<close>; the next call finds the next packet, and no pin is marked
  end-of-stream, removed or otherwise changed, nor is \<^verbatim>\<open>flush_done\<close> set. On a flush call
  (no pending packet) that yields no packet, whether or not the encode call failed, the
  filter sets \<^verbatim>\<open>flush_done\<close>, marks the output pin end-of-stream and returns \<^verbatim>\<open>GF_EOS\<close>.
\<close>

theorem C9_encode_failure_drops_packet:
  "(gf_filter_pid_get_packet (Some (in_pid cv)) sv = Some pv \<and>
    process_fn cv = FFENC_PROCESS_VIDEO \<and>
    ENCODE_VIDEO (Some fv) \<in> set (new_calls sv (fst (snd (ffenc_process lib sv cv)))) \<and>
    sint (fst (avcodec_encode_video2 lib (encoder cv) (enc_buffer_size cv) (Some fv))) < 0 \<longrightarrow>
      encode_failed_result (ENCODE_VIDEO (Some fv)) sv cv (ffenc_process lib sv cv))
   \<and> (gf_filter_pid_get_packet (Some (in_pid ca)) sa = Some pa \<and>
    process_fn ca = FFENC_PROCESS_AUDIO \<and>
    ENCODE_AUDIO (Some fa) \<in> set (new_calls sa (fst (snd (ffenc_process lib sa ca)))) \<and>
    sint (fst (avcodec_encode_audio2 lib (encoder ca) (enc_buffer_size ca) (Some fa))) < 0 \<longrightarrow>
      encode_failed_result (ENCODE_AUDIO (Some fa)) sa ca (ffenc_process lib sa ca))
   \<and> (gf_filter_pid_get_packet (Some (in_pid cf)) sf = None \<and>
       \<not> out_blocked sf (out_pid cf) \<and> (\<not> flush_done cf \<or> in_eos sf (in_pid cf)) \<and>
       process_fn cf = FFENC_PROCESS_VIDEO \<and>
       avcodec_encode_video2 lib (encoder cf) (enc_buffer_size cf) None = (res, pkt, 0, c) \<longrightarrow>
         (case ffenc_process lib sf cf of
            (e, s', ctx') \<Rightarrow>
              e = GF_EOS \<and> new_calls sf s' = [ENCODE_VIDEO None] \<and> out_eos s' (out_pid cf) \<and>
              flush_done ctx'))
   \<and> (gf_filter_pid_get_packet (Some (in_pid cg)) sg = None \<and>
       \<not> out_blocked sg (out_pid cg) \<and> (\<not> flush_done cg \<or> in_eos sg (in_pid cg)) \<and>
       process_fn cg = FFENC_PROCESS_AUDIO \<and>
       avcodec_encode_audio2 lib (encoder cg) (enc_buffer_size cg) None = (res, pkt, 0, c) \<longrightarrow>
         (case ffenc_process lib sg cg of
            (e, s', ctx') \<Rightarrow>
              e = GF_EOS \<and> new_calls sg s' = [ENCODE_AUDIO None] \<and> out_eos s' (out_pid cg) \<and>
              flush_done ctx'))"
proof (intro conjI impI)
  assume a: "gf_filter_pid_get_packet (Some (in_pid cv)) sv = Some pv \<and>
    process_fn cv = FFENC_PROCESS_VIDEO \<and>
    ENCODE_VIDEO (Some fv) \<in> set (new_calls sv (fst (snd (ffenc_process lib sv cv)))) \<and>
    sint (fst (avcodec_encode_video2 lib (encoder cv) (enc_buffer_size cv) (Some fv))) < 0"
  obtain e s' ctx' where r: "ffenc_process lib sv cv = (e, s', ctx')"
    by (metis prod_cases3)
  have nb: "\<not> out_blocked sv (out_pid cv)"
    using a r by (auto simp: ffenc_process_def new_calls_def)
  with a r have "ffenc_process_video lib sv cv = (e, s', ctx')"
    by (simp add: ffenc_process_def)
  from process_video_encode_fails[OF _ this, of pv fv] a r
  show "encode_failed_result (ENCODE_VIDEO (Some fv)) sv cv (ffenc_process lib sv cv)"
    by simp
next
  assume a: "gf_filter_pid_get_packet (Some (in_pid ca)) sa = Some pa \<and>
    process_fn ca = FFENC_PROCESS_AUDIO \<and>
    ENCODE_AUDIO (Some fa) \<in> set (new_calls sa (fst (snd (ffenc_process lib sa ca)))) \<and>
    sint (fst (avcodec_encode_audio2 lib (encoder ca) (enc_buffer_size ca) (Some fa))) < 0"
  obtain e s' ctx' where r: "ffenc_process lib sa ca = (e, s', ctx')"
    by (metis prod_cases3)
  have nb: "\<not> out_blocked sa (out_pid ca)"
    using a r by (auto simp: ffenc_process_def new_calls_def)
  with a r have "ffenc_process_audio lib sa ca = (e, s', ctx')"
    by (simp add: ffenc_process_def)
  from process_audio_encode_fails[OF _ this, of pa fa] a r
  show "encode_failed_result (ENCODE_AUDIO (Some fa)) sa ca (ffenc_process lib sa ca)"
    by simp
next
  assume "gf_filter_pid_get_packet (Some (in_pid cf)) sf = None \<and>
       \<not> out_blocked sf (out_pid cf) \<and> (\<not> flush_done cf \<or> in_eos sf (in_pid cf)) \<and>
       process_fn cf = FFENC_PROCESS_VIDEO \<and>
       avcodec_encode_video2 lib (encoder cf) (enc_buffer_size cf) None = (res, pkt, 0, c)"
  then show "case ffenc_process lib sf cf of
            (e, s', ctx') \<Rightarrow>
              e = GF_EOS \<and> new_calls sf s' = [ENCODE_VIDEO None] \<and> out_eos s' (out_pid cf) \<and>
              flush_done ctx'"
    by (auto simp: ffenc_process_def ffenc_process_video_def Let_def
        new_calls_def note_call_def gf_filter_pid_set_eos_def)
next
  assume "gf_filter_pid_get_packet (Some (in_pid cg)) sg = None \<and>
       \<not> out_blocked sg (out_pid cg) \<and> (\<not> flush_done cg \<or> in_eos sg (in_pid cg)) \<and>
       process_fn cg = FFENC_PROCESS_AUDIO \<and>
       avcodec_encode_audio2 lib (encoder cg) (enc_buffer_size cg) None = (res, pkt, 0, c)"
  then show "case ffenc_process lib sg cg of
            (e, s', ctx') \<Rightarrow>
              e = GF_EOS \<and> new_calls sg s' = [ENCODE_AUDIO None] \<and> out_eos s' (out_pid cg) \<and>
              flush_done ctx'"
    by (auto simp: ffenc_process_def ffenc_process_audio_def Let_def
        new_calls_def note_call_def gf_filter_pid_set_eos_def)
qed

theorem C9_encode_failure_drops_packet_witness:
  "gf_filter_pid_get_packet (Some 0) (session0 [video_pck 0, video_pck 1] (\<lambda>k. None))
     = Some (video_pck 0)
   \<and> sint (fst (avcodec_encode_video2 (scripted_lib 0) [(- 1, empty_pkt, 0)] 8
                  (Some video_frame_sent))) < 0
   \<and> (case ffenc_process (scripted_lib 0) (session0 [video_pck 0, video_pck 1] (\<lambda>k. None))
              (ffenc_video_ctx0 [(- 1, empty_pkt, 0)]) of
         (e, s', ctx') \<Rightarrow>
           e = GF_SERVICE_ERROR \<and>
           calls s' = [ENCODE_VIDEO (Some video_frame_sent), PID_DROP_PACKET 0,
                       LOG_ERROR ''Error encoding frame''] \<and>
           gf_filter_pid_get_packet (Some 0) s' = Some (video_pck 1) \<and>
           \<not> out_eos s' 0 \<and> out_pcks s' 0 = [] \<and> \<not> flush_done ctx')
   \<and> gf_filter_pid_get_packet (Some 0) (session0 [audio_pck 0, audio_pck 1] (\<lambda>k. None))
       = Some (audio_pck 0)
   \<and> (case ffenc_process (scripted_lib 0) (session0 [audio_pck 0, audio_pck 1] (\<lambda>k. None))
              (ffenc_audio_ctx0 [(- 1, empty_pkt, 0)]) of
         (e, s', ctx') \<Rightarrow>
           e = GF_SERVICE_ERROR \<and>
           calls s' = [ENCODE_AUDIO (Some audio_frame_sent), PID_DROP_PACKET 0,
                       LOG_ERROR ''Error encoding frame''] \<and>
           gf_filter_pid_get_packet (Some 0) s' = Some (audio_pck 1) \<and>
           \<not> out_eos s' 0 \<and> out_pcks s' 0 = [] \<and> \<not> flush_done ctx')
   \<and> gf_filter_pid_get_packet (Some 0) eos_session = None
   \<and> (case ffenc_process (scripted_lib 0) eos_session
              ((ffenc_audio_ctx0 [(- 1, empty_pkt, 0)])\<lparr>flush_done := True\<rparr>) of
         (e, s', ctx') \<Rightarrow> e = GF_EOS \<and> calls s' = [ENCODE_AUDIO None] \<and> out_eos s' 0)"
  using C9_encode_failure_drops_packet
    [of "ffenc_video_ctx0 [(- 1, empty_pkt, 0)]" "session0 [video_pck 0, video_pck 1] (\<lambda>k. None)"
        "video_pck 0" video_frame_sent "scripted_lib 0"
        "ffenc_audio_ctx0 [(- 1, empty_pkt, 0)]" "session0 [audio_pck 0, audio_pck 1] (\<lambda>k. None)"
        "audio_pck 0" audio_frame_sent
        "ffenc_video_ctx0 [(- 1, empty_pkt, 0)]" eos_session "- 1" empty_pkt "[]"
        "(ffenc_audio_ctx0 [(- 1, empty_pkt, 0)])\<lparr>flush_done := True\<rparr>" eos_session]
  by (simp add: ffenc_eval session_eval)

text \<open>
  C3: when the audio encoder emits a coded unit while the capture flag is set and the
  unit's pts differs from the pts of the submitted frame, it clears the flag and sets
  \<^verbatim>\<open>ts_shift\<close> to the 32-bit value of frame pts minus packet pts (their difference as
  an integer whenever that fits in 32 bits); a nonzero shift is published as the
  audio-skip property, scaled by \<^verbatim>\<open>sample_rate / timescale\<close> in signed 64-bit arithmetic;
  and the unit is sent with the shift added to its cts and dts. With the flag clear the
  output step changes nothing in the state and adds the stored shift to cts and dts, and
  no \<^verbatim>\<open>process\<close> call sets the flag again or changes the shift. For frame pts 1024, packet
  pts 960 and a timescale equal to the (nonzero) sample rate, the shift is 64, the
  published skip is 64 and the unit is sent with cts 1024.
\<close>

theorem C3_ts_shift_captured_once:
  "(init_cts_setup ctx \<and> 0 \<le> sint res \<and> g \<noteq> 0 \<and> pts (frame ctx) \<noteq> av_pts pkt \<longrightarrow>
      (case ffenc_audio_output res pkt g s ctx of
         (e, s', ctx') \<Rightarrow>
           e = GF_OK \<and> \<not> init_cts_setup ctx' \<and>
           ts_shift ctx' = ucast (pts (frame ctx) - av_pts pkt) \<and>
           (- (2 ^ 31) \<le> sint (pts (frame ctx)) - sint (av_pts pkt) \<and>
            sint (pts (frame ctx)) - sint (av_pts pkt) < 2 ^ 31 \<longrightarrow>
              sint (ts_shift ctx') = sint (pts (frame ctx)) - sint (av_pts pkt)) \<and>
           (ts_shift ctx' \<noteq> 0 \<longrightarrow>
              out_props s' (out_pid ctx) GF_PROP_PID_AUDIO_SKIP =
                Some (PROP_UINT (ucast (sdiv64 (scast (ts_shift ctx') * ucast (sample_rate ctx))
                                          (ucast (timescale ctx)))))) \<and>
           (\<exists>dst. out_pcks s' (out_pid ctx) = out_pcks s (out_pid ctx) @ [dst] \<and>
                  pck_cts dst = Some (av_pts pkt + scast (ts_shift ctx')) \<and>
                  pck_dts dst = Some (av_dts pkt + scast (ts_shift ctx')))))
   \<and> (\<not> init_cts_setup cn \<and> 0 \<le> sint res \<and> g \<noteq> 0 \<longrightarrow>
        (case ffenc_audio_output res pkt g s cn of
           (e, s', ctx') \<Rightarrow>
             e = GF_OK \<and> ctx' = cn \<and> out_props s' = out_props s \<and>
             (\<exists>dst. out_pcks s' (out_pid cn) = out_pcks s (out_pid cn) @ [dst] \<and>
                    pck_cts dst = Some (av_pts pkt + scast (ts_shift cn)) \<and>
                    pck_dts dst = Some (av_dts pkt + scast (ts_shift cn)))))
   \<and> (\<not> init_cts_setup cn \<longrightarrow>
        (case ffenc_process lib s cn of
           (e, s', ctx') \<Rightarrow> \<not> init_cts_setup ctx' \<and> ts_shift ctx' = ts_shift cn))
   \<and> (init_cts_setup cx \<and> 0 \<le> sint res \<and> g \<noteq> 0 \<and> pts (frame cx) = 1024 \<and>
       av_pts px = 960 \<and> timescale cx = sample_rate cx \<and> sample_rate cx \<noteq> 0 \<longrightarrow>
        (case ffenc_audio_output res px g s cx of
           (e, s', ctx') \<Rightarrow>
             ts_shift ctx' = 64 \<and>
             out_props s' (out_pid cx) GF_PROP_PID_AUDIO_SKIP = Some (PROP_UINT 64) \<and>
             pck_cts (last (out_pcks s' (out_pid cx))) = Some 1024))"
proof (intro conjI impI)
  assume a: "init_cts_setup ctx \<and> 0 \<le> sint res \<and> g \<noteq> 0 \<and> pts (frame ctx) \<noteq> av_pts pkt"
  then have f: "ffenc_audio_output res pkt g s ctx =
    (let sh = (ucast (pts (frame ctx) - av_pts pkt) :: s32);
         ctx' = ctx\<lparr>init_cts_setup := False, ts_shift := sh\<rparr>;
         s1 = (if sh \<noteq> 0
               then gf_filter_pid_set_property (out_pid ctx) GF_PROP_PID_AUDIO_SKIP
                      (Some (PROP_UINT (ucast (sdiv64 (scast sh * ucast (sample_rate ctx))
                                                (ucast (timescale ctx)))))) s
               else s)
     in (GF_OK, gf_filter_pck_send (out_pid ctx) (audio_dst pkt sh) s1, ctx'))"
    by (intro audio_output_first) simp_all
  show "case ffenc_audio_output res pkt g s ctx of
         (e, s', ctx') \<Rightarrow>
           e = GF_OK \<and> \<not> init_cts_setup ctx' \<and>
           ts_shift ctx' = ucast (pts (frame ctx) - av_pts pkt) \<and>
           (- (2 ^ 31) \<le> sint (pts (frame ctx)) - sint (av_pts pkt) \<and>
            sint (pts (frame ctx)) - sint (av_pts pkt) < 2 ^ 31 \<longrightarrow>
              sint (ts_shift ctx') = sint (pts (frame ctx)) - sint (av_pts pkt)) \<and>
           (ts_shift ctx' \<noteq> 0 \<longrightarrow>
              out_props s' (out_pid ctx) GF_PROP_PID_AUDIO_SKIP =
                Some (PROP_UINT (ucast (sdiv64 (scast (ts_shift ctx') * ucast (sample_rate ctx))
                                          (ucast (timescale ctx)))))) \<and>
           (\<exists>dst. out_pcks s' (out_pid ctx) = out_pcks s (out_pid ctx) @ [dst] \<and>
                  pck_cts dst = Some (av_pts pkt + scast (ts_shift ctx')) \<and>
                  pck_dts dst = Some (av_dts pkt + scast (ts_shift ctx')))"
    unfolding f
    by (simp add: Let_def gf_filter_pck_send_def gf_filter_pid_set_property_def audio_dst_def
        shift_int)
next
  assume "\<not> init_cts_setup cn \<and> 0 \<le> sint res \<and> g \<noteq> 0"
  then have "ffenc_audio_output res pkt g s cn =
     (GF_OK, gf_filter_pck_send (out_pid cn) (audio_dst pkt (ts_shift cn)) s, cn)"
    by (intro audio_output_next) simp_all
  then show "case ffenc_audio_output res pkt g s cn of
           (e, s', ctx') \<Rightarrow>
             e = GF_OK \<and> ctx' = cn \<and> out_props s' = out_props s \<and>
             (\<exists>dst. out_pcks s' (out_pid cn) = out_pcks s (out_pid cn) @ [dst] \<and>
                    pck_cts dst = Some (av_pts pkt + scast (ts_shift cn)) \<and>
                    pck_dts dst = Some (av_dts pkt + scast (ts_shift cn)))"
    by (simp add: gf_filter_pck_send_def audio_dst_def)
next
  assume "\<not> init_cts_setup cn"
  from process_later[OF this, of lib s]
  show "case ffenc_process lib s cn of
           (e, s', ctx') \<Rightarrow> \<not> init_cts_setup ctx' \<and> ts_shift ctx' = ts_shift cn"
    by (simp add: split_beta)
next
  assume a: "init_cts_setup cx \<and> 0 \<le> sint res \<and> g \<noteq> 0 \<and> pts (frame cx) = 1024 \<and>
       av_pts px = 960 \<and> timescale cx = sample_rate cx \<and> sample_rate cx \<noteq> 0"
  then have ne: "pts (frame cx) \<noteq> av_pts px" by simp
  have f: "ffenc_audio_output res px g s cx =
    (let sh = (ucast (pts (frame cx) - av_pts px) :: s32);
         ctx' = cx\<lparr>init_cts_setup := False, ts_shift := sh\<rparr>;
         s1 = (if sh \<noteq> 0
               then gf_filter_pid_set_property (out_pid cx) GF_PROP_PID_AUDIO_SKIP
                      (Some (PROP_UINT (ucast (sdiv64 (scast sh * ucast (sample_rate cx))
                                                (ucast (timescale cx)))))) s
               else s)
     in (GF_OK, gf_filter_pck_send (out_pid cx) (audio_dst px sh) s1, ctx'))"
    using a ne by (intro audio_output_first) simp_all
  have sh: "(ucast (pts (frame cx) - av_pts px) :: s32) = 64" using a by simp
  have sc: "sdiv64 (scast (64 :: s32) * ucast (sample_rate cx)) (ucast (sample_rate cx)) = 64"
    using a by (intro scale_same) simp
  show "case ffenc_audio_output res px g s cx of
           (e, s', ctx') \<Rightarrow>
             ts_shift ctx' = 64 \<and>
             out_props s' (out_pid cx) GF_PROP_PID_AUDIO_SKIP = Some (PROP_UINT 64) \<and>
             pck_cts (last (out_pcks s' (out_pid cx))) = Some 1024"
    unfolding f sh using a sc
    by (simp add: Let_def gf_filter_pck_send_def gf_filter_pid_set_property_def audio_dst_def)
qed

theorem C3_ts_shift_captured_once_witness:
  "init_cts_setup first_unit_ctx \<and> pts (frame first_unit_ctx) = 1024 \<and> av_pts (coded 960) = 960
   \<and> timescale first_unit_ctx = sample_rate first_unit_ctx \<and> sample_rate first_unit_ctx \<noteq> 0
   \<and> \<not> init_cts_setup (first_unit_ctx\<lparr>init_cts_setup := False, ts_shift := 64\<rparr>)
   \<and> (case ffenc_audio_output 0 (coded 960) 1 (session0 [] (\<lambda>k. None)) first_unit_ctx of
         (e, s', ctx') \<Rightarrow>
           e = GF_OK \<and> ctx' = first_unit_ctx\<lparr>init_cts_setup := False, ts_shift := 64\<rparr> \<and>
           out_props s' 0 GF_PROP_PID_AUDIO_SKIP = Some (PROP_UINT 64) \<and>
           map pck_cts (out_pcks s' 0) = [Some 1024] \<and> map pck_dts (out_pcks s' 0) = [Some 1024])
   \<and> (case ffenc_audio_output 0 (coded 1984) 1 (session0 [] (\<lambda>k. None))
              (first_unit_ctx\<lparr>init_cts_setup := False, ts_shift := 64\<rparr>) of
         (e, s', ctx') \<Rightarrow>
           ctx' = first_unit_ctx\<lparr>init_cts_setup := False, ts_shift := 64\<rparr> \<and>
           map pck_cts (out_pcks s' 0) = [Some 2048])
   \<and> (case ffenc_process (scripted_lib 0)
              (session0 [audio_pck 1024, audio_pck 2048] (\<lambda>k. None))
              (ffenc_audio_ctx0 [(0, coded 960, 1), (0, coded 1984, 1)]) of
         (e1, s1, c1) \<Rightarrow>
           (case ffenc_process (scripted_lib 0) s1 c1 of
              (e2, s2, c2) \<Rightarrow>
                e1 = GF_OK \<and> e2 = GF_OK \<and> ts_shift c1 = 64 \<and> ts_shift c2 = 64 \<and>
                map pck_cts (out_pcks s2 0) = [Some 1024, Some 2048] \<and>
                map pck_dts (out_pcks s2 0) = [Some 1024, Some 2048] \<and>
                out_props s2 0 GF_PROP_PID_AUDIO_SKIP = Some (PROP_UINT 64)))"
  using C3_ts_shift_captured_once
    [of first_unit_ctx 0 1 "coded 960" "session0 [] (\<lambda>k. None)"
        "first_unit_ctx\<lparr>init_cts_setup := False, ts_shift := 64\<rparr>" "scripted_lib 0"
        first_unit_ctx "coded 960"]
  by (simp add: ffenc_eval session_eval signed_divide_int_def)


end
